theory Spec2Isabelle
  imports Complex_Main
begin

section \<open>Data model\<close>

text \<open>
  The numbers of the program are C++ \<^verbatim>\<open>double\<close>s. The embedding computes with exact
  reals: every finite double is the real it denotes, and rounding is left out. The places
  where the source divides by a count that can be zero are modelled with the IEEE result
  (type \<open>dbl\<close> below), because HOL's own \<open>x / 0 = 0\<close> is not what the program does.
  The exact reals give the mathematical value of a result and never overflow. Where a
  property is about overflow or NaN, the code in question is embedded a second time in
  an arithmetic of doubles in which a result beyond the largest double is an infinity
  and the infinities and NaN propagate: the pooled bias of the response, and the
  objective \<open>parameterGradient\<close>.
\<close>

subsection \<open>Dense matrices (Eigen, column-major storage)\<close>

text \<open>
  \<^verbatim>\<open>MatrixXd\<close> and \<^verbatim>\<open>ArrayXXd\<close>: the shape and the contiguous storage that
  \<^verbatim>\<open>.data()\<close> returns. Eigen stores column after column, so entry \<open>(i, j)\<close> is
  \<open>data[j * rows + i]\<close>. A \<^verbatim>\<open>VectorXd\<close> is the list of its entries.
\<close>

record matrix =
  nrows :: nat
  ncols :: nat
  elems :: "real list"

definition coeff :: "matrix \<Rightarrow> nat \<Rightarrow> nat \<Rightarrow> real" where
  "coeff M i j = elems M ! (j * nrows M + i)"

definition msize :: "matrix \<Rightarrow> nat" where
  "msize M = nrows M * ncols M"

text \<open>A matrix built from its entries, stored column by column.\<close>

definition matrix_of :: "nat \<Rightarrow> nat \<Rightarrow> (nat \<Rightarrow> nat \<Rightarrow> real) \<Rightarrow> matrix" where
  "matrix_of r c f =
     \<lparr>nrows = r, ncols = c, elems = map (\<lambda>k. f (k mod r) (k div r)) [0..<r * c]\<rparr>"

text \<open>
  \<^verbatim>\<open>VectorLBFGS(p + offset, n)\<close> and \<^verbatim>\<open>MatrixLBFGS(p + offset, r, c)\<close> are Eigen maps
  over a span of a flat buffer. The source does not check the buffer's length (reading
  past its end is undefined in C++); callers pass a buffer of \<open>numParameters\<close> entries.
\<close>

definition VectorLBFGS :: "real list \<Rightarrow> nat \<Rightarrow> nat \<Rightarrow> real list" where
  "VectorLBFGS x offset n = take n (drop offset x)"

definition MatrixLBFGS :: "real list \<Rightarrow> nat \<Rightarrow> nat \<Rightarrow> nat \<Rightarrow> matrix" where
  "MatrixLBFGS x offset r c = \<lparr>nrows = r, ncols = c, elems = take (r * c) (drop offset x)\<rparr>"

subsection \<open>The Eigen operations the source uses\<close>

text \<open>
  Each operation gives the entries Eigen computes. Eigen asserts that the shapes of the
  operands fit (inner dimensions of a product, equal shapes of a sum); the shapes fit in
  every use below when the model satisfies its shape invariant and the inputs have the
  checked numbers of rows. The inner dimension of a product is the left operand's number
  of columns.
\<close>

definition transpose_m :: "matrix \<Rightarrow> matrix" where
  "transpose_m M = matrix_of (ncols M) (nrows M) (\<lambda>i j. coeff M j i)"

definition mmul :: "matrix \<Rightarrow> matrix \<Rightarrow> matrix" where
  "mmul A B = matrix_of (nrows A) (ncols B) (\<lambda>i j. \<Sum>k<ncols A. coeff A i k * coeff B k j)"

definition madd :: "matrix \<Rightarrow> matrix \<Rightarrow> matrix" where
  "madd A B = matrix_of (nrows A) (ncols A) (\<lambda>i j. coeff A i j + coeff B i j)"

definition msub :: "matrix \<Rightarrow> matrix \<Rightarrow> matrix" where
  "msub A B = matrix_of (nrows A) (ncols A) (\<lambda>i j. coeff A i j - coeff B i j)"

definition cwise :: "(real \<Rightarrow> real) \<Rightarrow> matrix \<Rightarrow> matrix" where
  "cwise f M = matrix_of (nrows M) (ncols M) (\<lambda>i j. f (coeff M i j))"

definition cwise_product :: "matrix \<Rightarrow> matrix \<Rightarrow> matrix" where
  "cwise_product A B = matrix_of (nrows A) (ncols A) (\<lambda>i j. coeff A i j * coeff B i j)"

definition square :: "matrix \<Rightarrow> matrix" where
  "square M = cwise (\<lambda>x. x * x) M"

definition scale :: "real \<Rightarrow> matrix \<Rightarrow> matrix" where
  "scale a M = cwise (\<lambda>x. a * x) M"

text \<open>\<^verbatim>\<open>M.colwise() += v\<close>: the vector is added to every column.\<close>

definition colwise_add :: "matrix \<Rightarrow> real list \<Rightarrow> matrix" where
  "colwise_add M v = matrix_of (nrows M) (ncols M) (\<lambda>i j. coeff M i j + v ! i)"

text \<open>\<^verbatim>\<open>M.rowwise() - v\<close> and \<^verbatim>\<open>M.array().rowwise() * v\<close>: the row vector is
  combined with every row.\<close>

definition rowwise_minus :: "matrix \<Rightarrow> real list \<Rightarrow> matrix" where
  "rowwise_minus M v = matrix_of (nrows M) (ncols M) (\<lambda>i j. coeff M i j - v ! j)"

definition rowwise_times :: "matrix \<Rightarrow> real list \<Rightarrow> matrix" where
  "rowwise_times M v = matrix_of (nrows M) (ncols M) (\<lambda>i j. coeff M i j * v ! j)"

definition rowwise_sum :: "matrix \<Rightarrow> real list" where
  "rowwise_sum M = map (\<lambda>i. \<Sum>j<ncols M. coeff M i j) [0..<nrows M]"

text \<open>\<^verbatim>\<open>M.block(startRow, startCol, blockRows, blockCols)\<close> and its special cases.\<close>

definition block :: "matrix \<Rightarrow> nat \<Rightarrow> nat \<Rightarrow> nat \<Rightarrow> nat \<Rightarrow> matrix" where
  "block M startRow startCol blockRows blockCols =
     matrix_of blockRows blockCols (\<lambda>i j. coeff M (startRow + i) (startCol + j))"

definition topRows :: "matrix \<Rightarrow> nat \<Rightarrow> matrix" where
  "topRows M n = block M 0 0 n (ncols M)"

definition bottomRows :: "matrix \<Rightarrow> nat \<Rightarrow> matrix" where
  "bottomRows M n = block M (nrows M - n) 0 n (ncols M)"

definition middleCols :: "matrix \<Rightarrow> nat \<Rightarrow> nat \<Rightarrow> matrix" where
  "middleCols M startCol n = block M 0 startCol (nrows M) n"

definition col :: "matrix \<Rightarrow> nat \<Rightarrow> real list" where
  "col M j = map (\<lambda>i. coeff M i j) [0..<nrows M]"

text \<open>\<^verbatim>\<open>v.transpose() * M\<close> for a column vector \<open>v\<close>: a row with one entry per column
  of \<open>M\<close>.\<close>

definition vec_transpose_times :: "real list \<Rightarrow> matrix \<Rightarrow> real list" where
  "vec_transpose_times v M = map (\<lambda>j. \<Sum>k<length v. v ! k * coeff M k j) [0..<ncols M]"

text \<open>\<^verbatim>\<open>M * v.transpose().matrix()\<close> for a row array \<open>v\<close>: a column with one entry per
  row of \<open>M\<close>.\<close>

definition times_vec :: "matrix \<Rightarrow> real list \<Rightarrow> real list" where
  "times_vec M v = map (\<lambda>i. \<Sum>k<ncols M. coeff M i k * v ! k) [0..<nrows M]"

text \<open>
  Modelled from the spec: \<^verbatim>\<open>logSumExp\<close> (declared in utils.h, which is not among the
  sources). Spec 4.1: the logsumexp over the components of every column, which subtracts
  the column's maximum before exponentiating. A column is never empty, because a model
  has at least one component; the first equation only makes the function total.
\<close>

fun logSumExp_column :: "real list \<Rightarrow> real" where
  "logSumExp_column [] = 0"
| "logSumExp_column (x # xs) =
     (let m = fold max xs x in m + ln (\<Sum>e\<leftarrow>x # xs. exp (e - m)))"

definition logSumExp :: "matrix \<Rightarrow> real list" where
  "logSumExp M = map (\<lambda>j. logSumExp_column (col M j)) [0..<ncols M]"

subsection \<open>Collaborators\<close>

text \<open>
  \<^verbatim>\<open>Nonlinearity\<close> (nonlinearities.h) is an abstract class with the optional facets
  \<^verbatim>\<open>InvertibleNonlinearity\<close> and \<^verbatim>\<open>DifferentiableNonlinearity\<close>; the source asks
  for a facet with \<^verbatim>\<open>dynamic_cast\<close> and gets a null pointer when it is absent, which
  is \<open>None\<close> here. Every implementation is applied entry by entry, so a facet is a
  function on one number. \<^verbatim>\<open>UnivariateDistribution\<close> supplies the log-likelihood of
  a data point under a mean and the derivative of the negative log-likelihood with
  respect to the mean.
\<close>

record nonlinearity =
  nl_apply :: "real \<Rightarrow> real"
  nl_inverse :: "(real \<Rightarrow> real) option"
  nl_derivative :: "(real \<Rightarrow> real) option"

record distribution =
  dist_logLikelihood :: "real \<Rightarrow> real \<Rightarrow> real"
  dist_gradient :: "real \<Rightarrow> real \<Rightarrow> real"

text \<open>
  Modelled from the spec: the implementations of \<^verbatim>\<open>LogisticFunction\<close>,
  \<^verbatim>\<open>ExponentialFunction\<close> (nonlinearities.h declares them, their bodies are not among
  the sources) and \<^verbatim>\<open>Bernoulli\<close>. Spec 4.2: the logistic function is
  \<open>1 / (1 + exp (- x))\<close> clamped into \<open>[\<epsilon>, 1 - \<epsilon>]\<close>, its derivative is
  \<open>\<sigma>(x) (1 - \<sigma>(x))\<close> and its inverse is the logit of the input clamped into
  \<open>[\<epsilon>, 1 - \<epsilon>]\<close>; the exponential function is \<open>exp x\<close> clamped below at \<open>\<epsilon>\<close>, is its
  own derivative and has inverse \<open>ln\<close>. Spec 4.3: the Bernoulli log-likelihood is
  \<open>data * ln mean + (1 - data) * ln (1 - mean)\<close> with the mean clamped away from 0 and 1
  by \<open>\<epsilon>\<close>, and its gradient is \<open>(mean - data) / (mean (1 - mean))\<close>. The default
  \<open>\<epsilon>\<close> is \<open>1e-12\<close> (nonlinearities.h:42, 58). They are the collaborators of the
  concrete models below; no general theorem depends on them.
\<close>

definition clamp_unit :: "real \<Rightarrow> real \<Rightarrow> real" where
  "clamp_unit eps x = min (1 - eps) (max eps x)"

definition LogisticFunction :: "real \<Rightarrow> nonlinearity" where
  "LogisticFunction eps =
     \<lparr>nl_apply = (\<lambda>x. clamp_unit eps (1 / (1 + exp (- x)))),
      nl_inverse = Some (\<lambda>y. ln (clamp_unit eps y / (1 - clamp_unit eps y))),
      nl_derivative = Some (\<lambda>x. (1 / (1 + exp (- x))) * (1 - 1 / (1 + exp (- x))))\<rparr>"

definition ExponentialFunction :: "real \<Rightarrow> nonlinearity" where
  "ExponentialFunction eps =
     \<lparr>nl_apply = (\<lambda>x. max eps (exp x)),
      nl_inverse = Some ln,
      nl_derivative = Some (\<lambda>x. max eps (exp x))\<rparr>"

definition Bernoulli :: "real \<Rightarrow> distribution" where
  "Bernoulli eps =
     \<lparr>dist_logLikelihood =
        (\<lambda>d m. d * ln (clamp_unit eps m) + (1 - d) * ln (1 - clamp_unit eps m)),
      dist_gradient =
        (\<lambda>d m. (clamp_unit eps m - d) / (clamp_unit eps m * (1 - clamp_unit eps m)))\<rparr>"

subsection \<open>The model and its training configuration\<close>

text \<open>
  The fields of \<^verbatim>\<open>CMT::STM\<close>. The dimensions are C++ \<^verbatim>\<open>int\<close>s; both constructors
  throw unless the input dimensionalities are non-negative and there is at least one
  component, and a negative feature count is replaced by the nonlinear input
  dimensionality, so a constructed model carries natural numbers.
\<close>

record STM =
  mDimInNonlinear :: nat
  mDimInLinear :: nat
  mNumComponents :: nat
  mNumFeatures :: nat
  mBiases :: "real list"
  mWeights :: matrix
  mFeatures :: matrix
  mPredictors :: matrix
  mLinearPredictor :: "real list"
  mNonlinearity :: nonlinearity
  mDistribution :: distribution

datatype Regularizer = L1 | L2

text \<open>
  \<^verbatim>\<open>Trainable::Parameters\<close> is declared in trainable.h, which is not among the sources;
  of its fields the code under study reads \<^verbatim>\<open>batchSize\<close> only.
\<close>

record Trainable_Parameters =
  batchSize :: int

record Parameters = Trainable_Parameters +
  trainBiases :: bool
  trainWeights :: bool
  trainFeatures :: bool
  trainPredictors :: bool
  trainLinearPredictor :: bool
  regularizeWeights :: real
  regularizeFeatures :: real
  regularizePredictors :: real
  regularizeLinearPredictor :: real
  regularizer :: Regularizer

text \<open>
  The shape invariant that the constructors establish (stm.cpp:116-120 and 146-150) and
  that every setter keeps.
\<close>

definition shaped :: "matrix \<Rightarrow> nat \<Rightarrow> nat \<Rightarrow> bool" where
  "shaped M r c \<longleftrightarrow> nrows M = r \<and> ncols M = c \<and> length (elems M) = r * c"

definition wf_STM :: "STM \<Rightarrow> bool" where
  "wf_STM stm \<longleftrightarrow>
     1 \<le> mNumComponents stm \<and>
     length (mBiases stm) = mNumComponents stm \<and>
     shaped (mWeights stm) (mNumComponents stm) (mNumFeatures stm) \<and>
     shaped (mFeatures stm) (mDimInNonlinear stm) (mNumFeatures stm) \<and>
     shaped (mPredictors stm) (mNumComponents stm) (mDimInNonlinear stm) \<and>
     length (mLinearPredictor stm) = mDimInLinear stm"

text \<open>
  \<^verbatim>\<open>CMT::Exception\<close> with its message. Modelled from the spec: the accessors
  \<^verbatim>\<open>dimIn()\<close>, \<^verbatim>\<open>dimOut()\<close>, \<^verbatim>\<open>dimInNonlinear()\<close>, \<^verbatim>\<open>dimInLinear()\<close> and
  \<^verbatim>\<open>numComponents()\<close> are inline functions of stm.h, which is not among the sources.
  The input dimensionality is the total of the nonlinear and the linear one (spec 4.7:
  "zero total input dimensionality"), and the output is a scalar (spec 1).
\<close>

datatype error = Exception string

definition dimInNonlinear :: "STM \<Rightarrow> nat" where
  "dimInNonlinear stm = mDimInNonlinear stm"

definition dimInLinear :: "STM \<Rightarrow> nat" where
  "dimInLinear stm = mDimInLinear stm"

definition dimIn :: "STM \<Rightarrow> nat" where
  "dimIn stm = mDimInNonlinear stm + mDimInLinear stm"

definition dimOut :: "STM \<Rightarrow> nat" where
  "dimOut stm = 1"

definition numComponents :: "STM \<Rightarrow> nat" where
  "numComponents stm = mNumComponents stm"

section \<open>The response function\<close>

text \<open>
  The joint energy of every component for every input column, as stm.cpp:232-234,
  260-262 and 277-279 compute it from the stored blocks, and stm.cpp:569-575 from the
  views of the objective.
\<close>

definition jointEnergy ::
  "matrix \<Rightarrow> matrix \<Rightarrow> matrix \<Rightarrow> real list \<Rightarrow> matrix \<Rightarrow> matrix" where
  "jointEnergy weights features predictors biases input =
     (let jointEnergy = mmul weights (square (mmul (transpose_m features) input));
          jointEnergy = madd jointEnergy (mmul predictors input);
          jointEnergy = colwise_add jointEnergy biases
      in jointEnergy)"

text \<open>
  stm.cpp:214-237 and 241-265. The two overloads of \<^verbatim>\<open>response\<close> call each other:
  the one-matrix overload splits its input when the model has linear inputs, the
  two-matrix overload hands over to the one-matrix one when it has none.
\<close>

function response :: "STM \<Rightarrow> matrix \<Rightarrow> error + real list"
  and response2 :: "STM \<Rightarrow> matrix \<Rightarrow> matrix \<Rightarrow> error + real list" where
  "response stm input =
     (if nrows input \<noteq> dimIn stm then Inl (Exception ''Input has wrong dimensionality.'')
      else if dimInLinear stm \<noteq> 0
      then response2 stm (topRows input (dimInNonlinear stm))
             (bottomRows input (dimInLinear stm))
      else if dimIn stm = 0
      then Inr (replicate (ncols input)
             (if numComponents stm > 1 then ln (\<Sum>b\<leftarrow>mBiases stm. exp b)
              else mBiases stm ! 0))
      else Inr (logSumExp
             (jointEnergy (mWeights stm) (mFeatures stm) (mPredictors stm) (mBiases stm) input)))"
| "response2 stm inputNonlinear inputLinear =
     (if dimInLinear stm = 0 then response stm inputNonlinear
      else if nrows inputNonlinear \<noteq> dimInNonlinear stm \<or> nrows inputLinear \<noteq> dimInLinear stm
      then Inl (Exception ''Input has wrong dimensionality.'')
      else if dimInNonlinear stm = 0
      then (let bias = (if numComponents stm > 1 then ln (\<Sum>b\<leftarrow>mBiases stm. exp b)
                        else mBiases stm ! 0)
            in Inr (map (\<lambda>r. r + bias) (vec_transpose_times (mLinearPredictor stm) inputLinear)))
      else Inr (map2 (+)
             (logSumExp
               (jointEnergy (mWeights stm) (mFeatures stm) (mPredictors stm) (mBiases stm)
                 inputNonlinear))
             (vec_transpose_times (mLinearPredictor stm) inputLinear)))"
  by pat_completeness auto
termination
  by (relation "measure (\<lambda>a. case a of
        Inl (stm, input) \<Rightarrow> (if dimInLinear stm \<noteq> 0 then 2 else 0)
      | Inr (stm, inputNonlinear, inputLinear) \<Rightarrow> 1)") auto

declare response.simps [simp del] response2.simps [simp del]

text \<open>
  stm.cpp:168-190 and 194-210. The distribution and the nonlinearity are applied entry by
  entry; the output has one row (\<open>dimOut\<close>), so its \<open>n\<close>-th entry is \<open>coeff output 0 n\<close>.
\<close>

definition distribution_logLikelihood :: "distribution \<Rightarrow> matrix \<Rightarrow> real list \<Rightarrow> real list" where
  "distribution_logLikelihood distr data means =
     map (\<lambda>n. dist_logLikelihood distr (coeff data 0 n) (means ! n)) [0..<ncols data]"

definition distribution_gradient :: "distribution \<Rightarrow> matrix \<Rightarrow> real list \<Rightarrow> real list" where
  "distribution_gradient distr data means =
     map (\<lambda>n. dist_gradient distr (coeff data 0 n) (means ! n)) [0..<ncols data]"

function logLikelihood :: "STM \<Rightarrow> matrix \<Rightarrow> matrix \<Rightarrow> error + real list"
  and logLikelihood2 :: "STM \<Rightarrow> matrix \<Rightarrow> matrix \<Rightarrow> matrix \<Rightarrow> error + real list" where
  "logLikelihood stm input output =
     (if nrows input \<noteq> dimIn stm then Inl (Exception ''Input has wrong dimensionality.'')
      else if dimInLinear stm \<noteq> 0
      then logLikelihood2 stm (topRows input (dimInNonlinear stm))
             (bottomRows input (dimInLinear stm)) output
      else if nrows output \<noteq> dimOut stm
      then Inl (Exception ''Output has wrong dimensionality.'')
      else if ncols input \<noteq> ncols output
      then Inl (Exception ''The number of inputs and outputs must be the same.'')
      else (case response stm input of
              Inl e \<Rightarrow> Inl e
            | Inr r \<Rightarrow> Inr (distribution_logLikelihood (mDistribution stm) output
                         (map (nl_apply (mNonlinearity stm)) r))))"
| "logLikelihood2 stm inputNonlinear inputLinear output =
     (if dimInLinear stm = 0 then logLikelihood stm inputNonlinear output
      else if nrows output \<noteq> dimOut stm
      then Inl (Exception ''Output has wrong dimensionality.'')
      else if nrows inputNonlinear \<noteq> dimInNonlinear stm \<or> nrows inputLinear \<noteq> dimInLinear stm
      then Inl (Exception ''Input has wrong dimensionality.'')
      else (case response2 stm inputNonlinear inputLinear of
              Inl e \<Rightarrow> Inl e
            | Inr r \<Rightarrow> Inr (distribution_logLikelihood (mDistribution stm) output
                         (map (nl_apply (mNonlinearity stm)) r))))"
  by pat_completeness auto
termination
  by (relation "measure (\<lambda>a. case a of
        Inl (stm, input, output) \<Rightarrow> (if dimInLinear stm \<noteq> 0 then 2 else 0)
      | Inr (stm, inputNonlinear, inputLinear, output) \<Rightarrow> 1)") auto

declare logLikelihood.simps [simp del] logLikelihood2.simps [simp del]

text \<open>
  The response as spec 4.1 writes it, entry by entry, to compare \<open>response2\<close> with:
  the joint energy of component \<open>c\<close> for column \<open>n\<close>, the logsumexp over the components
  as the mathematical function \<open>ln (\<Sum> exp)\<close>, and the additive linear term.
\<close>

definition jointEnergy_spec :: "STM \<Rightarrow> matrix \<Rightarrow> nat \<Rightarrow> nat \<Rightarrow> real" where
  "jointEnergy_spec stm X c n =
     (\<Sum>f<mNumFeatures stm. coeff (mWeights stm) c f *
        (\<Sum>d<mDimInNonlinear stm. coeff (mFeatures stm) d f * coeff X d n)\<^sup>2)
     + (\<Sum>d<mDimInNonlinear stm. coeff (mPredictors stm) c d * coeff X d n)
     + mBiases stm ! c"

definition logsumexp_spec :: "nat \<Rightarrow> (nat \<Rightarrow> real) \<Rightarrow> real" where
  "logsumexp_spec K e = ln (\<Sum>c<K. exp (e c))"

definition response_spec :: "STM \<Rightarrow> matrix \<Rightarrow> matrix \<Rightarrow> nat \<Rightarrow> real" where
  "response_spec stm X_nl X_l n =
     logsumexp_spec (mNumComponents stm) (\<lambda>c. jointEnergy_spec stm X_nl c n)
     + (\<Sum>d<mDimInLinear stm. mLinearPredictor stm ! d * coeff X_l d n)"

section \<open>Doubles that are not numbers\<close>

text \<open>
  The result of a floating-point division whose divisor can be zero: IEEE 754 gives an
  infinity for a non-zero dividend and NaN for \<open>0 / 0\<close>. Finite results are exact reals.
  The comparison \<^verbatim>\<open>a != b\<close> of C++ is true when either side is NaN, so that
  \<^verbatim>\<open>value != value\<close> holds for NaN and for nothing else.
\<close>

datatype dbl = Fin real | PInf | NInf | NaN

definition ddiv :: "real \<Rightarrow> real \<Rightarrow> dbl" where
  "ddiv x y =
     (if y \<noteq> 0 then Fin (x / y) else if 0 < x then PInf else if x < 0 then NInf else NaN)"

text \<open>Adding a finite number: the infinities and NaN absorb it.\<close>

fun dbl_plus :: "dbl \<Rightarrow> real \<Rightarrow> dbl" where
  "dbl_plus (Fin a) r = Fin (a + r)"
| "dbl_plus PInf r = PInf"
| "dbl_plus NInf r = NInf"
| "dbl_plus NaN r = NaN"

fun dbl_not_equal :: "dbl \<Rightarrow> dbl \<Rightarrow> bool" where
  "dbl_not_equal NaN b = True"
| "dbl_not_equal a NaN = True"
| "dbl_not_equal a b = (a \<noteq> b)"

text \<open>\<^verbatim>\<open>numeric_limits<double>::max()\<close>, the largest finite double.\<close>

definition DBL_MAX :: real where
  "DBL_MAX = (2 - 1 / 2 ^ 52) * 2 ^ 1023"

text \<open>\<^verbatim>\<open>M.array().mean()\<close>: the sum of all coefficients divided by their number.\<close>

definition array_sum :: "matrix \<Rightarrow> real" where
  "array_sum M = (\<Sum>k<msize M. elems M ! k)"

definition array_mean :: "matrix \<Rightarrow> dbl" where
  "array_mean M = ddiv (array_sum M) (real (msize M))"

section \<open>Training\<close>

text \<open>
  The generalized linear model of glm.h: its fields and the flags of its training
  configuration that stm.cpp:757-760 sets. The constructor, the default configuration
  and \<^verbatim>\<open>GLM::train\<close>, as well as the general optimizer \<^verbatim>\<open>Trainable::train\<close>, are
  defined in files that are not among the sources; \<open>train\<close> takes them as parameters.
  The constructor draws the initial weights at random, so \<open>GLM_new\<close> stands for the
  constructor together with the draws of one call. A collaborator that throws returns
  \<open>Inl\<close>; \<open>Trainable_train\<close> also returns the model it leaves behind.
\<close>

record GLM =
  glm_dimIn :: nat
  glm_weights :: "real list"
  glm_bias :: real
  glm_nonlinearity :: nonlinearity
  glm_distribution :: distribution

record GLM_Parameters = Trainable_Parameters +
  glm_trainWeights :: bool
  glm_trainBias :: bool

record externals =
  GLM_new :: "nat \<Rightarrow> nonlinearity \<Rightarrow> distribution \<Rightarrow> GLM"
  GLM_Parameters_new :: GLM_Parameters
  GLM_train :: "GLM \<Rightarrow> matrix \<Rightarrow> matrix \<Rightarrow> (matrix \<times> matrix) option \<Rightarrow> GLM_Parameters
                \<Rightarrow> error + bool \<times> GLM"
  Trainable_train :: "STM \<Rightarrow> matrix \<Rightarrow> matrix \<Rightarrow> matrix option \<Rightarrow> matrix option \<Rightarrow> Parameters
                \<Rightarrow> (error + bool) \<times> STM"

text \<open>
  The outcome \<open>NonFinite\<close> is not an exception of the source. With an output matrix that
  has no entries the source computes the mean \<open>0 / 0\<close>, which is NaN, and goes on to store
  what the inverse nonlinearity makes of it in every bias. The blocks of the model are
  reals here, so the model stops with this outcome instead of a bias.
\<close>

datatype failure = Thrown error | NonFinite

text \<open>
  stm.cpp:723-777. The result is the returned flag or the failure, and the model after
  the call; an exception leaves the model as it was. \<^verbatim>\<open>setConstant\<close> keeps the size of
  the vector.
\<close>

definition train ::
  "externals \<Rightarrow> matrix \<Rightarrow> matrix \<Rightarrow> matrix option \<Rightarrow> matrix option \<Rightarrow> Parameters \<Rightarrow> STM
     \<Rightarrow> (failure + bool) \<times> STM" where
  "train ext input output inputVal outputVal params stm =
     (if dimIn stm = 0 then
        (case nl_inverse (mNonlinearity stm) of
           None \<Rightarrow>
             (Inl (Thrown (Exception ''Nonlinearity has to be invertible for training.'')), stm)
         | Some nonlinearity_inverse \<Rightarrow>
             (case array_mean output of
                Fin mean \<Rightarrow>
                  (let mean = (if mean \<ge> 0 \<and> mean < 1 / 10 ^ 50 then 1 / 10 ^ 50 else mean)
                   in (Inr True,
                       stm\<lparr>mBiases := replicate (length (mBiases stm))
                              (nonlinearity_inverse mean - ln (real (numComponents stm)))\<rparr>))
              | _ \<Rightarrow> (Inl NonFinite, stm)))
      else if dimInNonlinear stm = 0 then
        (if dimInLinear stm \<noteq> nrows input
         then (Inl (Thrown (Exception ''Input has wrong dimensionality.'')), stm)
         else
           (let glm = GLM_new ext (dimInLinear stm) (mNonlinearity stm) (mDistribution stm);
                glmParams = GLM_Parameters_new ext;
                glmParams = glmParams\<lparr>batchSize := batchSize params\<rparr>;
                glmParams = (if trainLinearPredictor params
                             then glmParams\<lparr>glm_trainWeights := True\<rparr> else glmParams);
                glmParams = (if trainBiases params
                             then glmParams\<lparr>glm_trainBias := True\<rparr> else glmParams);
                trained = (case (inputVal, outputVal) of
                             (Some iv, Some ov) \<Rightarrow>
                               GLM_train ext glm input output (Some (iv, ov)) glmParams
                           | _ \<Rightarrow> GLM_train ext glm input output None glmParams)
            in case trained of
                 Inl e \<Rightarrow> (Inl (Thrown e), stm)
               | Inr (converged, glm) \<Rightarrow>
                   (Inr converged,
                    stm\<lparr>mLinearPredictor := glm_weights glm,
                        mBiases := replicate (length (mBiases stm))
                          (glm_bias glm - ln (real (numComponents stm)))\<rparr>)))
      else (case Trainable_train ext stm input output inputVal outputVal params of
              (Inl e, stm') \<Rightarrow> (Inl (Thrown e), stm')
            | (Inr converged, stm') \<Rightarrow> (Inr converged, stm')))"

text \<open>
  Modelled from the spec: the response of the plain-linear model (glm.cpp is not among
  the sources; spec 4.7 calls it a single generalized linear model): the weights' product
  with the input column plus the bias.
\<close>

definition GLM_response :: "GLM \<Rightarrow> matrix \<Rightarrow> real list" where
  "GLM_response glm input =
     map (\<lambda>n. (\<Sum>d<length (glm_weights glm). glm_weights glm ! d * coeff input d n)
               + glm_bias glm) [0..<ncols input]"

text \<open>
  The plain-linear model trained directly on the same data: a GLM constructed with the
  model's linear input dimensionality, nonlinearity and distribution, trained with the
  validation data when both parts are given, and with the flags of its configuration
  raised where the model's configuration trains the corresponding block.
\<close>

definition direct_GLM_fit ::
  "externals \<Rightarrow> matrix \<Rightarrow> matrix \<Rightarrow> matrix option \<Rightarrow> matrix option \<Rightarrow> Parameters \<Rightarrow> STM
     \<Rightarrow> error + bool \<times> GLM" where
  "direct_GLM_fit ext input output inputVal outputVal params stm =
     GLM_train ext (GLM_new ext (mDimInLinear stm) (mNonlinearity stm) (mDistribution stm))
       input output
       (case (inputVal, outputVal) of (Some iv, Some ov) \<Rightarrow> Some (iv, ov) | _ \<Rightarrow> None)
       ((GLM_Parameters_new ext)
          \<lparr>batchSize := batchSize params,
           glm_trainWeights :=
             trainLinearPredictor params \<or> glm_trainWeights (GLM_Parameters_new ext),
           glm_trainBias := trainBiases params \<or> glm_trainBias (GLM_Parameters_new ext)\<rparr>)"

section \<open>Packing the parameter blocks into a flat vector\<close>

text \<open>stm.cpp:414-429.\<close>

definition numParameters :: "Parameters \<Rightarrow> STM \<Rightarrow> nat" where
  "numParameters params stm =
     (let numParams = 0;
          numParams = (if trainBiases params then numParams + length (mBiases stm) else numParams);
          numParams = (if trainWeights params then numParams + msize (mWeights stm) else numParams);
          numParams = (if trainFeatures params then numParams + msize (mFeatures stm) else numParams);
          numParams = (if trainPredictors params then numParams + msize (mPredictors stm) else numParams);
          numParams = (if trainLinearPredictor params
                       then numParams + length (mLinearPredictor stm) else numParams)
      in numParams)"

text \<open>
  stm.cpp:433-456. Each loop copies \<^verbatim>\<open>data()[i]\<close> for \<open>i\<close> below the block's size
  to the next free cells of \<open>x\<close>.
\<close>

definition copy_data :: "real list \<Rightarrow> nat \<Rightarrow> real list" where
  "copy_data d n = map (\<lambda>i. d ! i) [0..<n]"

definition parameters :: "Parameters \<Rightarrow> STM \<Rightarrow> real list" where
  "parameters params stm =
     (let x = [];
          x = (if trainBiases params
               then x @ copy_data (mBiases stm) (length (mBiases stm)) else x);
          x = (if trainWeights params
               then x @ copy_data (elems (mWeights stm)) (msize (mWeights stm)) else x);
          x = (if trainFeatures params
               then x @ copy_data (elems (mFeatures stm)) (msize (mFeatures stm)) else x);
          x = (if trainPredictors params
               then x @ copy_data (elems (mPredictors stm)) (msize (mPredictors stm)) else x);
          x = (if trainLinearPredictor params
               then x @ copy_data (mLinearPredictor stm) (length (mLinearPredictor stm)) else x)
      in x)"

text \<open>
  stm.cpp:460-489. After an assignment from a map of \<open>n\<close> entries the block's
  \<^verbatim>\<open>size()\<close> is \<open>n\<close>, which is what the source adds to \<open>offset\<close>.
\<close>

definition setParameters :: "real list \<Rightarrow> Parameters \<Rightarrow> STM \<Rightarrow> STM" where
  "setParameters x params stm =
     (let offset = 0;
          (stm, offset) =
            (if trainBiases params
             then (stm\<lparr>mBiases := VectorLBFGS x 0 (mNumComponents stm)\<rparr>,
                   offset + mNumComponents stm)
             else (stm, offset));
          (stm, offset) =
            (if trainWeights params
             then (stm\<lparr>mWeights := MatrixLBFGS x offset (mNumComponents stm) (mNumFeatures stm)\<rparr>,
                   offset + mNumComponents stm * mNumFeatures stm)
             else (stm, offset));
          (stm, offset) =
            (if trainFeatures params
             then (stm\<lparr>mFeatures := MatrixLBFGS x offset (mDimInNonlinear stm) (mNumFeatures stm)\<rparr>,
                   offset + mDimInNonlinear stm * mNumFeatures stm)
             else (stm, offset));
          (stm, offset) =
            (if trainPredictors params
             then (stm\<lparr>mPredictors := MatrixLBFGS x offset (mNumComponents stm) (mDimInNonlinear stm)\<rparr>,
                   offset + mNumComponents stm * mDimInNonlinear stm)
             else (stm, offset));
          (stm, offset) =
            (if trainLinearPredictor params
             then (stm\<lparr>mLinearPredictor := VectorLBFGS x offset (mDimInLinear stm)\<rparr>,
                   offset + mDimInLinear stm)
             else (stm, offset))
      in stm)"

section \<open>The objective and its gradient\<close>

text \<open>
  stm.cpp:511-541. The parameter blocks the objective works with: a map over the span of
  \<open>x\<close> that holds a block when the block is trained, a map over the model's stored block
  otherwise; \<open>offset\<close> ends as the number of trained parameters.
\<close>

record views =
  biases :: "real list"
  weights :: matrix
  features :: matrix
  predictors :: matrix
  linearPredictor :: "real list"

definition parameter_views :: "real list \<Rightarrow> Parameters \<Rightarrow> STM \<Rightarrow> views \<times> nat" where
  "parameter_views x params stm =
     (let offset = 0;
          biases = (if trainBiases params then VectorLBFGS x 0 (mNumComponents stm)
                    else VectorLBFGS (mBiases stm) 0 (mNumComponents stm));
          offset = (if trainBiases params then offset + mNumComponents stm else offset);
          weights = (if trainWeights params
                     then MatrixLBFGS x offset (mNumComponents stm) (mNumFeatures stm)
                     else MatrixLBFGS (elems (mWeights stm)) 0
                            (mNumComponents stm) (mNumFeatures stm));
          offset = (if trainWeights params
                    then offset + mNumComponents stm * mNumFeatures stm else offset);
          features = (if trainFeatures params
                      then MatrixLBFGS x offset (dimInNonlinear stm) (mNumFeatures stm)
                      else MatrixLBFGS (elems (mFeatures stm)) 0
                             (dimInNonlinear stm) (mNumFeatures stm));
          offset = (if trainFeatures params
                    then offset + dimInNonlinear stm * mNumFeatures stm else offset);
          predictors = (if trainPredictors params
                        then MatrixLBFGS x offset (mNumComponents stm) (dimInNonlinear stm)
                        else MatrixLBFGS (elems (mPredictors stm)) 0
                               (mNumComponents stm) (dimInNonlinear stm));
          offset = (if trainPredictors params
                    then offset + mNumComponents stm * dimInNonlinear stm else offset);
          linearPredictor = (if trainLinearPredictor params
                             then VectorLBFGS x offset (dimInLinear stm)
                             else VectorLBFGS (mLinearPredictor stm) 0 (dimInLinear stm));
          offset = (if trainLinearPredictor params then offset + dimInLinear stm else offset)
      in (\<lparr>biases = biases, weights = weights, features = features,
           predictors = predictors, linearPredictor = linearPredictor\<rparr>, offset))"

text \<open>
  stm.cpp:515-555. The gradient buffer \<open>g\<close> holds the gradients of the trained blocks one
  after the other, in the order of the blocks. The source lays a view over \<open>g\<close> for every
  block; the view of a block that is not trained starts where the next trained block
  starts, and the source never reads or writes it (every access is guarded by the
  block's flag). The record keeps the five views apart, and \<open>flatten\<close> below puts the
  trained ones back together as \<open>g\<close>. The views of the trained blocks start as zeros.
\<close>

record gradient =
  biasesGrad :: "real list"
  weightsGrad :: matrix
  featuresGrad :: matrix
  predictorsGrad :: matrix
  linearPredictorGrad :: "real list"

definition setZero :: "STM \<Rightarrow> gradient" where
  "setZero stm =
     \<lparr>biasesGrad = replicate (mNumComponents stm) 0,
      weightsGrad = matrix_of (mNumComponents stm) (mNumFeatures stm) (\<lambda>i j. 0),
      featuresGrad = matrix_of (dimInNonlinear stm) (mNumFeatures stm) (\<lambda>i j. 0),
      predictorsGrad = matrix_of (mNumComponents stm) (dimInNonlinear stm) (\<lambda>i j. 0),
      linearPredictorGrad = replicate (dimInLinear stm) 0\<rparr>"

text \<open>
  stm.cpp:558-562. The loop \<^verbatim>\<open>for(b = 0; b < numData; b += batchSize)\<close> with
  \<open>batchSize = min (max params.batchSize 10) numData\<close>: the starts of the batches. The
  step is positive whenever the loop is entered, since then \<open>numData\<close> is positive. For
  an empty data set the step is zero: read as a sequential loop, the loop is not
  entered, which is what \<open>for_batches\<close> returns; OpenMP leaves a loop with a zero
  increment undefined.
\<close>

definition batch_size :: "int \<Rightarrow> nat \<Rightarrow> nat" where
  "batch_size configured numData = nat (min (max configured 10) (int numData))"

function for_batches :: "int \<Rightarrow> nat \<Rightarrow> nat \<Rightarrow> nat list" where
  "for_batches configured numData b =
     (if b < numData
      then b # for_batches configured numData (b + batch_size configured numData)
      else [])"
  by pat_completeness auto
termination
  by (relation "measure (\<lambda>(configured, numData, b). numData - b)")
     (auto simp add: batch_size_def)

declare for_batches.simps [simp del]

text \<open>
  stm.cpp:563-623, the body of the loop for the batch that starts at column \<open>b\<close>, on the
  running log-likelihood and the gradient views. \<open>step\<close> is the local \<^verbatim>\<open>batchSize\<close> of
  the source, \<open>derivative\<close> is the derivative of the nonlinearity, and \<open>want_gradient\<close>
  says whether \<open>g\<close> is a buffer or null.
\<close>

definition batch_body ::
  "STM \<Rightarrow> Parameters \<Rightarrow> views \<Rightarrow> (real \<Rightarrow> real) \<Rightarrow> bool \<Rightarrow> matrix \<Rightarrow> matrix \<Rightarrow> nat \<Rightarrow> nat
     \<Rightarrow> real \<times> gradient \<Rightarrow> real \<times> gradient" where
  "batch_body stm params v derivative want_gradient inputCompl outputCompl step b acc =
     (let numData = ncols inputCompl;
          width = min step (numData - b);
          inputNonlinear = block inputCompl 0 b (dimInNonlinear stm) width;
          inputLinear = block inputCompl (dimInNonlinear stm) b (dimInLinear stm) width;
          output = middleCols outputCompl b width;
          featureOutput = mmul (transpose_m (features v)) inputNonlinear;
          featureOutputSq = square featureOutput;
          jointEnergy = madd (mmul (weights v) featureOutputSq) (mmul (predictors v) inputNonlinear);
          jointEnergy = colwise_add jointEnergy (biases v);
          response = logSumExp jointEnergy;
          posterior = cwise exp (rowwise_minus jointEnergy response);
          response = (if dimInLinear stm \<noteq> 0
                      then map2 (+) response (vec_transpose_times (linearPredictor v) inputLinear)
                      else response);
          means = map (nl_apply (mNonlinearity stm)) response;
          logLikBatch = sum_list (distribution_logLikelihood (mDistribution stm) output means);
          logLik = fst acc + logLikBatch;
          grads = snd acc
      in if \<not> want_gradient then (logLik, grads)
         else
           (let tmp = map2 (\<lambda>gr d. - gr * d)
                        (distribution_gradient (mDistribution stm) output means)
                        (map derivative response);
                postTmp = rowwise_times posterior tmp;
                grads = (if trainBiases params
                         then grads\<lparr>biasesGrad :=
                                map2 (-) (biasesGrad grads) (rowwise_sum postTmp)\<rparr>
                         else grads);
                grads = (if trainWeights params
                         then grads\<lparr>weightsGrad :=
                                msub (weightsGrad grads)
                                  (mmul postTmp (transpose_m featureOutputSq))\<rparr>
                         else grads);
                grads = (if trainFeatures params
                         then (let tmp2 = mmul (scale 2 (transpose_m (weights v))) postTmp;
                                   tmp3 = cwise_product featureOutput tmp2
                               in grads\<lparr>featuresGrad :=
                                    msub (featuresGrad grads)
                                      (mmul inputNonlinear (transpose_m tmp3))\<rparr>)
                         else grads);
                grads = (if trainPredictors params
                         then grads\<lparr>predictorsGrad :=
                                msub (predictorsGrad grads)
                                  (mmul postTmp (transpose_m inputNonlinear))\<rparr>
                         else grads);
                grads = (if trainLinearPredictor params \<and> dimInLinear stm \<noteq> 0
                         then grads\<lparr>linearPredictorGrad :=
                                map2 (-) (linearPredictorGrad grads) (times_vec inputLinear tmp)\<rparr>
                         else grads)
            in (logLik, grads)))"

text \<open>
  The loop under \<^verbatim>\<open>#pragma omp parallel for\<close>: the bodies of the batches run in some
  order, each update of a shared accumulator inside a critical section. \<open>run_batches\<close>
  runs the bodies in the order of a given list of batch starts; the sequential order is
  \<open>for_batches\<close>.
\<close>

definition run_batches ::
  "STM \<Rightarrow> Parameters \<Rightarrow> views \<Rightarrow> (real \<Rightarrow> real) \<Rightarrow> bool \<Rightarrow> matrix \<Rightarrow> matrix \<Rightarrow> nat \<Rightarrow> nat list
     \<Rightarrow> real \<times> gradient" where
  "run_batches stm params v derivative want_gradient inputCompl outputCompl step order =
     fold (batch_body stm params v derivative want_gradient inputCompl outputCompl step)
       order (0, setZero stm)"

text \<open>
  Modelled from the spec: \<^verbatim>\<open>signum\<close> (utils.h, not among the sources) is the sign with
  \<open>sign 0 = 0\<close> (spec 4.6), which is \<open>sgn\<close>.

  stm.cpp:626-663. The normalisation of \<open>g\<close> and the gradient of the regularizer. The
  division by \<open>normConst\<close> is a floating-point division, and \<open>normConst\<close> is zero for an
  empty data set.
\<close>

definition normConst :: "matrix \<Rightarrow> STM \<Rightarrow> real" where
  "normConst inputCompl stm = real (ncols inputCompl) * ln 2 * real (dimOut stm)"

record gradient_blocks =
  gBiases :: "dbl list"
  gWeights :: "dbl list"
  gFeatures :: "dbl list"
  gPredictors :: "dbl list"
  gLinearPredictor :: "dbl list"

definition normalize_gradient :: "gradient \<Rightarrow> real \<Rightarrow> gradient_blocks" where
  "normalize_gradient grads c =
     \<lparr>gBiases = map (\<lambda>e. ddiv e c) (biasesGrad grads),
      gWeights = map (\<lambda>e. ddiv e c) (elems (weightsGrad grads)),
      gFeatures = map (\<lambda>e. ddiv e c) (elems (featuresGrad grads)),
      gPredictors = map (\<lambda>e. ddiv e c) (elems (predictorsGrad grads)),
      gLinearPredictor = map (\<lambda>e. ddiv e c) (linearPredictorGrad grads)\<rparr>"

definition regularizer_gradient :: "Parameters \<Rightarrow> views \<Rightarrow> gradient_blocks \<Rightarrow> gradient_blocks" where
  "regularizer_gradient params v g =
     (case regularizer params of
        L1 \<Rightarrow>
          (let g = (if trainFeatures params \<and> regularizeFeatures params > 0
                    then g\<lparr>gFeatures := map2 dbl_plus (gFeatures g)
                           (map (\<lambda>t. regularizeFeatures params * sgn t) (elems (features v)))\<rparr>
                    else g);
               g = (if trainPredictors params \<and> regularizePredictors params > 0
                    then g\<lparr>gPredictors := map2 dbl_plus (gPredictors g)
                           (map (\<lambda>t. regularizePredictors params * sgn t) (elems (predictors v)))\<rparr>
                    else g);
               g = (if trainWeights params \<and> regularizeWeights params > 0
                    then g\<lparr>gWeights := map2 dbl_plus (gWeights g)
                           (map (\<lambda>t. regularizeWeights params * sgn t) (elems (weights v)))\<rparr>
                    else g);
               g = (if trainLinearPredictor params \<and> regularizeLinearPredictor params > 0
                    then g\<lparr>gLinearPredictor := map2 dbl_plus (gLinearPredictor g)
                           (map (\<lambda>t. regularizeLinearPredictor params * sgn t) (linearPredictor v))\<rparr>
                    else g)
           in g)
      | L2 \<Rightarrow>
          (let g = (if trainFeatures params \<and> regularizeFeatures params > 0
                    then g\<lparr>gFeatures := map2 dbl_plus (gFeatures g)
                           (map (\<lambda>t. regularizeFeatures params * 2 * t) (elems (features v)))\<rparr>
                    else g);
               g = (if trainPredictors params \<and> regularizePredictors params > 0
                    then g\<lparr>gPredictors := map2 dbl_plus (gPredictors g)
                           (map (\<lambda>t. regularizePredictors params * 2 * t) (elems (predictors v)))\<rparr>
                    else g);
               g = (if trainWeights params \<and> regularizeWeights params > 0
                    then g\<lparr>gWeights := map2 dbl_plus (gWeights g)
                           (map (\<lambda>t. regularizeWeights params * 2 * t) (elems (weights v)))\<rparr>
                    else g);
               g = (if trainLinearPredictor params \<and> regularizeLinearPredictor params > 0
                    then g\<lparr>gLinearPredictor := map2 dbl_plus (gLinearPredictor g)
                           (map (\<lambda>t. regularizeLinearPredictor params * 2 * t) (linearPredictor v))\<rparr>
                    else g)
           in g))"

text \<open>The buffer \<open>g\<close> after the call: the views of the trained blocks, in order.\<close>

definition flatten :: "Parameters \<Rightarrow> gradient_blocks \<Rightarrow> dbl list" where
  "flatten params g =
     (if trainBiases params then gBiases g else []) @
     (if trainWeights params then gWeights g else []) @
     (if trainFeatures params then gFeatures g else []) @
     (if trainPredictors params then gPredictors g else []) @
     (if trainLinearPredictor params then gLinearPredictor g else [])"

text \<open>stm.cpp:665-697. The value of the regularizer is added to the normalised loss.\<close>

definition regularizer_value :: "Parameters \<Rightarrow> views \<Rightarrow> dbl \<Rightarrow> dbl" where
  "regularizer_value params v val =
     (case regularizer params of
        L1 \<Rightarrow>
          (let val = (if trainFeatures params \<and> regularizeFeatures params > 0
                      then dbl_plus val
                             (regularizeFeatures params * (\<Sum>t\<leftarrow>elems (features v). \<bar>t\<bar>))
                      else val);
               val = (if trainPredictors params \<and> regularizePredictors params > 0
                      then dbl_plus val
                             (regularizePredictors params * (\<Sum>t\<leftarrow>elems (predictors v). \<bar>t\<bar>))
                      else val);
               val = (if trainWeights params \<and> regularizeWeights params > 0
                      then dbl_plus val
                             (regularizeWeights params * (\<Sum>t\<leftarrow>elems (weights v). \<bar>t\<bar>))
                      else val);
               val = (if trainLinearPredictor params \<and> regularizeLinearPredictor params > 0
                      then dbl_plus val
                             (regularizeLinearPredictor params * (\<Sum>t\<leftarrow>linearPredictor v. \<bar>t\<bar>))
                      else val)
           in val)
      | L2 \<Rightarrow>
          (let val = (if trainFeatures params \<and> regularizeFeatures params > 0
                      then dbl_plus val
                             (regularizeFeatures params * (\<Sum>t\<leftarrow>elems (features v). t * t))
                      else val);
               val = (if trainPredictors params \<and> regularizePredictors params > 0
                      then dbl_plus val
                             (regularizePredictors params * (\<Sum>t\<leftarrow>elems (predictors v). t * t))
                      else val);
               val = (if trainWeights params \<and> regularizeWeights params > 0
                      then dbl_plus val
                             (regularizeWeights params * (\<Sum>t\<leftarrow>elems (weights v). t * t))
                      else val);
               val = (if trainLinearPredictor params \<and> regularizeLinearPredictor params > 0
                      then dbl_plus val
                             (regularizeLinearPredictor params * (\<Sum>t\<leftarrow>linearPredictor v. t * t))
                      else val)
           in val))"

text \<open>
  stm.cpp:506-697, the objective once the nonlinearity is known to be differentiable: the
  value before the test for NaN, and the buffer \<open>g\<close> after the call. The argument \<open>g\<close>
  is \<open>None\<close> for a null pointer; the contents of a buffer do not matter, because every
  trained view is set to zero first. Over the exact reals the only value that is not a
  number is the \<open>0 / 0\<close> of an empty data set; the NaN that overflow produces is the
  subject of \<open>objective_double\<close> below.
\<close>

definition objective ::
  "matrix \<Rightarrow> matrix \<Rightarrow> real list \<Rightarrow> real list option \<Rightarrow> Parameters \<Rightarrow> STM \<Rightarrow> (real \<Rightarrow> real)
     \<Rightarrow> dbl \<times> dbl list option" where
  "objective inputCompl outputCompl x g params stm derivative =
     (let (v, offset) = parameter_views x params stm;
          numData = ncols inputCompl;
          step = batch_size (batchSize params) numData;
          (logLik, grads) =
            run_batches stm params v derivative (g \<noteq> None) inputCompl outputCompl step
              (for_batches (batchSize params) numData 0);
          g = (case g of
                 None \<Rightarrow> None
               | Some buffer \<Rightarrow>
                   Some (flatten params
                     (regularizer_gradient params v
                       (normalize_gradient grads (normConst inputCompl stm)))));
          val = ddiv (- logLik) (normConst inputCompl stm);
          val = regularizer_value params v val
      in (val, g))"

text \<open>stm.cpp:493-704.\<close>

definition parameterGradient ::
  "matrix \<Rightarrow> matrix \<Rightarrow> real list \<Rightarrow> real list option \<Rightarrow> Parameters \<Rightarrow> STM
     \<Rightarrow> error + dbl \<times> dbl list option" where
  "parameterGradient inputCompl outputCompl x g params stm =
     (case nl_derivative (mNonlinearity stm) of
        None \<Rightarrow> Inl (Exception ''Nonlinearity has to be differentiable for training.'')
      | Some derivative \<Rightarrow>
          (let (val, g) = objective inputCompl outputCompl x g params stm derivative;
               val = (if dbl_not_equal val val then Fin DBL_MAX else val)
           in Inr (val, g)))"

section \<open>The pooled bias in double arithmetic\<close>

text \<open>
  Double arithmetic with overflow: a result above the largest double is \<open>+\<infinity>\<close>, one
  below its negative is \<open>-\<infinity>\<close>, and the infinities and NaN propagate as in IEEE 754.
  The rounding of finite results and underflow are left out. \<open>dbl_sum\<close> is Eigen's
  \<^verbatim>\<open>sum()\<close>.
\<close>

definition dbl_of_real :: "real \<Rightarrow> dbl" where
  "dbl_of_real r = (if DBL_MAX < r then PInf else if r < - DBL_MAX then NInf else Fin r)"

fun dbl_exp :: "dbl \<Rightarrow> dbl" where
  "dbl_exp (Fin x) = dbl_of_real (exp x)"
| "dbl_exp PInf = PInf"
| "dbl_exp NInf = Fin 0"
| "dbl_exp NaN = NaN"

fun dbl_add :: "dbl \<Rightarrow> dbl \<Rightarrow> dbl" where
  "dbl_add (Fin a) (Fin b) = dbl_of_real (a + b)"
| "dbl_add NaN b = NaN"
| "dbl_add a NaN = NaN"
| "dbl_add PInf NInf = NaN"
| "dbl_add NInf PInf = NaN"
| "dbl_add PInf b = PInf"
| "dbl_add a PInf = PInf"
| "dbl_add NInf b = NInf"
| "dbl_add a NInf = NInf"

fun dbl_log :: "dbl \<Rightarrow> dbl" where
  "dbl_log (Fin x) = (if 0 < x then Fin (ln x) else if x = 0 then NInf else NaN)"
| "dbl_log PInf = PInf"
| "dbl_log NInf = NaN"
| "dbl_log NaN = NaN"

definition dbl_sum :: "dbl list \<Rightarrow> dbl" where
  "dbl_sum xs = foldl dbl_add (Fin 0) xs"

text \<open>
  The expression \<^verbatim>\<open>numComponents() > 1 ? log(mBiases.array().exp().sum()) : mBiases[0]\<close>
  of stm.cpp:229 and stm.cpp:255, which is the pooled response of the components of a
  model without nonlinear inputs, evaluated in this arithmetic.
\<close>

definition pooled_bias_double :: "STM \<Rightarrow> dbl" where
  "pooled_bias_double stm =
     (if numComponents stm > 1
      then dbl_log (dbl_sum (map (\<lambda>b. dbl_exp (Fin b)) (mBiases stm)))
      else Fin (mBiases stm ! 0))"

text \<open>
  Modelled from the spec: \<^verbatim>\<open>logSumExp\<close> (utils.h, not among the sources) for one
  column, in the same arithmetic: the maximum is subtracted before exponentiating
  (spec 4.1).
\<close>

fun logSumExp_column_double :: "real list \<Rightarrow> dbl" where
  "logSumExp_column_double [] = Fin 0"
| "logSumExp_column_double (x # xs) =
     (let m = fold max xs x
      in dbl_add (Fin m) (dbl_log (dbl_sum (map (\<lambda>e. dbl_exp (Fin (e - m))) (x # xs)))))"

section \<open>The objective in double arithmetic\<close>

text \<open>
  \<open>parameterGradient\<close> once more, with every intermediate result a double in the
  arithmetic of the previous section, so that a result can overflow and the objective can
  become NaN as it does in the program. The data, the vector \<open>x\<close>, the stored blocks and
  the coefficients of the regularizer are finite doubles and are given by their real
  values, as before. Rounding and underflow are left out, zero carries no sign (a
  division by zero takes the sign of the dividend), and a sum adds its terms from the
  first to the last.
\<close>

fun dbl_neg :: "dbl \<Rightarrow> dbl" where
  "dbl_neg (Fin a) = Fin (- a)"
| "dbl_neg PInf = NInf"
| "dbl_neg NInf = PInf"
| "dbl_neg NaN = NaN"

definition dbl_sub :: "dbl \<Rightarrow> dbl \<Rightarrow> dbl" where
  "dbl_sub a b = dbl_add a (dbl_neg b)"

text \<open>The infinity with the sign of \<open>s\<close>, and NaN when \<open>s\<close> is zero; the sign of a double.\<close>

definition signed_infinity :: "real \<Rightarrow> dbl" where
  "signed_infinity s = (if 0 < s then PInf else if s < 0 then NInf else NaN)"

fun dbl_sgn :: "dbl \<Rightarrow> real" where
  "dbl_sgn (Fin a) = sgn a"
| "dbl_sgn PInf = 1"
| "dbl_sgn NInf = - 1"
| "dbl_sgn NaN = 0"

text \<open>
  A product with an infinite factor is the infinity with the product of the signs, and
  NaN when the other factor is zero.
\<close>

fun dbl_mul :: "dbl \<Rightarrow> dbl \<Rightarrow> dbl" where
  "dbl_mul (Fin a) (Fin b) = dbl_of_real (a * b)"
| "dbl_mul NaN b = NaN"
| "dbl_mul a NaN = NaN"
| "dbl_mul a b = signed_infinity (dbl_sgn a * dbl_sgn b)"

text \<open>
  A finite number divided by zero is an infinity, or NaN for \<open>0 / 0\<close>; a finite number
  divided by an infinity is zero; an infinity divided by a finite number is an infinity;
  an infinity divided by an infinity is NaN.
\<close>

fun dbl_div :: "dbl \<Rightarrow> dbl \<Rightarrow> dbl" where
  "dbl_div (Fin a) (Fin b) = (if b \<noteq> 0 then dbl_of_real (a / b) else signed_infinity a)"
| "dbl_div NaN b = NaN"
| "dbl_div a NaN = NaN"
| "dbl_div (Fin a) b = Fin 0"
| "dbl_div a (Fin b) = signed_infinity (dbl_sgn a * (if b < 0 then - 1 else 1))"
| "dbl_div a b = NaN"

text \<open>The comparison \<^verbatim>\<open>a < b\<close>, which is false when either side is NaN.\<close>

fun dbl_less :: "dbl \<Rightarrow> dbl \<Rightarrow> bool" where
  "dbl_less (Fin a) (Fin b) = (a < b)"
| "dbl_less NaN b = False"
| "dbl_less a NaN = False"
| "dbl_less NInf b = (b \<noteq> NInf)"
| "dbl_less a PInf = (a \<noteq> PInf)"
| "dbl_less a b = False"

subsection \<open>Matrices of doubles\<close>

text \<open>
  The intermediate matrices of the objective, with the Eigen operations of the first
  section in double arithmetic. \<open>doubles\<close> reads a matrix of finite doubles.
\<close>

record dmatrix =
  drows :: nat
  dcols :: nat
  delems :: "dbl list"

definition dcoeff :: "dmatrix \<Rightarrow> nat \<Rightarrow> nat \<Rightarrow> dbl" where
  "dcoeff M i j = delems M ! (j * drows M + i)"

definition dmatrix_of :: "nat \<Rightarrow> nat \<Rightarrow> (nat \<Rightarrow> nat \<Rightarrow> dbl) \<Rightarrow> dmatrix" where
  "dmatrix_of r c f =
     \<lparr>drows = r, dcols = c, delems = map (\<lambda>k. f (k mod r) (k div r)) [0..<r * c]\<rparr>"

definition doubles :: "matrix \<Rightarrow> dmatrix" where
  "doubles M = \<lparr>drows = nrows M, dcols = ncols M, delems = map Fin (elems M)\<rparr>"

definition dtranspose :: "dmatrix \<Rightarrow> dmatrix" where
  "dtranspose M = dmatrix_of (dcols M) (drows M) (\<lambda>i j. dcoeff M j i)"

definition dmmul :: "dmatrix \<Rightarrow> dmatrix \<Rightarrow> dmatrix" where
  "dmmul A B =
     dmatrix_of (drows A) (dcols B)
       (\<lambda>i j. dbl_sum (map (\<lambda>k. dbl_mul (dcoeff A i k) (dcoeff B k j)) [0..<dcols A]))"

definition dmadd :: "dmatrix \<Rightarrow> dmatrix \<Rightarrow> dmatrix" where
  "dmadd A B = dmatrix_of (drows A) (dcols A) (\<lambda>i j. dbl_add (dcoeff A i j) (dcoeff B i j))"

definition dmsub :: "dmatrix \<Rightarrow> dmatrix \<Rightarrow> dmatrix" where
  "dmsub A B = dmatrix_of (drows A) (dcols A) (\<lambda>i j. dbl_sub (dcoeff A i j) (dcoeff B i j))"

definition dcwise :: "(dbl \<Rightarrow> dbl) \<Rightarrow> dmatrix \<Rightarrow> dmatrix" where
  "dcwise f M = dmatrix_of (drows M) (dcols M) (\<lambda>i j. f (dcoeff M i j))"

definition dcwise_product :: "dmatrix \<Rightarrow> dmatrix \<Rightarrow> dmatrix" where
  "dcwise_product A B =
     dmatrix_of (drows A) (dcols A) (\<lambda>i j. dbl_mul (dcoeff A i j) (dcoeff B i j))"

definition dsquare :: "dmatrix \<Rightarrow> dmatrix" where
  "dsquare M = dcwise (\<lambda>x. dbl_mul x x) M"

definition dscale :: "real \<Rightarrow> dmatrix \<Rightarrow> dmatrix" where
  "dscale a M = dcwise (\<lambda>x. dbl_mul (Fin a) x) M"

definition dcolwise_add :: "dmatrix \<Rightarrow> real list \<Rightarrow> dmatrix" where
  "dcolwise_add M v =
     dmatrix_of (drows M) (dcols M) (\<lambda>i j. dbl_add (dcoeff M i j) (Fin (v ! i)))"

definition drowwise_minus :: "dmatrix \<Rightarrow> dbl list \<Rightarrow> dmatrix" where
  "drowwise_minus M v = dmatrix_of (drows M) (dcols M) (\<lambda>i j. dbl_sub (dcoeff M i j) (v ! j))"

definition drowwise_times :: "dmatrix \<Rightarrow> dbl list \<Rightarrow> dmatrix" where
  "drowwise_times M v = dmatrix_of (drows M) (dcols M) (\<lambda>i j. dbl_mul (dcoeff M i j) (v ! j))"

definition drowwise_sum :: "dmatrix \<Rightarrow> dbl list" where
  "drowwise_sum M = map (\<lambda>i. dbl_sum (map (\<lambda>j. dcoeff M i j) [0..<dcols M])) [0..<drows M]"

definition dvec_transpose_times :: "real list \<Rightarrow> dmatrix \<Rightarrow> dbl list" where
  "dvec_transpose_times v M =
     map (\<lambda>j. dbl_sum (map (\<lambda>k. dbl_mul (Fin (v ! k)) (dcoeff M k j)) [0..<length v]))
       [0..<dcols M]"

definition dtimes_vec :: "dmatrix \<Rightarrow> dbl list \<Rightarrow> dbl list" where
  "dtimes_vec M v =
     map (\<lambda>i. dbl_sum (map (\<lambda>k. dbl_mul (dcoeff M i k) (v ! k)) [0..<dcols M])) [0..<drows M]"

text \<open>
  Modelled from the spec: \<^verbatim>\<open>logSumExp\<close> (utils.h, not among the sources) on a matrix
  of doubles: for every column, the maximum is subtracted before exponentiating
  (spec 4.1). The maximum keeps the entry it has unless a later one is larger.
\<close>

definition dbl_max :: "dbl \<Rightarrow> dbl \<Rightarrow> dbl" where
  "dbl_max e m = (if dbl_less m e then e else m)"

fun dlogSumExp_column :: "dbl list \<Rightarrow> dbl" where
  "dlogSumExp_column [] = Fin 0"
| "dlogSumExp_column (x # xs) =
     (let m = fold dbl_max xs x
      in dbl_add m (dbl_log (dbl_sum (map (\<lambda>e. dbl_exp (dbl_sub e m)) (x # xs)))))"

definition dlogSumExp :: "dmatrix \<Rightarrow> dbl list" where
  "dlogSumExp M =
     map (\<lambda>j. dlogSumExp_column (map (\<lambda>i. dcoeff M i j) [0..<drows M])) [0..<dcols M]"

subsection \<open>Collaborators on doubles\<close>

text \<open>
  The nonlinearity with its differentiable facet, and the distribution, by what they
  return for a double; a data point is a finite double. The objective below takes them
  as arguments in place of the fields \<open>mNonlinearity\<close> and \<open>mDistribution\<close> of the
  model, which say what the collaborators do on the reals.
\<close>

record nonlinearity_double =
  dnl_apply :: "dbl \<Rightarrow> dbl"
  dnl_derivative :: "(dbl \<Rightarrow> dbl) option"

record distribution_double =
  ddist_logLikelihood :: "real \<Rightarrow> dbl \<Rightarrow> dbl"
  ddist_gradient :: "real \<Rightarrow> dbl \<Rightarrow> dbl"

definition distribution_logLikelihood_double ::
  "distribution_double \<Rightarrow> matrix \<Rightarrow> dbl list \<Rightarrow> dbl list" where
  "distribution_logLikelihood_double distr data means =
     map (\<lambda>n. ddist_logLikelihood distr (coeff data 0 n) (means ! n)) [0..<ncols data]"

definition distribution_gradient_double ::
  "distribution_double \<Rightarrow> matrix \<Rightarrow> dbl list \<Rightarrow> dbl list" where
  "distribution_gradient_double distr data means =
     map (\<lambda>n. ddist_gradient distr (coeff data 0 n) (means ! n)) [0..<ncols data]"

text \<open>
  Modelled from the spec: \<^verbatim>\<open>LogisticFunction\<close> and \<^verbatim>\<open>Bernoulli\<close> (spec 4.2 and
  4.3, as above) in double arithmetic. Clamping leaves NaN as it is, since every
  comparison with NaN is false. They are the collaborators of the concrete runs below;
  no general theorem depends on them.
\<close>

fun clamp_unit_double :: "real \<Rightarrow> dbl \<Rightarrow> dbl" where
  "clamp_unit_double eps (Fin r) = Fin (clamp_unit eps r)"
| "clamp_unit_double eps PInf = Fin (1 - eps)"
| "clamp_unit_double eps NInf = Fin eps"
| "clamp_unit_double eps NaN = NaN"

definition LogisticFunction_double :: "real \<Rightarrow> nonlinearity_double" where
  "LogisticFunction_double eps =
     \<lparr>dnl_apply =
        (\<lambda>x. clamp_unit_double eps (dbl_div (Fin 1) (dbl_add (Fin 1) (dbl_exp (dbl_neg x))))),
      dnl_derivative =
        Some (\<lambda>x. dbl_mul (dbl_div (Fin 1) (dbl_add (Fin 1) (dbl_exp (dbl_neg x))))
                    (dbl_sub (Fin 1) (dbl_div (Fin 1) (dbl_add (Fin 1) (dbl_exp (dbl_neg x))))))\<rparr>"

definition Bernoulli_double :: "real \<Rightarrow> distribution_double" where
  "Bernoulli_double eps =
     \<lparr>ddist_logLikelihood =
        (\<lambda>d m. dbl_add (dbl_mul (Fin d) (dbl_log (clamp_unit_double eps m)))
                 (dbl_mul (Fin (1 - d)) (dbl_log (dbl_sub (Fin 1) (clamp_unit_double eps m))))),
      ddist_gradient =
        (\<lambda>d m. dbl_div (dbl_sub (clamp_unit_double eps m) (Fin d))
                 (dbl_mul (clamp_unit_double eps m)
                    (dbl_sub (Fin 1) (clamp_unit_double eps m))))\<rparr>"

subsection \<open>The loop and the objective\<close>

text \<open>
  stm.cpp:543-623 in double arithmetic: the gradient views, which start as zeros, and the
  body of the loop for the batch that starts at column \<open>b\<close>. The views of the parameters
  are those of \<open>parameter_views\<close>.
\<close>

record gradient_double =
  dbiasesGrad :: "dbl list"
  dweightsGrad :: dmatrix
  dfeaturesGrad :: dmatrix
  dpredictorsGrad :: dmatrix
  dlinearPredictorGrad :: "dbl list"

definition setZero_double :: "STM \<Rightarrow> gradient_double" where
  "setZero_double stm =
     \<lparr>dbiasesGrad = replicate (mNumComponents stm) (Fin 0),
      dweightsGrad = dmatrix_of (mNumComponents stm) (mNumFeatures stm) (\<lambda>i j. Fin 0),
      dfeaturesGrad = dmatrix_of (dimInNonlinear stm) (mNumFeatures stm) (\<lambda>i j. Fin 0),
      dpredictorsGrad = dmatrix_of (mNumComponents stm) (dimInNonlinear stm) (\<lambda>i j. Fin 0),
      dlinearPredictorGrad = replicate (dimInLinear stm) (Fin 0)\<rparr>"

definition batch_body_double ::
  "nonlinearity_double \<Rightarrow> distribution_double \<Rightarrow> STM \<Rightarrow> Parameters \<Rightarrow> views \<Rightarrow> (dbl \<Rightarrow> dbl)
     \<Rightarrow> bool \<Rightarrow> matrix \<Rightarrow> matrix \<Rightarrow> nat \<Rightarrow> nat \<Rightarrow> dbl \<times> gradient_double
     \<Rightarrow> dbl \<times> gradient_double" where
  "batch_body_double nl distr stm params v derivative want_gradient inputCompl outputCompl
       step b acc =
     (let numData = ncols inputCompl;
          width = min step (numData - b);
          inputNonlinear = doubles (block inputCompl 0 b (dimInNonlinear stm) width);
          inputLinear =
            doubles (block inputCompl (dimInNonlinear stm) b (dimInLinear stm) width);
          output = middleCols outputCompl b width;
          featureOutput = dmmul (dtranspose (doubles (features v))) inputNonlinear;
          featureOutputSq = dsquare featureOutput;
          jointEnergy = dmadd (dmmul (doubles (weights v)) featureOutputSq)
                          (dmmul (doubles (predictors v)) inputNonlinear);
          jointEnergy = dcolwise_add jointEnergy (biases v);
          response = dlogSumExp jointEnergy;
          posterior = dcwise dbl_exp (drowwise_minus jointEnergy response);
          response = (if dimInLinear stm \<noteq> 0
                      then map2 dbl_add response
                             (dvec_transpose_times (linearPredictor v) inputLinear)
                      else response);
          means = map (dnl_apply nl) response;
          logLikBatch = dbl_sum (distribution_logLikelihood_double distr output means);
          logLik = dbl_add (fst acc) logLikBatch;
          grads = snd acc
      in if \<not> want_gradient then (logLik, grads)
         else
           (let tmp = map2 (\<lambda>gr d. dbl_mul (dbl_neg gr) d)
                        (distribution_gradient_double distr output means)
                        (map derivative response);
                postTmp = drowwise_times posterior tmp;
                grads = (if trainBiases params
                         then grads\<lparr>dbiasesGrad :=
                                map2 dbl_sub (dbiasesGrad grads) (drowwise_sum postTmp)\<rparr>
                         else grads);
                grads = (if trainWeights params
                         then grads\<lparr>dweightsGrad :=
                                dmsub (dweightsGrad grads)
                                  (dmmul postTmp (dtranspose featureOutputSq))\<rparr>
                         else grads);
                grads = (if trainFeatures params
                         then (let tmp2 = dmmul (dscale 2 (dtranspose (doubles (weights v))))
                                            postTmp;
                                   tmp3 = dcwise_product featureOutput tmp2
                               in grads\<lparr>dfeaturesGrad :=
                                    dmsub (dfeaturesGrad grads)
                                      (dmmul inputNonlinear (dtranspose tmp3))\<rparr>)
                         else grads);
                grads = (if trainPredictors params
                         then grads\<lparr>dpredictorsGrad :=
                                dmsub (dpredictorsGrad grads)
                                  (dmmul postTmp (dtranspose inputNonlinear))\<rparr>
                         else grads);
                grads = (if trainLinearPredictor params \<and> dimInLinear stm \<noteq> 0
                         then grads\<lparr>dlinearPredictorGrad :=
                                map2 dbl_sub (dlinearPredictorGrad grads)
                                  (dtimes_vec inputLinear tmp)\<rparr>
                         else grads)
            in (logLik, grads)))"

text \<open>
  The loop under \<^verbatim>\<open>#pragma omp parallel for\<close>, with the bodies of the batches run in
  the order of a list of batch starts. In double arithmetic the order can change the
  result, so it stays an argument of the objective.
\<close>

definition run_batches_double ::
  "nonlinearity_double \<Rightarrow> distribution_double \<Rightarrow> STM \<Rightarrow> Parameters \<Rightarrow> views \<Rightarrow> (dbl \<Rightarrow> dbl)
     \<Rightarrow> bool \<Rightarrow> matrix \<Rightarrow> matrix \<Rightarrow> nat \<Rightarrow> nat list \<Rightarrow> dbl \<times> gradient_double" where
  "run_batches_double nl distr stm params v derivative want_gradient inputCompl outputCompl
       step order =
     fold (batch_body_double nl distr stm params v derivative want_gradient inputCompl
             outputCompl step)
       order (Fin 0, setZero_double stm)"

text \<open>
  stm.cpp:624-697 in double arithmetic: the division of \<open>g\<close> by \<open>normConst\<close>, and the
  gradient and the value of the regularizer (\<^verbatim>\<open>signum\<close> modelled from the spec as
  above).
\<close>

definition normalize_gradient_double :: "gradient_double \<Rightarrow> real \<Rightarrow> gradient_blocks" where
  "normalize_gradient_double grads c =
     \<lparr>gBiases = map (\<lambda>e. dbl_div e (Fin c)) (dbiasesGrad grads),
      gWeights = map (\<lambda>e. dbl_div e (Fin c)) (delems (dweightsGrad grads)),
      gFeatures = map (\<lambda>e. dbl_div e (Fin c)) (delems (dfeaturesGrad grads)),
      gPredictors = map (\<lambda>e. dbl_div e (Fin c)) (delems (dpredictorsGrad grads)),
      gLinearPredictor = map (\<lambda>e. dbl_div e (Fin c)) (dlinearPredictorGrad grads)\<rparr>"

definition regularizer_gradient_double ::
  "Parameters \<Rightarrow> views \<Rightarrow> gradient_blocks \<Rightarrow> gradient_blocks" where
  "regularizer_gradient_double params v g =
     (case regularizer params of
        L1 \<Rightarrow>
          (let g = (if trainFeatures params \<and> regularizeFeatures params > 0
                    then g\<lparr>gFeatures := map2 dbl_add (gFeatures g)
                           (map (\<lambda>t. dbl_mul (Fin (regularizeFeatures params)) (Fin (sgn t)))
                              (elems (features v)))\<rparr>
                    else g);
               g = (if trainPredictors params \<and> regularizePredictors params > 0
                    then g\<lparr>gPredictors := map2 dbl_add (gPredictors g)
                           (map (\<lambda>t. dbl_mul (Fin (regularizePredictors params)) (Fin (sgn t)))
                              (elems (predictors v)))\<rparr>
                    else g);
               g = (if trainWeights params \<and> regularizeWeights params > 0
                    then g\<lparr>gWeights := map2 dbl_add (gWeights g)
                           (map (\<lambda>t. dbl_mul (Fin (regularizeWeights params)) (Fin (sgn t)))
                              (elems (weights v)))\<rparr>
                    else g);
               g = (if trainLinearPredictor params \<and> regularizeLinearPredictor params > 0
                    then g\<lparr>gLinearPredictor := map2 dbl_add (gLinearPredictor g)
                           (map (\<lambda>t. dbl_mul (Fin (regularizeLinearPredictor params))
                                        (Fin (sgn t)))
                              (linearPredictor v))\<rparr>
                    else g)
           in g)
      | L2 \<Rightarrow>
          (let g = (if trainFeatures params \<and> regularizeFeatures params > 0
                    then g\<lparr>gFeatures := map2 dbl_add (gFeatures g)
                           (map (\<lambda>t. dbl_mul (dbl_mul (Fin (regularizeFeatures params)) (Fin 2))
                                        (Fin t))
                              (elems (features v)))\<rparr>
                    else g);
               g = (if trainPredictors params \<and> regularizePredictors params > 0
                    then g\<lparr>gPredictors := map2 dbl_add (gPredictors g)
                           (map (\<lambda>t. dbl_mul (dbl_mul (Fin (regularizePredictors params)) (Fin 2))
                                        (Fin t))
                              (elems (predictors v)))\<rparr>
                    else g);
               g = (if trainWeights params \<and> regularizeWeights params > 0
                    then g\<lparr>gWeights := map2 dbl_add (gWeights g)
                           (map (\<lambda>t. dbl_mul (dbl_mul (Fin (regularizeWeights params)) (Fin 2))
                                        (Fin t))
                              (elems (weights v)))\<rparr>
                    else g);
               g = (if trainLinearPredictor params \<and> regularizeLinearPredictor params > 0
                    then g\<lparr>gLinearPredictor := map2 dbl_add (gLinearPredictor g)
                           (map (\<lambda>t. dbl_mul
                                        (dbl_mul (Fin (regularizeLinearPredictor params)) (Fin 2))
                                        (Fin t))
                              (linearPredictor v))\<rparr>
                    else g)
           in g))"

text \<open>\<^verbatim>\<open>array().abs().sum()\<close> and \<^verbatim>\<open>array().square().sum()\<close> of a parameter block.\<close>

definition abs_sum_double :: "real list \<Rightarrow> dbl" where
  "abs_sum_double theta = dbl_sum (map (\<lambda>t. Fin \<bar>t\<bar>) theta)"

definition square_sum_double :: "real list \<Rightarrow> dbl" where
  "square_sum_double theta = dbl_sum (map (\<lambda>t. dbl_mul (Fin t) (Fin t)) theta)"

definition regularizer_value_double :: "Parameters \<Rightarrow> views \<Rightarrow> dbl \<Rightarrow> dbl" where
  "regularizer_value_double params v val =
     (case regularizer params of
        L1 \<Rightarrow>
          (let val = (if trainFeatures params \<and> regularizeFeatures params > 0
                      then dbl_add val (dbl_mul (Fin (regularizeFeatures params))
                                          (abs_sum_double (elems (features v))))
                      else val);
               val = (if trainPredictors params \<and> regularizePredictors params > 0
                      then dbl_add val (dbl_mul (Fin (regularizePredictors params))
                                          (abs_sum_double (elems (predictors v))))
                      else val);
               val = (if trainWeights params \<and> regularizeWeights params > 0
                      then dbl_add val (dbl_mul (Fin (regularizeWeights params))
                                          (abs_sum_double (elems (weights v))))
                      else val);
               val = (if trainLinearPredictor params \<and> regularizeLinearPredictor params > 0
                      then dbl_add val (dbl_mul (Fin (regularizeLinearPredictor params))
                                          (abs_sum_double (linearPredictor v)))
                      else val)
           in val)
      | L2 \<Rightarrow>
          (let val = (if trainFeatures params \<and> regularizeFeatures params > 0
                      then dbl_add val (dbl_mul (Fin (regularizeFeatures params))
                                          (square_sum_double (elems (features v))))
                      else val);
               val = (if trainPredictors params \<and> regularizePredictors params > 0
                      then dbl_add val (dbl_mul (Fin (regularizePredictors params))
                                          (square_sum_double (elems (predictors v))))
                      else val);
               val = (if trainWeights params \<and> regularizeWeights params > 0
                      then dbl_add val (dbl_mul (Fin (regularizeWeights params))
                                          (square_sum_double (elems (weights v))))
                      else val);
               val = (if trainLinearPredictor params \<and> regularizeLinearPredictor params > 0
                      then dbl_add val (dbl_mul (Fin (regularizeLinearPredictor params))
                                          (square_sum_double (linearPredictor v)))
                      else val)
           in val))"

text \<open>
  stm.cpp:506-697 in double arithmetic, once the nonlinearity is known to be
  differentiable: the value before the test for NaN, and the buffer \<open>g\<close> after the call.
\<close>

definition objective_double ::
  "nonlinearity_double \<Rightarrow> distribution_double \<Rightarrow> matrix \<Rightarrow> matrix \<Rightarrow> real list
     \<Rightarrow> real list option \<Rightarrow> Parameters \<Rightarrow> STM \<Rightarrow> (dbl \<Rightarrow> dbl) \<Rightarrow> nat list
     \<Rightarrow> dbl \<times> dbl list option" where
  "objective_double nl distr inputCompl outputCompl x g params stm derivative order =
     (let (v, offset) = parameter_views x params stm;
          numData = ncols inputCompl;
          step = batch_size (batchSize params) numData;
          (logLik, grads) =
            run_batches_double nl distr stm params v derivative (g \<noteq> None) inputCompl
              outputCompl step order;
          g = (case g of
                 None \<Rightarrow> None
               | Some buffer \<Rightarrow>
                   Some (flatten params
                     (regularizer_gradient_double params v
                       (normalize_gradient_double grads (normConst inputCompl stm)))));
          val = dbl_div (dbl_neg logLik) (Fin (normConst inputCompl stm));
          val = regularizer_value_double params v val
      in (val, g))"

text \<open>
  stm.cpp:493-704 in double arithmetic. \<open>order\<close> is the order in which the bodies of the
  batches \<open>for_batches (batchSize params) (ncols inputCompl) 0\<close> run.
\<close>

definition parameterGradient_double ::
  "nonlinearity_double \<Rightarrow> distribution_double \<Rightarrow> matrix \<Rightarrow> matrix \<Rightarrow> real list
     \<Rightarrow> real list option \<Rightarrow> Parameters \<Rightarrow> STM \<Rightarrow> nat list
     \<Rightarrow> error + dbl \<times> dbl list option" where
  "parameterGradient_double nl distr inputCompl outputCompl x g params stm order =
     (case dnl_derivative nl of
        None \<Rightarrow> Inl (Exception ''Nonlinearity has to be differentiable for training.'')
      | Some derivative \<Rightarrow>
          (let (val, g) =
                 objective_double nl distr inputCompl outputCompl x g params stm derivative order;
               val = (if dbl_not_equal val val then Fin DBL_MAX else val)
           in Inr (val, g)))"

text \<open>
  The log-likelihood of the batch that starts at column \<open>b\<close>, which is the local
  \<^verbatim>\<open>logLikBatch\<close> of the loop body; the properties are stated with it.
\<close>

definition batch_logLik_double ::
  "nonlinearity_double \<Rightarrow> distribution_double \<Rightarrow> STM \<Rightarrow> views \<Rightarrow> matrix \<Rightarrow> matrix \<Rightarrow> nat \<Rightarrow> nat
     \<Rightarrow> dbl" where
  "batch_logLik_double nl distr stm v inputCompl outputCompl step b =
     (let width = min step (ncols inputCompl - b);
          inputNonlinear = doubles (block inputCompl 0 b (dimInNonlinear stm) width);
          inputLinear =
            doubles (block inputCompl (dimInNonlinear stm) b (dimInLinear stm) width);
          output = middleCols outputCompl b width;
          featureOutputSq = dsquare (dmmul (dtranspose (doubles (features v))) inputNonlinear);
          jointEnergy = dcolwise_add
                          (dmadd (dmmul (doubles (weights v)) featureOutputSq)
                             (dmmul (doubles (predictors v)) inputNonlinear))
                          (biases v);
          response = (if dimInLinear stm \<noteq> 0
                      then map2 dbl_add (dlogSumExp jointEnergy)
                             (dvec_transpose_times (linearPredictor v) inputLinear)
                      else dlogSumExp jointEnergy)
      in dbl_sum (distribution_logLikelihood_double distr output (map (dnl_apply nl) response)))"

section \<open>The objective, column by column\<close>

text \<open>
  The quantities the properties of the objective are stated with. They are not part of
  the program: they say, for a single example (a column \<open>n\<close> of the data), what the loop
  body computes for a whole batch. \<open>col_jointEnergy\<close>, \<open>col_pooled\<close> and \<open>col_response\<close>
  are the joint energy, its logsumexp and the response of spec 4.1 for the parameter
  views, \<open>col_logLik\<close> is the log-likelihood of the example, \<open>col_tmp\<close> the derivative of
  the log-likelihood with respect to the response, and \<open>col_postTmp\<close> the same weighted
  by the posterior of a component. \<open>views_ok\<close> holds for the views that
  \<open>parameter_views\<close> builds.
\<close>

definition col_featureOutput :: "views \<Rightarrow> STM \<Rightarrow> matrix \<Rightarrow> nat \<Rightarrow> nat \<Rightarrow> real" where
  "col_featureOutput v stm X f n = (\<Sum>d<dimInNonlinear stm. coeff (features v) d f * coeff X d n)"

definition col_jointEnergy :: "views \<Rightarrow> STM \<Rightarrow> matrix \<Rightarrow> nat \<Rightarrow> nat \<Rightarrow> real" where
  "col_jointEnergy v stm X c n =
     (\<Sum>f<mNumFeatures stm. coeff (weights v) c f *
        (col_featureOutput v stm X f n * col_featureOutput v stm X f n))
     + (\<Sum>d<dimInNonlinear stm. coeff (predictors v) c d * coeff X d n)
     + biases v ! c"

definition col_pooled :: "views \<Rightarrow> STM \<Rightarrow> matrix \<Rightarrow> nat \<Rightarrow> real" where
  "col_pooled v stm X n =
     logSumExp_column (map (\<lambda>c. col_jointEnergy v stm X c n) [0..<mNumComponents stm])"

definition col_response :: "views \<Rightarrow> STM \<Rightarrow> matrix \<Rightarrow> nat \<Rightarrow> real" where
  "col_response v stm X n =
     (if dimInLinear stm \<noteq> 0
      then col_pooled v stm X n
           + (\<Sum>k<length (linearPredictor v).
                linearPredictor v ! k * coeff X (dimInNonlinear stm + k) n)
      else col_pooled v stm X n)"

definition col_logLik :: "views \<Rightarrow> STM \<Rightarrow> matrix \<Rightarrow> matrix \<Rightarrow> nat \<Rightarrow> real" where
  "col_logLik v stm X Y n =
     dist_logLikelihood (mDistribution stm) (coeff Y 0 n)
       (nl_apply (mNonlinearity stm) (col_response v stm X n))"

definition col_tmp :: "views \<Rightarrow> STM \<Rightarrow> (real \<Rightarrow> real) \<Rightarrow> matrix \<Rightarrow> matrix \<Rightarrow> nat \<Rightarrow> real" where
  "col_tmp v stm derivative X Y n =
     - dist_gradient (mDistribution stm) (coeff Y 0 n)
         (nl_apply (mNonlinearity stm) (col_response v stm X n))
       * derivative (col_response v stm X n)"

definition col_postTmp ::
  "views \<Rightarrow> STM \<Rightarrow> (real \<Rightarrow> real) \<Rightarrow> matrix \<Rightarrow> matrix \<Rightarrow> nat \<Rightarrow> nat \<Rightarrow> real" where
  "col_postTmp v stm derivative X Y c n =
     exp (col_jointEnergy v stm X c n - col_pooled v stm X n) * col_tmp v stm derivative X Y n"

definition views_ok :: "views \<Rightarrow> STM \<Rightarrow> bool" where
  "views_ok v stm \<longleftrightarrow>
     nrows (weights v) = mNumComponents stm \<and> ncols (weights v) = mNumFeatures stm \<and>
     nrows (features v) = dimInNonlinear stm \<and> ncols (features v) = mNumFeatures stm \<and>
     nrows (predictors v) = mNumComponents stm \<and> ncols (predictors v) = dimInNonlinear stm \<and>
     length (linearPredictor v) \<le> dimInLinear stm"

text \<open>The locals of the loop body, named.\<close>

definition batch_inputNonlinear :: "STM \<Rightarrow> matrix \<Rightarrow> nat \<Rightarrow> nat \<Rightarrow> matrix" where
  "batch_inputNonlinear stm X b w = block X 0 b (dimInNonlinear stm) w"

definition batch_inputLinear :: "STM \<Rightarrow> matrix \<Rightarrow> nat \<Rightarrow> nat \<Rightarrow> matrix" where
  "batch_inputLinear stm X b w = block X (dimInNonlinear stm) b (dimInLinear stm) w"

definition batch_featureOutput :: "views \<Rightarrow> STM \<Rightarrow> matrix \<Rightarrow> nat \<Rightarrow> nat \<Rightarrow> matrix" where
  "batch_featureOutput v stm X b w = mmul (transpose_m (features v)) (batch_inputNonlinear stm X b w)"

definition batch_energy :: "views \<Rightarrow> STM \<Rightarrow> matrix \<Rightarrow> nat \<Rightarrow> nat \<Rightarrow> matrix" where
  "batch_energy v stm X b w =
     colwise_add
       (madd (mmul (weights v) (square (batch_featureOutput v stm X b w)))
             (mmul (predictors v) (batch_inputNonlinear stm X b w)))
       (biases v)"

definition batch_posterior :: "views \<Rightarrow> STM \<Rightarrow> matrix \<Rightarrow> nat \<Rightarrow> nat \<Rightarrow> matrix" where
  "batch_posterior v stm X b w =
     cwise exp (rowwise_minus (batch_energy v stm X b w) (logSumExp (batch_energy v stm X b w)))"

definition batch_response :: "views \<Rightarrow> STM \<Rightarrow> matrix \<Rightarrow> nat \<Rightarrow> nat \<Rightarrow> real list" where
  "batch_response v stm X b w =
     (if dimInLinear stm \<noteq> 0
      then map2 (+) (logSumExp (batch_energy v stm X b w))
             (vec_transpose_times (linearPredictor v) (batch_inputLinear stm X b w))
      else logSumExp (batch_energy v stm X b w))"

definition batch_means :: "views \<Rightarrow> STM \<Rightarrow> matrix \<Rightarrow> nat \<Rightarrow> nat \<Rightarrow> real list" where
  "batch_means v stm X b w = map (nl_apply (mNonlinearity stm)) (batch_response v stm X b w)"

definition batch_tmp ::
  "views \<Rightarrow> STM \<Rightarrow> (real \<Rightarrow> real) \<Rightarrow> matrix \<Rightarrow> matrix \<Rightarrow> nat \<Rightarrow> nat \<Rightarrow> real list" where
  "batch_tmp v stm derivative X Y b w =
     map2 (\<lambda>gr d. - gr * d)
       (distribution_gradient (mDistribution stm) (middleCols Y b w) (batch_means v stm X b w))
       (map derivative (batch_response v stm X b w))"

definition batch_postTmp ::
  "views \<Rightarrow> STM \<Rightarrow> (real \<Rightarrow> real) \<Rightarrow> matrix \<Rightarrow> matrix \<Rightarrow> nat \<Rightarrow> nat \<Rightarrow> matrix" where
  "batch_postTmp v stm derivative X Y b w =
     rowwise_times (batch_posterior v stm X b w) (batch_tmp v stm derivative X Y b w)"

text \<open>What one column contributes to each block of the gradient.\<close>

definition col_gWeights ::
  "views \<Rightarrow> STM \<Rightarrow> (real \<Rightarrow> real) \<Rightarrow> matrix \<Rightarrow> matrix \<Rightarrow> nat \<Rightarrow> nat \<Rightarrow> nat \<Rightarrow> real" where
  "col_gWeights v stm derivative X Y c f n =
     col_postTmp v stm derivative X Y c n
       * (col_featureOutput v stm X f n * col_featureOutput v stm X f n)"

definition col_gFeatures ::
  "views \<Rightarrow> STM \<Rightarrow> (real \<Rightarrow> real) \<Rightarrow> matrix \<Rightarrow> matrix \<Rightarrow> nat \<Rightarrow> nat \<Rightarrow> nat \<Rightarrow> real" where
  "col_gFeatures v stm derivative X Y d f n =
     coeff X d n
       * (col_featureOutput v stm X f n
          * (\<Sum>c<mNumComponents stm. 2 * coeff (weights v) c f * col_postTmp v stm derivative X Y c n))"

definition col_gPredictors ::
  "views \<Rightarrow> STM \<Rightarrow> (real \<Rightarrow> real) \<Rightarrow> matrix \<Rightarrow> matrix \<Rightarrow> nat \<Rightarrow> nat \<Rightarrow> nat \<Rightarrow> real" where
  "col_gPredictors v stm derivative X Y c d n =
     col_postTmp v stm derivative X Y c n * coeff X d n"

definition col_gLinear ::
  "views \<Rightarrow> STM \<Rightarrow> (real \<Rightarrow> real) \<Rightarrow> matrix \<Rightarrow> matrix \<Rightarrow> nat \<Rightarrow> nat \<Rightarrow> real" where
  "col_gLinear v stm derivative X Y d n =
     coeff X (dimInNonlinear stm + d) n * col_tmp v stm derivative X Y n"

text \<open>The accumulators after the batches of a list, in closed form.\<close>

definition batch_sum :: "nat \<Rightarrow> nat \<Rightarrow> nat list \<Rightarrow> (nat \<Rightarrow> real) \<Rightarrow> real" where
  "batch_sum step N bs h = (\<Sum>b\<leftarrow>bs. \<Sum>n<min step (N - b). h (b + n))"

definition batches_form ::
  "STM \<Rightarrow> Parameters \<Rightarrow> views \<Rightarrow> (real \<Rightarrow> real) \<Rightarrow> bool \<Rightarrow> matrix \<Rightarrow> matrix
     \<Rightarrow> ((nat \<Rightarrow> real) \<Rightarrow> real) \<Rightarrow> real \<times> gradient" where
  "batches_form stm params v derivative want X Y summed =
     (summed (col_logLik v stm X Y),
      \<lparr>biasesGrad = map (\<lambda>c. if want \<and> trainBiases params
                              then - summed (col_postTmp v stm derivative X Y c) else 0)
                      [0..<mNumComponents stm],
       weightsGrad = matrix_of (mNumComponents stm) (mNumFeatures stm)
                      (\<lambda>c f. if want \<and> trainWeights params
                              then - summed (col_gWeights v stm derivative X Y c f) else 0),
       featuresGrad = matrix_of (dimInNonlinear stm) (mNumFeatures stm)
                      (\<lambda>d f. if want \<and> trainFeatures params
                              then - summed (col_gFeatures v stm derivative X Y d f) else 0),
       predictorsGrad = matrix_of (mNumComponents stm) (dimInNonlinear stm)
                      (\<lambda>c d. if want \<and> trainPredictors params
                              then - summed (col_gPredictors v stm derivative X Y c d) else 0),
       linearPredictorGrad = map (\<lambda>d. if want \<and> trainLinearPredictor params
                              then - summed (col_gLinear v stm derivative X Y d) else 0)
                      [0..<dimInLinear stm]\<rparr>)"

text \<open>
  The result of the loop in \<open>objective\<close>, the penalty of the regularizer for a block
  (spec 4.6) with its derivative, and the gradient blocks with every entry divided by a
  constant.
\<close>

definition accumulated ::
  "matrix \<Rightarrow> matrix \<Rightarrow> real list \<Rightarrow> real list option \<Rightarrow> Parameters \<Rightarrow> STM \<Rightarrow> (real \<Rightarrow> real)
     \<Rightarrow> real \<times> gradient" where
  "accumulated inputCompl outputCompl x g params stm derivative =
     run_batches stm params (fst (parameter_views x params stm)) derivative (g \<noteq> None)
       inputCompl outputCompl (batch_size (batchSize params) (ncols inputCompl))
       (for_batches (batchSize params) (ncols inputCompl) 0)"

definition penalty :: "Regularizer \<Rightarrow> real \<Rightarrow> real list \<Rightarrow> real" where
  "penalty r lam theta =
     (case r of L1 \<Rightarrow> lam * (\<Sum>t\<leftarrow>theta. \<bar>t\<bar>) | L2 \<Rightarrow> lam * (\<Sum>t\<leftarrow>theta. t\<^sup>2))"

definition penalty_gradient :: "Regularizer \<Rightarrow> real \<Rightarrow> real \<Rightarrow> real" where
  "penalty_gradient r lam t = (case r of L1 \<Rightarrow> lam * sgn t | L2 \<Rightarrow> 2 * lam * t)"

definition regularized :: "bool \<Rightarrow> real \<Rightarrow> bool" where
  "regularized flag lam \<longleftrightarrow> flag \<and> lam > 0"

definition divided_by :: "real \<Rightarrow> gradient \<Rightarrow> gradient_blocks" where
  "divided_by c grads =
     \<lparr>gBiases = map (\<lambda>e. Fin (e / c)) (biasesGrad grads),
      gWeights = map (\<lambda>e. Fin (e / c)) (elems (weightsGrad grads)),
      gFeatures = map (\<lambda>e. Fin (e / c)) (elems (featuresGrad grads)),
      gPredictors = map (\<lambda>e. Fin (e / c)) (elems (predictorsGrad grads)),
      gLinearPredictor = map (\<lambda>e. Fin (e / c)) (linearPredictorGrad grads)\<rparr>"

definition block_penalty :: "Regularizer \<Rightarrow> bool \<Rightarrow> real \<Rightarrow> real list \<Rightarrow> real" where
  "block_penalty r flag lam theta = (if regularized flag lam then penalty r lam theta else 0)"

definition regularized_block ::
  "Regularizer \<Rightarrow> bool \<Rightarrow> real \<Rightarrow> real \<Rightarrow> real list \<Rightarrow> real list \<Rightarrow> dbl list" where
  "regularized_block r flag lam c es theta =
     (if regularized flag lam
      then map2 (\<lambda>e t. Fin (e / c + penalty_gradient r lam t)) es theta
      else map (\<lambda>e. Fin (e / c)) es)"

subsection \<open>Concrete models used to instantiate the theorems\<close>

text \<open>
  A model with one nonlinear and one linear input, two components and one feature, with
  the default collaborators of stm.cpp:40-41, and two training configurations: every
  block trainable, and no block trainable.
\<close>

definition example_stm :: STM where
  "example_stm =
     \<lparr>mDimInNonlinear = 1, mDimInLinear = 1, mNumComponents = 2, mNumFeatures = 1,
      mBiases = [1, 2],
      mWeights = \<lparr>nrows = 2, ncols = 1, elems = [3, 4]\<rparr>,
      mFeatures = \<lparr>nrows = 1, ncols = 1, elems = [5]\<rparr>,
      mPredictors = \<lparr>nrows = 2, ncols = 1, elems = [6, 7]\<rparr>,
      mLinearPredictor = [8],
      mNonlinearity = LogisticFunction (1 / 10 ^ 12),
      mDistribution = Bernoulli (1 / 10 ^ 12)\<rparr>"

definition train_all :: Parameters where
  "train_all =
     \<lparr>batchSize = 2000,
      trainBiases = True, trainWeights = True, trainFeatures = True,
      trainPredictors = True, trainLinearPredictor = True,
      regularizeWeights = 0, regularizeFeatures = 0, regularizePredictors = 0,
      regularizeLinearPredictor = 0, regularizer = L2\<rparr>"

definition train_none :: Parameters where
  "train_none =
     train_all\<lparr>trainBiases := False, trainWeights := False, trainFeatures := False,
       trainPredictors := False, trainLinearPredictor := False\<rparr>"

text \<open>A model without inputs and with a single component.\<close>

definition constant_stm :: STM where
  "constant_stm =
     \<lparr>mDimInNonlinear = 0, mDimInLinear = 0, mNumComponents = 1, mNumFeatures = 0,
      mBiases = [3],
      mWeights = \<lparr>nrows = 1, ncols = 0, elems = []\<rparr>,
      mFeatures = \<lparr>nrows = 0, ncols = 0, elems = []\<rparr>,
      mPredictors = \<lparr>nrows = 1, ncols = 0, elems = []\<rparr>,
      mLinearPredictor = [],
      mNonlinearity = LogisticFunction (1 / 10 ^ 12),
      mDistribution = Bernoulli (1 / 10 ^ 12)\<rparr>"

text \<open>
  Collaborators for a concrete run: a constructor that starts from zero weights and a
  trainer that returns fixed fitted parameters.
\<close>

definition example_externals :: externals where
  "example_externals =
     \<lparr>GLM_new = (\<lambda>d nl distr. \<lparr>glm_dimIn = d, glm_weights = replicate d 0, glm_bias = 0,
                     glm_nonlinearity = nl, glm_distribution = distr\<rparr>),
      GLM_Parameters_new = \<lparr>batchSize = 2000, glm_trainWeights = True, glm_trainBias = True\<rparr>,
      GLM_train = (\<lambda>glm input output val p.
                     Inr (True, glm\<lparr>glm_weights := replicate (glm_dimIn glm) (1 / 2),
                                    glm_bias := 1\<rparr>)),
      Trainable_train = (\<lambda>stm input output inputVal outputVal p. (Inr False, stm))\<rparr>"

text \<open>A model with one linear input only and two components.\<close>

definition linear_stm :: STM where
  "linear_stm =
     \<lparr>mDimInNonlinear = 0, mDimInLinear = 1, mNumComponents = 2, mNumFeatures = 0,
      mBiases = [1, 2],
      mWeights = \<lparr>nrows = 2, ncols = 0, elems = []\<rparr>,
      mFeatures = \<lparr>nrows = 0, ncols = 0, elems = []\<rparr>,
      mPredictors = \<lparr>nrows = 2, ncols = 0, elems = []\<rparr>,
      mLinearPredictor = [8],
      mNonlinearity = LogisticFunction (1 / 10 ^ 12),
      mDistribution = Bernoulli (1 / 10 ^ 12)\<rparr>"

text \<open>The model without inputs, with the exponential nonlinearity.\<close>

definition exponential_stm :: STM where
  "exponential_stm = constant_stm\<lparr>mNonlinearity := ExponentialFunction (1 / 10 ^ 12)\<rparr>"

text \<open>
  Data for concrete runs of the objective: twelve examples (more than the smallest batch
  size), and a configuration that regularizes the weights with L1.
\<close>

definition example_input :: matrix where
  "example_input = \<lparr>nrows = 2, ncols = 12, elems = replicate 24 1\<rparr>"

definition example_output :: matrix where
  "example_output = \<lparr>nrows = 1, ncols = 12, elems = replicate 12 1\<rparr>"

definition train_l1 :: Parameters where
  "train_l1 = train_all\<lparr>regularizer := L1, regularizeWeights := 1 / 2\<rparr>"

text \<open>A model without inputs whose two biases have magnitude \<open>1e4\<close>.\<close>

definition large_bias_stm :: STM where
  "large_bias_stm =
     \<lparr>mDimInNonlinear = 0, mDimInLinear = 0, mNumComponents = 2, mNumFeatures = 0,
      mBiases = [10000, 10000],
      mWeights = \<lparr>nrows = 2, ncols = 0, elems = []\<rparr>,
      mFeatures = \<lparr>nrows = 0, ncols = 0, elems = []\<rparr>,
      mPredictors = \<lparr>nrows = 2, ncols = 0, elems = []\<rparr>,
      mLinearPredictor = [],
      mNonlinearity = LogisticFunction (1 / 10 ^ 12),
      mDistribution = Bernoulli (1 / 10 ^ 12)\<rparr>"

text \<open>
  A model with one nonlinear input, one component and two features, and a data set of a
  single example, for runs of the objective in double arithmetic. The vectors are the
  argument \<open>x\<close> with every block trained: the bias, the two weights, the two features
  and the predictor. In the second one the features have magnitude \<open>1e200\<close> and the
  weights have opposite signs; in the third one the weights have magnitude \<open>1e200\<close>.
  The last configuration regularizes the weights with L2.
\<close>

definition two_feature_stm :: STM where
  "two_feature_stm =
     \<lparr>mDimInNonlinear = 1, mDimInLinear = 0, mNumComponents = 1, mNumFeatures = 2,
      mBiases = [0],
      mWeights = \<lparr>nrows = 1, ncols = 2, elems = [0, 0]\<rparr>,
      mFeatures = \<lparr>nrows = 1, ncols = 2, elems = [0, 0]\<rparr>,
      mPredictors = \<lparr>nrows = 1, ncols = 1, elems = [0]\<rparr>,
      mLinearPredictor = [],
      mNonlinearity = LogisticFunction (1 / 10 ^ 12),
      mDistribution = Bernoulli (1 / 10 ^ 12)\<rparr>"

definition single_input :: matrix where
  "single_input = \<lparr>nrows = 1, ncols = 1, elems = [1]\<rparr>"

definition single_output :: matrix where
  "single_output = \<lparr>nrows = 1, ncols = 1, elems = [1]\<rparr>"

definition zero_parameters :: "real list" where
  "zero_parameters = [0, 0, 0, 0, 0, 0]"

definition huge_features :: "real list" where
  "huge_features = [0, 1, - 1, 10 ^ 200, 10 ^ 200, 0]"

definition huge_weights :: "real list" where
  "huge_weights = [0, 10 ^ 200, 10 ^ 200, 0, 0, 0]"

definition train_l2 :: Parameters where
  "train_l2 = train_all\<lparr>regularizeWeights := 1\<rparr>"

section \<open>Properties of the matrix operations\<close>

lemma nrows_matrix_of [simp]: "nrows (matrix_of r c f) = r"
  and ncols_matrix_of [simp]: "ncols (matrix_of r c f) = c"
  by (simp_all add: matrix_of_def)

lemma index_bound: "i < r \<Longrightarrow> j < c \<Longrightarrow> j * r + i < r * (c::nat)"
proof -
  assume a: "i < r" "j < c"
  then have "j * r + i < j * r + r" by simp
  also have "\<dots> = (j + 1) * r" by simp
  also have "\<dots> \<le> c * r" using a(2) by (intro mult_le_mono1) simp
  finally show ?thesis by (simp add: mult.commute)
qed

lemma coeff_matrix_of [simp]: "i < r \<Longrightarrow> j < c \<Longrightarrow> coeff (matrix_of r c f) i j = f i j"
  using index_bound[of i r j c] by (simp add: coeff_def matrix_of_def)

lemma matrix_of_cong:
  "(\<And>i j. i < r \<Longrightarrow> j < c \<Longrightarrow> f i j = g i j) \<Longrightarrow> matrix_of r c f = matrix_of r c g"
  by (cases "r = 0") (simp_all add: matrix_of_def less_mult_imp_div_less mult.commute)

lemma dims_ops [simp]:
  "nrows (transpose_m M) = ncols M" "ncols (transpose_m M) = nrows M"
  "nrows (mmul A B) = nrows A" "ncols (mmul A B) = ncols B"
  "nrows (madd A B) = nrows A" "ncols (madd A B) = ncols A"
  "nrows (msub A B) = nrows A" "ncols (msub A B) = ncols A"
  "nrows (cwise g M) = nrows M" "ncols (cwise g M) = ncols M"
  "nrows (cwise_product A B) = nrows A" "ncols (cwise_product A B) = ncols A"
  "nrows (square M) = nrows M" "ncols (square M) = ncols M"
  "nrows (scale a M) = nrows M" "ncols (scale a M) = ncols M"
  "nrows (colwise_add M v) = nrows M" "ncols (colwise_add M v) = ncols M"
  "nrows (rowwise_minus M v) = nrows M" "ncols (rowwise_minus M v) = ncols M"
  "nrows (rowwise_times M v) = nrows M" "ncols (rowwise_times M v) = ncols M"
  "nrows (block M r0 c0 r c) = r" "ncols (block M r0 c0 r c) = c"
  "nrows (topRows M n) = n" "ncols (topRows M n) = ncols M"
  "nrows (bottomRows M n) = n" "ncols (bottomRows M n) = ncols M"
  "nrows (middleCols M c0 n) = nrows M" "ncols (middleCols M c0 n) = n"
  by (simp_all add: transpose_m_def mmul_def madd_def msub_def cwise_def cwise_product_def
      square_def scale_def colwise_add_def rowwise_minus_def rowwise_times_def block_def
      topRows_def bottomRows_def middleCols_def)

lemma coeff_ops:
  "i < ncols M \<Longrightarrow> j < nrows M \<Longrightarrow> coeff (transpose_m M) i j = coeff M j i"
  "i < nrows A \<Longrightarrow> j < ncols B \<Longrightarrow>
     coeff (mmul A B) i j = (\<Sum>k<ncols A. coeff A i k * coeff B k j)"
  "i < nrows A \<Longrightarrow> j < ncols A \<Longrightarrow> coeff (madd A B) i j = coeff A i j + coeff B i j"
  "i < nrows A \<Longrightarrow> j < ncols A \<Longrightarrow> coeff (msub A B) i j = coeff A i j - coeff B i j"
  "i < nrows M \<Longrightarrow> j < ncols M \<Longrightarrow> coeff (cwise g M) i j = g (coeff M i j)"
  "i < nrows A \<Longrightarrow> j < ncols A \<Longrightarrow> coeff (cwise_product A B) i j = coeff A i j * coeff B i j"
  "i < nrows M \<Longrightarrow> j < ncols M \<Longrightarrow> coeff (square M) i j = coeff M i j * coeff M i j"
  "i < nrows M \<Longrightarrow> j < ncols M \<Longrightarrow> coeff (scale a M) i j = a * coeff M i j"
  "i < nrows M \<Longrightarrow> j < ncols M \<Longrightarrow> coeff (colwise_add M v) i j = coeff M i j + v ! i"
  "i < nrows M \<Longrightarrow> j < ncols M \<Longrightarrow> coeff (rowwise_minus M v) i j = coeff M i j - v ! j"
  "i < nrows M \<Longrightarrow> j < ncols M \<Longrightarrow> coeff (rowwise_times M v) i j = coeff M i j * v ! j"
  "i < r \<Longrightarrow> j < c \<Longrightarrow> coeff (block M r0 c0 r c) i j = coeff M (r0 + i) (c0 + j)"
  by (simp_all add: transpose_m_def mmul_def madd_def msub_def cwise_def cwise_product_def
      square_def scale_def colwise_add_def rowwise_minus_def rowwise_times_def block_def)

section \<open>Properties of the response function\<close>

text \<open>
  Subtracting the maximum does not change the value of the logsumexp over the reals:
  \<open>m + ln (\<Sum> exp (e - m)) = ln (\<Sum> exp e)\<close> for every \<open>m\<close>.
\<close>

lemma logSumExp_column_naive:
  assumes "xs \<noteq> []"
  shows "logSumExp_column xs = ln (\<Sum>e\<leftarrow>xs. exp e)"
proof -
  obtain y ys where xs: "xs = y # ys" using assms by (cases xs) auto
  define m where "m = fold max ys y"
  have pos: "0 < (\<Sum>e\<leftarrow>xs. exp e)"
  proof -
    have "0 \<le> (\<Sum>e\<leftarrow>ys. exp e)" by (rule sum_list_nonneg) auto
    then show ?thesis unfolding xs by (simp add: add_pos_nonneg)
  qed
  have "(\<Sum>e\<leftarrow>xs. exp (e - m)) = (\<Sum>e\<leftarrow>xs. exp e) / exp m"
    by (induction xs) (simp_all add: exp_diff add_divide_distrib)
  then have "ln (\<Sum>e\<leftarrow>xs. exp (e - m)) = ln (\<Sum>e\<leftarrow>xs. exp e) - m"
    using pos by (simp add: ln_div)
  then show ?thesis unfolding xs by (simp add: m_def Let_def)
qed


lemma coeff_jointEnergy:
  assumes "nrows W = K" "ncols W = F" "ncols Fe = F" "nrows Fe = D" "nrows P = K" "ncols P = D"
    and "c < K" "n < ncols X"
  shows "coeff (jointEnergy W Fe P b X) c n =
     (\<Sum>f<F. coeff W c f * (\<Sum>d<D. coeff Fe d f * coeff X d n)\<^sup>2)
     + (\<Sum>d<D. coeff P c d * coeff X d n) + b ! c"
  using assms unfolding jointEnergy_def Let_def
  by (simp add: coeff_ops power2_eq_square cong: sum.cong_simp)


lemma sum_list_map_upt: "(\<Sum>i\<leftarrow>[0..<n]. f i) = (\<Sum>i<n. (f i :: real))"
  by (simp add: lessThan_atLeast0 flip: sum_set_upt_conv_sum_list_nat)

lemma sum_list_nth_sum: "(\<Sum>x\<leftarrow>xs. f x) = (\<Sum>i<length xs. (f (xs ! i) :: real))"
proof -
  have "(\<Sum>x\<leftarrow>xs. f x) = (\<Sum>i\<leftarrow>[0..<length xs]. f (xs ! i))"
    by (subst (1) map_nth[of xs, symmetric]) (simp only: map_map o_def)
  then show ?thesis by (simp add: sum_list_map_upt)
qed

lemma dims_jointEnergy [simp]:
  "nrows (jointEnergy W Fe P b X) = nrows W" "ncols (jointEnergy W Fe P b X) = ncols X"
  by (simp_all add: jointEnergy_def Let_def)

lemma logSumExp_matrix:
  assumes "0 < nrows M"
  shows "logSumExp M = map (\<lambda>n. ln (\<Sum>c<nrows M. exp (coeff M c n))) [0..<ncols M]"
proof -
  have "logSumExp_column (col M n) = ln (\<Sum>c<nrows M. exp (coeff M c n))" for n
  proof -
    have "col M n \<noteq> []" using assms by (simp add: col_def)
    then have "logSumExp_column (col M n) = ln (\<Sum>e\<leftarrow>col M n. exp e)"
      by (rule logSumExp_column_naive)
    also have "(\<Sum>e\<leftarrow>col M n. exp e) = (\<Sum>c<nrows M. exp (coeff M c n))"
      by (simp add: col_def o_def sum_list_map_upt)
    finally show ?thesis .
  qed
  then show ?thesis by (simp add: logSumExp_def)
qed

lemma logSumExp_jointEnergy:
  assumes "wf_STM stm"
  shows "logSumExp (jointEnergy (mWeights stm) (mFeatures stm) (mPredictors stm) (mBiases stm) X) =
     map (\<lambda>n. logsumexp_spec (mNumComponents stm) (\<lambda>c. jointEnergy_spec stm X c n)) [0..<ncols X]"
proof -
  let ?K = "mNumComponents stm"
  let ?J = "jointEnergy (mWeights stm) (mFeatures stm) (mPredictors stm) (mBiases stm) X"
  from assms have sh: "nrows (mWeights stm) = ?K" "ncols (mWeights stm) = mNumFeatures stm"
    "ncols (mFeatures stm) = mNumFeatures stm" "nrows (mFeatures stm) = mDimInNonlinear stm"
    "nrows (mPredictors stm) = ?K" "ncols (mPredictors stm) = mDimInNonlinear stm" and K: "0 < ?K"
    by (simp_all add: wf_STM_def shaped_def)
  have "coeff ?J c n = jointEnergy_spec stm X c n" if "c < ?K" "n < ncols X" for c n
    unfolding jointEnergy_spec_def using sh that by (intro coeff_jointEnergy) 
  then have "(\<Sum>c<?K. exp (coeff ?J c n)) = (\<Sum>c<?K. exp (jointEnergy_spec stm X c n))"
    if "n < ncols X" for n using that by simp
  then show ?thesis
    using K sh by (simp add: logSumExp_matrix logsumexp_spec_def)
qed


lemma pooled_biases:
  assumes "wf_STM stm"
  shows "(if numComponents stm > 1 then ln (\<Sum>b\<leftarrow>mBiases stm. exp b) else mBiases stm ! 0) =
     logsumexp_spec (mNumComponents stm) (\<lambda>c. mBiases stm ! c)"
proof (cases "numComponents stm > 1")
  case True
  then show ?thesis
    using assms by (simp add: logsumexp_spec_def sum_list_nth_sum[of exp] wf_STM_def)
next
  case False
  with assms have "mNumComponents stm = 1" by (simp add: wf_STM_def numComponents_def)
  then show ?thesis using False by (simp add: logsumexp_spec_def)
qed


lemma response_general:
  assumes wf: "wf_STM stm"
    and rows: "nrows X_nl = mDimInNonlinear stm" "nrows X_l = mDimInLinear stm"
    and cols: "ncols X_l = ncols X_nl"
  shows "response2 stm X_nl X_l = Inr (map (response_spec stm X_nl X_l) [0..<ncols X_nl])"
proof -
  let ?K = "mNumComponents stm"
  have je0: "jointEnergy_spec stm X_nl c n = mBiases stm ! c" if "mDimInNonlinear stm = 0" for c n
    using that by (simp add: jointEnergy_spec_def)
  have lin: "vec_transpose_times (mLinearPredictor stm) X_l =
      map (\<lambda>n. \<Sum>d<mDimInLinear stm. mLinearPredictor stm ! d * coeff X_l d n) [0..<ncols X_nl]"
    using wf cols by (simp add: vec_transpose_times_def wf_STM_def)
  show ?thesis
  proof (cases "mDimInLinear stm = 0")
    case l0: True
    show ?thesis
    proof (cases "mDimInNonlinear stm = 0")
      case True
      then show ?thesis
        using l0 rows pooled_biases[OF wf]
        by (simp add: response.simps response2.simps dimIn_def dimInLinear_def
            response_spec_def[abs_def] je0 map_replicate_const)
    next
      case False
      then show ?thesis
        using l0 rows logSumExp_jointEnergy[OF wf, of X_nl]
        by (simp add: response.simps response2.simps dimIn_def dimInLinear_def
            response_spec_def[abs_def])
    qed
  next
    case l1: False
    show ?thesis
    proof (cases "mDimInNonlinear stm = 0")
      case True
      then show ?thesis
        using l1 rows pooled_biases[OF wf] lin
        by (simp add: response2.simps dimInNonlinear_def dimInLinear_def
            response_spec_def[abs_def] je0 Let_def)
    next
      case False
      then show ?thesis
        using l1 rows logSumExp_jointEnergy[OF wf, of X_nl] lin
        by (simp add: response2.simps dimInNonlinear_def dimInLinear_def
            response_spec_def[abs_def] map2_map_map)
    qed
  qed
qed


lemma wf_example_stm: "wf_STM example_stm"
  by (simp add: wf_STM_def example_stm_def shaped_def)

lemma wf_constant_stm: "wf_STM constant_stm"
  by (simp add: wf_STM_def constant_stm_def shaped_def)

text \<open>
  Claim C1. For a model with at least one component that satisfies the shape invariant
  and inputs \<open>X_nl\<close> (\<open>D_nl\<close> rows) and \<open>X_l\<close> (\<open>D_l\<close> rows) with the same number of
  columns, \<open>response\<close> returns for every column \<open>n\<close> the logsumexp over the components
  of the joint energy plus the linear predictor's product with the linear input, where
  the joint energy is the quadratic term in the feature projections plus the predictor
  term plus the bias. Without any inputs the response is the same for every column: the
  logsumexp of the biases, which is the only bias when there is one component.
\<close>

theorem response_formula:
  assumes "wf_STM stm"
    and "nrows X_nl = mDimInNonlinear stm" and "nrows X_l = mDimInLinear stm"
    and "ncols X_l = ncols X_nl"
  shows "response2 stm X_nl X_l = Inr (map (response_spec stm X_nl X_l) [0..<ncols X_nl]) \<and>
     (mDimInNonlinear stm = 0 \<and> mDimInLinear stm = 0 \<longrightarrow>
        response2 stm X_nl X_l =
          Inr (replicate (ncols X_nl)
                (logsumexp_spec (mNumComponents stm) (\<lambda>c. mBiases stm ! c))) \<and>
        (mNumComponents stm = 1 \<longrightarrow>
           response2 stm X_nl X_l = Inr (replicate (ncols X_nl) (mBiases stm ! 0))))"
proof -
  have a: "response2 stm X_nl X_l = Inr (map (response_spec stm X_nl X_l) [0..<ncols X_nl])"
    using assms by (rule response_general)
  have b: "response2 stm X_nl X_l =
      Inr (replicate (ncols X_nl) (logsumexp_spec (mNumComponents stm) (\<lambda>c. mBiases stm ! c)))"
    if "mDimInNonlinear stm = 0" "mDimInLinear stm = 0"
    using that assms(2) pooled_biases[OF assms(1)]
    by (simp add: response.simps response2.simps dimIn_def dimInLinear_def)
  have c: "logsumexp_spec (mNumComponents stm) (\<lambda>c. mBiases stm ! c) = mBiases stm ! 0"
    if "mNumComponents stm = 1"
    using that by (simp add: logsumexp_spec_def)
  show ?thesis using a b c by simp
qed

theorem response_formula_witness:
  "wf_STM example_stm \<and>
   nrows \<lparr>nrows = 1, ncols = 2, elems = [1, 0]\<rparr> = mDimInNonlinear example_stm \<and>
   nrows \<lparr>nrows = 1, ncols = 2, elems = [1, 2]\<rparr> = mDimInLinear example_stm \<and>
   response2 example_stm \<lparr>nrows = 1, ncols = 2, elems = [1, 0]\<rparr>
       \<lparr>nrows = 1, ncols = 2, elems = [1, 2]\<rparr> =
     Inr [ln (exp 82 + exp 109) + 8, ln (exp 1 + exp 2) + 16] \<and>
   wf_STM constant_stm \<and>
   mDimInNonlinear constant_stm = 0 \<and> mDimInLinear constant_stm = 0 \<and>
   mNumComponents constant_stm = 1 \<and>
   response2 constant_stm \<lparr>nrows = 0, ncols = 2, elems = []\<rparr>
       \<lparr>nrows = 0, ncols = 2, elems = []\<rparr> = Inr [3, 3]"
proof -
  let ?X = "\<lparr>nrows = 1, ncols = 2, elems = [1, 0]\<rparr>"
  let ?L = "\<lparr>nrows = 1, ncols = 2, elems = [1, 2]\<rparr>"
  let ?E = "\<lparr>nrows = 0, ncols = 2, elems = []\<rparr>"
  have e: "nrows ?X = mDimInNonlinear example_stm" "nrows ?L = mDimInLinear example_stm"
    "ncols ?L = ncols ?X"
    by (simp_all add: example_stm_def)
  have k: "mDimInNonlinear constant_stm = 0" "mDimInLinear constant_stm = 0"
    "mNumComponents constant_stm = 1" "mBiases constant_stm ! 0 = 3"
    by (simp_all add: constant_stm_def)
  have ke: "nrows ?E = mDimInNonlinear constant_stm" "nrows ?E = mDimInLinear constant_stm"
    "ncols ?E = ncols ?E"
    by (simp_all add: k)
  have "map (response_spec example_stm ?X ?L) [0..<ncols ?X] =
      [ln (exp 82 + exp 109) + 8, ln (exp 1 + exp 2) + 16]"
    by (simp add: response_spec_def logsumexp_spec_def jointEnergy_spec_def example_stm_def
        coeff_def upt_rec[of 0] numeral_2_eq_2)
  with response_formula[OF wf_example_stm e, THEN conjunct1]
  have a: "response2 example_stm ?X ?L =
      Inr [ln (exp 82 + exp 109) + 8, ln (exp 1 + exp 2) + 16]"
    by simp
  have b: "response2 constant_stm ?E ?E = Inr [3, 3]"
    using response_formula[OF wf_constant_stm ke, THEN conjunct2, rule_format,
        OF conjI[OF k(1) k(2)], THEN conjunct2, rule_format, OF k(3)]
    by (simp add: k(4) numeral_2_eq_2)
  show ?thesis
    using wf_example_stm wf_constant_stm e k a b by simp
qed

lemma coeff_topRows:
  "i < n \<Longrightarrow> j < ncols M \<Longrightarrow> coeff (topRows M n) i j = coeff M i j"
  by (simp add: topRows_def coeff_ops)

lemma coeff_bottomRows:
  "i < n \<Longrightarrow> j < ncols M \<Longrightarrow> coeff (bottomRows M n) i j = coeff M (nrows M - n + i) j"
  by (simp add: bottomRows_def coeff_ops)

text \<open>
  Claim C10. For a model with a positive linear input dimensionality, the one-matrix
  overloads of \<open>response\<close> and \<open>logLikelihood\<close> throw the shape error when the input
  does not have \<open>D_nl + D_l\<close> rows, and otherwise return exactly what the two-matrix
  overloads return for the input's top \<open>D_nl\<close> rows as the nonlinear block and its bottom
  \<open>D_l\<close> rows as the linear block. The last two conjuncts say which entries of the input
  the two blocks hold.
\<close>

theorem single_matrix_overloads:
  assumes "0 < mDimInLinear stm"
  shows "response stm input =
       (if nrows input \<noteq> mDimInNonlinear stm + mDimInLinear stm
        then Inl (Exception ''Input has wrong dimensionality.'')
        else response2 stm (topRows input (mDimInNonlinear stm))
               (bottomRows input (mDimInLinear stm))) \<and>
     logLikelihood stm input output =
       (if nrows input \<noteq> mDimInNonlinear stm + mDimInLinear stm
        then Inl (Exception ''Input has wrong dimensionality.'')
        else logLikelihood2 stm (topRows input (mDimInNonlinear stm))
               (bottomRows input (mDimInLinear stm)) output) \<and>
     (\<forall>i j. i < mDimInNonlinear stm \<and> j < ncols input \<longrightarrow>
        coeff (topRows input (mDimInNonlinear stm)) i j = coeff input i j) \<and>
     (\<forall>i j. nrows input = mDimInNonlinear stm + mDimInLinear stm \<and>
          i < mDimInLinear stm \<and> j < ncols input \<longrightarrow>
        coeff (bottomRows input (mDimInLinear stm)) i j =
          coeff input (mDimInNonlinear stm + i) j)"
  using assms
  by (simp add: response.simps[of stm input] logLikelihood.simps[of stm input "output"]
      dimIn_def dimInLinear_def dimInNonlinear_def coeff_topRows coeff_bottomRows)

theorem single_matrix_overloads_witness:
  "0 < mDimInLinear example_stm \<and>
   response example_stm \<lparr>nrows = 2, ncols = 2, elems = [1, 1, 0, 2]\<rparr> =
     response2 example_stm \<lparr>nrows = 1, ncols = 2, elems = [1, 0]\<rparr>
       \<lparr>nrows = 1, ncols = 2, elems = [1, 2]\<rparr> \<and>
   response example_stm \<lparr>nrows = 3, ncols = 1, elems = [1, 1, 0]\<rparr> =
     Inl (Exception ''Input has wrong dimensionality.'') \<and>
   logLikelihood example_stm \<lparr>nrows = 2, ncols = 2, elems = [1, 1, 0, 2]\<rparr>
       \<lparr>nrows = 1, ncols = 2, elems = [1, 0]\<rparr> =
     logLikelihood2 example_stm \<lparr>nrows = 1, ncols = 2, elems = [1, 0]\<rparr>
       \<lparr>nrows = 1, ncols = 2, elems = [1, 2]\<rparr> \<lparr>nrows = 1, ncols = 2, elems = [1, 0]\<rparr> \<and>
   logLikelihood example_stm \<lparr>nrows = 3, ncols = 1, elems = [1, 1, 0]\<rparr>
       \<lparr>nrows = 1, ncols = 1, elems = [1]\<rparr> =
     Inl (Exception ''Input has wrong dimensionality.'')"
proof -
  let ?I = "\<lparr>nrows = 2, ncols = 2, elems = [1, 1, 0, 2]\<rparr>"
  let ?B = "\<lparr>nrows = 3, ncols = 1, elems = [1, 1, 0]\<rparr>"
  have d: "mDimInNonlinear example_stm = 1" "mDimInLinear example_stm = 1"
    by (simp_all add: example_stm_def)
  have pos: "0 < mDimInLinear example_stm" by (simp add: d)
  have top: "topRows ?I (mDimInNonlinear example_stm) = \<lparr>nrows = 1, ncols = 2, elems = [1, 0]\<rparr>"
    and bot: "bottomRows ?I (mDimInLinear example_stm) = \<lparr>nrows = 1, ncols = 2, elems = [1, 2]\<rparr>"
    by (simp_all add: d topRows_def bottomRows_def block_def matrix_of_def coeff_def
        upt_rec[of 0] numeral_2_eq_2)
  have rows: "nrows ?I = mDimInNonlinear example_stm + mDimInLinear example_stm"
    "nrows ?B \<noteq> mDimInNonlinear example_stm + mDimInLinear example_stm"
    by (simp_all add: d)
  note ok = single_matrix_overloads[OF pos, of ?I "\<lparr>nrows = 1, ncols = 2, elems = [1, 0]\<rparr>"]
  note bad = single_matrix_overloads[OF pos, of ?B "\<lparr>nrows = 1, ncols = 1, elems = [1]\<rparr>"]
  have r1: "response example_stm ?I =
      response2 example_stm (topRows ?I (mDimInNonlinear example_stm))
        (bottomRows ?I (mDimInLinear example_stm))"
    using ok[THEN conjunct1] by (simp only: rows(1) simp_thms if_False)
  have l1: "logLikelihood example_stm ?I \<lparr>nrows = 1, ncols = 2, elems = [1, 0]\<rparr> =
      logLikelihood2 example_stm (topRows ?I (mDimInNonlinear example_stm))
        (bottomRows ?I (mDimInLinear example_stm)) \<lparr>nrows = 1, ncols = 2, elems = [1, 0]\<rparr>"
    using ok[THEN conjunct2, THEN conjunct1] by (simp only: rows(1) simp_thms if_False)
  have r2: "response example_stm ?B = Inl (Exception ''Input has wrong dimensionality.'')"
    using bad[THEN conjunct1] by (simp only: rows(2) simp_thms if_True)
  have l2: "logLikelihood example_stm ?B \<lparr>nrows = 1, ncols = 1, elems = [1]\<rparr> =
      Inl (Exception ''Input has wrong dimensionality.'')"
    using bad[THEN conjunct2, THEN conjunct1] by (simp only: rows(2) simp_thms if_True)
  show ?thesis
    using pos r1[unfolded top bot] l1[unfolded top bot] r2 l2 by (simp only: simp_thms)
qed

section \<open>Overflow of the pooled bias\<close>

lemma DBL_MAX_less_exp: "DBL_MAX < exp 10000"
proof -
  have "DBL_MAX < 2 * 2 ^ 1023" unfolding DBL_MAX_def by (intro mult_strict_right_mono) simp_all
  also have "\<dots> = (2::real) ^ 1024" by simp
  also have "\<dots> \<le> (2::real) ^ 10000" by (intro power_increasing) simp_all
  also have "\<dots> \<le> exp 1 ^ 10000"
    using exp_ge_add_one_self[of 1] by (intro power_mono) simp_all
  also have "\<dots> = exp (real 10000 * 1)" by (rule exp_of_nat_mult[symmetric])
  finally show ?thesis by simp
qed

lemma DBL_MAX_bounds: "2 < DBL_MAX" "10000 + ln 2 < DBL_MAX" "\<not> 10000 + ln 2 < - DBL_MAX"
proof -
  have a: "(2::real) ^ 14 \<le> 2 ^ 1023" by (intro power_increasing) simp_all
  have b: "1 * (2::real) ^ 1023 \<le> DBL_MAX"
    unfolding DBL_MAX_def by (intro mult_right_mono) simp_all
  from a b have c: "(16384::real) \<le> DBL_MAX" by simp
  then show "2 < DBL_MAX" by linarith
  have l: "ln (2::real) < 2" using ln_less_self[of 2] by simp
  show "10000 + ln 2 < DBL_MAX" using l c by linarith
  have "0 < ln (2::real)" by simp
  then show "\<not> 10000 + ln 2 < - DBL_MAX" using c by linarith
qed

text \<open>
  Claim C3 is not what the code does in the branches without nonlinear inputs. For a
  model without inputs, two components and the biases \<open>1e4\<close>, the response is the pooled
  bias \<open>log (exp 1e4 + exp 1e4)\<close> of stm.cpp:229, computed without subtracting the
  maximum: \<open>exp 1e4\<close> is beyond the largest double, so the result is \<open>+\<infinity>\<close>. The
  logsumexp that subtracts the maximum, which the general branch calls, gives
  \<open>1e4 + ln 2\<close> for the same column.
\<close>

theorem pooled_bias_overflows:
  "wf_STM large_bias_stm \<and> dimIn large_bias_stm = 0 \<and> numComponents large_bias_stm = 2 \<and>
   mBiases large_bias_stm = [10000, 10000] \<and>
   response large_bias_stm \<lparr>nrows = 0, ncols = 1, elems = []\<rparr> =
     Inr [ln (\<Sum>b\<leftarrow>mBiases large_bias_stm. exp b)] \<and>
   pooled_bias_double large_bias_stm = PInf \<and>
   logSumExp_column_double (mBiases large_bias_stm) = Fin (10000 + ln 2)"
proof -
  have f: "wf_STM large_bias_stm" "dimIn large_bias_stm = 0" "numComponents large_bias_stm = 2"
    "mBiases large_bias_stm = [10000, 10000]" "dimInLinear large_bias_stm = 0"
    by (simp_all add: wf_STM_def shaped_def dimIn_def dimInLinear_def numComponents_def
        large_bias_stm_def)
  have r: "response large_bias_stm \<lparr>nrows = 0, ncols = 1, elems = []\<rparr> =
      Inr [ln (\<Sum>b\<leftarrow>mBiases large_bias_stm. exp b)]"
    by (simp add: response.simps[of large_bias_stm] f(2,3,5))
  have e: "dbl_exp (Fin 10000) = PInf"
    using DBL_MAX_less_exp by (simp add: dbl_of_real_def)
  have p: "pooled_bias_double large_bias_stm = PInf"
    by (simp add: pooled_bias_double_def f dbl_sum_def e del: dbl_exp.simps)
  have l: "logSumExp_column_double [10000, 10000] = Fin (10000 + ln 2)"
    using DBL_MAX_bounds by (simp add: dbl_sum_def dbl_of_real_def Let_def)
  show ?thesis using f(1-4) r p l by simp
qed

section \<open>Properties of training\<close>

lemma array_mean_nonempty:
  "0 < msize M \<Longrightarrow> array_mean M = Fin (array_sum M / real (msize M))"
  by (simp add: array_mean_def ddiv_def)

lemma array_mean_empty: "msize M = 0 \<Longrightarrow> array_mean M = NaN"
  by (simp add: array_mean_def ddiv_def array_sum_def)

lemma train_dimIn_0:
  assumes "dimIn stm = 0" and "nl_inverse (mNonlinearity stm) = Some nl_inv"
    and "array_mean output = Fin m"
  shows "train ext input output inputVal outputVal params stm =
     (Inr True,
      stm\<lparr>mBiases := replicate (length (mBiases stm))
        (nl_inv (if 0 \<le> m \<and> m < 1 / 10 ^ 50 then 1 / 10 ^ 50 else m)
         - ln (real (mNumComponents stm)))\<rparr>)"
  using assms by (simp add: train_def numComponents_def Let_def)

lemma train_dimIn_0_not_invertible:
  assumes "dimIn stm = 0" and "nl_inverse (mNonlinearity stm) = None"
  shows "train ext input output inputVal outputVal params stm =
     (Inl (Thrown (Exception ''Nonlinearity has to be invertible for training.'')), stm)"
  using assms by (simp add: train_def)

text \<open>
  Claim C4, amended. For a model with zero total input dimensionality, \<open>train\<close> throws
  and leaves the model as it was when the nonlinearity is not invertible; otherwise, for
  an output with at least one entry, it returns true and sets every bias to
  \<open>inverse m - ln K\<close>, where \<open>m\<close> is the mean of the output, replaced by \<open>1e-50\<close> when
  \<open>0 \<le> mean < 1e-50\<close>. The result does not depend on the optimizer or the GLM: neither
  is called.
\<close>

theorem train_without_inputs:
  assumes "dimIn stm = 0"
  shows "(nl_inverse (mNonlinearity stm) = None \<longrightarrow>
        train ext input output inputVal outputVal params stm =
          (Inl (Thrown (Exception ''Nonlinearity has to be invertible for training.'')), stm)) \<and>
     (\<forall>nl_inv. nl_inverse (mNonlinearity stm) = Some nl_inv \<and> 0 < msize output \<longrightarrow>
        train ext input output inputVal outputVal params stm =
          (Inr True,
           stm\<lparr>mBiases := replicate (length (mBiases stm))
             (nl_inv (let mean = array_sum output / real (msize output)
                   in if 0 \<le> mean \<and> mean < 1 / 10 ^ 50 then 1 / 10 ^ 50 else mean)
              - ln (real (mNumComponents stm)))\<rparr>))"
  using train_dimIn_0[OF assms _ array_mean_nonempty, of _ "output"]
    train_dimIn_0_not_invertible[OF assms]
  by (simp add: Let_def)

theorem train_without_inputs_witness:
  "dimIn constant_stm = 0 \<and>
   nl_inverse (mNonlinearity (constant_stm\<lparr>mNonlinearity := \<lparr>nl_apply = exp, nl_inverse = None, nl_derivative = Some exp\<rparr>\<rparr>)) = None \<and>
   train example_externals \<lparr>nrows = 0, ncols = 2, elems = []\<rparr>
       \<lparr>nrows = 1, ncols = 2, elems = [1, 0]\<rparr> None None train_all
       (constant_stm\<lparr>mNonlinearity := \<lparr>nl_apply = exp, nl_inverse = None, nl_derivative = Some exp\<rparr>\<rparr>) =
     (Inl (Thrown (Exception ''Nonlinearity has to be invertible for training.'')),
      constant_stm\<lparr>mNonlinearity := \<lparr>nl_apply = exp, nl_inverse = None, nl_derivative = Some exp\<rparr>\<rparr>) \<and>
   nl_inverse (mNonlinearity exponential_stm) = Some ln \<and>
   0 < msize \<lparr>nrows = 1, ncols = 2, elems = [1, 0]\<rparr> \<and>
   train example_externals \<lparr>nrows = 0, ncols = 2, elems = []\<rparr>
       \<lparr>nrows = 1, ncols = 2, elems = [1, 0]\<rparr> None None train_all exponential_stm =
     (Inr True, exponential_stm\<lparr>mBiases := [ln (1 / 2) - ln 1]\<rparr>)"
proof -
  let ?ni = "constant_stm\<lparr>mNonlinearity := \<lparr>nl_apply = exp, nl_inverse = None, nl_derivative = Some exp\<rparr>\<rparr>"
  let ?E = "\<lparr>nrows = 0, ncols = 2, elems = []\<rparr>"
  let ?Y = "\<lparr>nrows = 1, ncols = 2, elems = [1, 0]\<rparr>"
  have d: "dimIn constant_stm = 0" "dimIn ?ni = 0" "dimIn exponential_stm = 0"
    by (simp_all add: dimIn_def constant_stm_def exponential_stm_def)
  have n: "nl_inverse (mNonlinearity ?ni) = None" by simp
  have i: "nl_inverse (mNonlinearity exponential_stm) = Some ln"
    by (simp add: exponential_stm_def ExponentialFunction_def)
  have y: "0 < msize ?Y" "array_sum ?Y / real (msize ?Y) = 1 / 2"
    by (simp_all add: msize_def array_sum_def numeral_2_eq_2)
  have k: "length (mBiases exponential_stm) = 1" "mNumComponents exponential_stm = 1"
    by (simp_all add: exponential_stm_def constant_stm_def)
  have a: "train example_externals ?E ?Y None None train_all ?ni =
      (Inl (Thrown (Exception ''Nonlinearity has to be invertible for training.'')), ?ni)"
    using train_without_inputs[OF d(2), THEN conjunct1, rule_format, OF n] .
  have b: "train example_externals ?E ?Y None None train_all exponential_stm =
      (Inr True, exponential_stm\<lparr>mBiases := [ln (1 / 2) - ln 1]\<rparr>)"
    using train_without_inputs[OF d(3), THEN conjunct2, rule_format, OF conjI[OF i y(1)],
        of example_externals ?E None None train_all]
    unfolding y(2) k Let_def by simp
  show ?thesis using d(1) n a i y(1) b by (simp only: simp_thms)
qed

text \<open>
  Claim C4 as it is stated fails where the guard of stm.cpp:738-739 acts: a mean in
  \<open>[0, 1e-50)\<close> is replaced by \<open>1e-50\<close> before the inverse is taken. With the exponential
  nonlinearity, whose inverse is \<open>ln\<close>, and the single output \<open>1e-51\<close> the bias becomes
  \<open>ln 1e-50 - ln 1\<close>, which is not \<open>ln 1e-51 - ln 1\<close>; with outputs that are all zero
  the mean is 0 and the bias is \<open>ln 1e-50 - ln 1\<close> as well.
\<close>

theorem train_without_inputs_counterexample:
  "dimIn exponential_stm = 0 \<and>
   nl_inverse (mNonlinearity exponential_stm) = Some ln \<and>
   mNumComponents exponential_stm = 1 \<and>
   array_mean \<lparr>nrows = 1, ncols = 1, elems = [1 / 10 ^ 51]\<rparr> = Fin (1 / 10 ^ 51) \<and>
   train example_externals \<lparr>nrows = 0, ncols = 1, elems = []\<rparr>
       \<lparr>nrows = 1, ncols = 1, elems = [1 / 10 ^ 51]\<rparr> None None train_all exponential_stm =
     (Inr True, exponential_stm\<lparr>mBiases := [ln (1 / 10 ^ 50) - ln 1]\<rparr>) \<and>
   ln (1 / 10 ^ 50) - ln 1 \<noteq> ln (1 / 10 ^ 51) - ln (1 :: real) \<and>
   array_mean \<lparr>nrows = 1, ncols = 2, elems = [0, 0]\<rparr> = Fin 0 \<and>
   train example_externals \<lparr>nrows = 0, ncols = 2, elems = []\<rparr>
       \<lparr>nrows = 1, ncols = 2, elems = [0, 0]\<rparr> None None train_all exponential_stm =
     (Inr True, exponential_stm\<lparr>mBiases := [ln (1 / 10 ^ 50) - ln 1]\<rparr>)"
proof -
  have d: "dimIn exponential_stm = 0"
    by (simp add: dimIn_def constant_stm_def exponential_stm_def)
  have i: "nl_inverse (mNonlinearity exponential_stm) = Some ln"
    by (simp add: exponential_stm_def ExponentialFunction_def)
  have k: "length (mBiases exponential_stm) = 1" "mNumComponents exponential_stm = 1"
    "numComponents exponential_stm = 1"
    by (simp_all add: exponential_stm_def constant_stm_def numComponents_def)
  have m1: "array_mean \<lparr>nrows = 1, ncols = 1, elems = [1 / 10 ^ 51]\<rparr> = Fin (1 / 10 ^ 51)"
    by (simp add: array_mean_def ddiv_def array_sum_def msize_def)
  have m0: "array_mean \<lparr>nrows = 1, ncols = 2, elems = [0, 0]\<rparr> = Fin 0"
    by (simp add: array_mean_def ddiv_def array_sum_def msize_def numeral_2_eq_2)
  have t1: "train example_externals \<lparr>nrows = 0, ncols = 1, elems = []\<rparr>
       \<lparr>nrows = 1, ncols = 1, elems = [1 / 10 ^ 51]\<rparr> None None train_all exponential_stm =
     (Inr True, exponential_stm\<lparr>mBiases := [ln (1 / 10 ^ 50) - ln 1]\<rparr>)"
    using train_dimIn_0[OF d i m1, of example_externals "\<lparr>nrows = 0, ncols = 1, elems = []\<rparr>"
        None None train_all]
    unfolding k by simp
  have t0: "train example_externals \<lparr>nrows = 0, ncols = 2, elems = []\<rparr>
       \<lparr>nrows = 1, ncols = 2, elems = [0, 0]\<rparr> None None train_all exponential_stm =
     (Inr True, exponential_stm\<lparr>mBiases := [ln (1 / 10 ^ 50) - ln 1]\<rparr>)"
    using train_dimIn_0[OF d i m0, of example_externals "\<lparr>nrows = 0, ncols = 2, elems = []\<rparr>"
        None None train_all]
    unfolding k by simp
  have "ln (1 / 10 ^ 50) \<noteq> ln (1 / 10 ^ 51 :: real)"
    by (subst ln_inj_iff) simp_all
  then have ne: "ln (1 / 10 ^ 50) - ln 1 \<noteq> ln (1 / 10 ^ 51) - ln (1 :: real)" by simp
  show ?thesis using d i k(2) m1 t1 ne m0 t0 by (simp only: simp_thms)
qed


lemma train_linear_only_fit:
  assumes "mDimInNonlinear stm = 0" and "0 < mDimInLinear stm"
    and "nrows input = mDimInLinear stm"
  shows "train ext input output inputVal outputVal params stm =
     (case direct_GLM_fit ext input output inputVal outputVal params stm of
        Inl e \<Rightarrow> (Inl (Thrown e), stm)
      | Inr (converged, glm) \<Rightarrow>
          (Inr converged,
           stm\<lparr>mLinearPredictor := glm_weights glm,
               mBiases := replicate (length (mBiases stm))
                 (glm_bias glm - ln (real (mNumComponents stm)))\<rparr>))"
proof -
  obtain b w bi where q: "GLM_Parameters_new ext =
      \<lparr>batchSize = b, glm_trainWeights = w, glm_trainBias = bi\<rparr>"
    by (cases "GLM_Parameters_new ext") simp
  have d: "dimIn stm \<noteq> 0" "dimInNonlinear stm = 0" "dimInLinear stm = nrows input"
    using assms by (simp_all add: dimIn_def dimInNonlinear_def dimInLinear_def)
  show ?thesis
    unfolding train_def direct_GLM_fit_def q
    by (cases "trainLinearPredictor params"; cases "trainBiases params";
        cases inputVal; cases outputVal)
       (simp_all add: d assms numComponents_def Let_def)
qed


lemma logsumexp_shifted_bias:
  assumes "0 < K"
  shows "logsumexp_spec K (\<lambda>c. replicate K (b - ln (real K)) ! c) = b"
proof -
  have "(\<Sum>c<K. exp (replicate K (b - ln (real K)) ! c)) = (\<Sum>c<K. exp (b - ln (real K)))"
    by (rule sum.cong) simp_all
  also have "\<dots> = real K * exp (b - ln (real K))" by simp
  also have "\<dots> = exp b" using assms by (simp add: exp_diff)
  finally show ?thesis by (simp add: logsumexp_spec_def)
qed

lemma response_after_GLM_fit:
  assumes wf: "wf_STM stm" and nl: "mDimInNonlinear stm = 0" and l: "0 < mDimInLinear stm"
    and w: "length (glm_weights glm) = mDimInLinear stm"
    and rows: "nrows X = mDimInLinear stm"
  shows "response
       (stm\<lparr>mLinearPredictor := glm_weights glm,
            mBiases := replicate (length (mBiases stm))
              (glm_bias glm - ln (real (mNumComponents stm)))\<rparr>) X =
     Inr (GLM_response glm X)"
proof -
  let ?K = "mNumComponents stm"
  let ?stm = "stm\<lparr>mLinearPredictor := glm_weights glm,
      mBiases := replicate (length (mBiases stm)) (glm_bias glm - ln (real ?K))\<rparr>"
  let ?top = "topRows X (mDimInNonlinear stm)"
  let ?bot = "bottomRows X (mDimInLinear stm)"
  from wf have K: "0 < ?K" and lb: "length (mBiases stm) = ?K" by (simp_all add: wf_STM_def)
  have wf': "wf_STM ?stm" using wf w by (simp add: wf_STM_def)
  have split: "response ?stm X = response2 ?stm ?top ?bot"
    using l rows nl
    by (simp add: response.simps[of ?stm X] dimIn_def dimInLinear_def dimInNonlinear_def)
  have "response2 ?stm ?top ?bot = Inr (map (response_spec ?stm ?top ?bot) [0..<ncols ?top])"
    by (rule response_general[OF wf']) simp_all
  moreover have "response_spec ?stm ?top ?bot n =
      (\<Sum>d<length (glm_weights glm). glm_weights glm ! d * coeff X d n) + glm_bias glm"
    if "n < ncols X" for n
  proof -
    have "jointEnergy_spec ?stm ?top c n = replicate ?K (glm_bias glm - ln (real ?K)) ! c" for c
      using nl lb by (simp add: jointEnergy_spec_def)
    then have "logsumexp_spec ?K (\<lambda>c. jointEnergy_spec ?stm ?top c n) = glm_bias glm"
      using logsumexp_shifted_bias[OF K] by simp
    moreover have "(\<Sum>d<mDimInLinear stm. glm_weights glm ! d * coeff ?bot d n) =
        (\<Sum>d<mDimInLinear stm. glm_weights glm ! d * coeff X d n)"
      using that rows by (intro sum.cong) (simp_all add: coeff_bottomRows)
    ultimately show ?thesis by (simp add: response_spec_def w)
  qed
  ultimately show ?thesis
    unfolding split by (simp add: GLM_response_def)
qed


lemma train_linear_only_wrong_rows:
  assumes "mDimInNonlinear stm = 0" and "0 < mDimInLinear stm"
    and "nrows input \<noteq> mDimInLinear stm"
  shows "train ext input output inputVal outputVal params stm =
     (Inl (Thrown (Exception ''Input has wrong dimensionality.'')), stm)"
  using assms by (auto simp add: train_def dimIn_def dimInNonlinear_def dimInLinear_def)

lemma direct_GLM_fit_optimizer:
  "direct_GLM_fit (ext\<lparr>Trainable_train := opt\<rparr>) = direct_GLM_fit ext"
  by (intro ext) (simp add: direct_GLM_fit_def)

text \<open>
  Claim C5. For a model with zero nonlinear and positive linear input dimensionality,
  \<open>train\<close> throws when the input does not have \<open>D_l\<close> rows; otherwise it trains a GLM
  that is constructed with the model's nonlinearity and distribution, passes on an
  exception of that training, and else returns the GLM's convergence flag, copies the
  GLM's weights into \<open>linearPredictor\<close> and sets every bias to the GLM's bias minus
  \<open>ln K\<close>. The response of the resulting model equals the response of the trained GLM on
  every input, and the general optimizer has no part in the result.
\<close>

theorem train_linear_only:
  assumes "wf_STM stm" and "mDimInNonlinear stm = 0" and "0 < mDimInLinear stm"
  shows "(nrows input \<noteq> mDimInLinear stm \<longrightarrow>
        train ext input output inputVal outputVal params stm =
          (Inl (Thrown (Exception ''Input has wrong dimensionality.'')), stm)) \<and>
     (nrows input = mDimInLinear stm \<longrightarrow>
        (\<forall>e. direct_GLM_fit ext input output inputVal outputVal params stm = Inl e \<longrightarrow>
           train ext input output inputVal outputVal params stm = (Inl (Thrown e), stm)) \<and>
        (\<forall>converged glm.
           direct_GLM_fit ext input output inputVal outputVal params stm = Inr (converged, glm) \<longrightarrow>
           train ext input output inputVal outputVal params stm =
             (Inr converged,
              stm\<lparr>mLinearPredictor := glm_weights glm,
                  mBiases := replicate (length (mBiases stm))
                    (glm_bias glm - ln (real (mNumComponents stm)))\<rparr>) \<and>
           (length (glm_weights glm) = mDimInLinear stm \<longrightarrow>
              (\<forall>X. nrows X = mDimInLinear stm \<longrightarrow>
                 response (snd (train ext input output inputVal outputVal params stm)) X =
                   Inr (GLM_response glm X))))) \<and>
     train (ext\<lparr>Trainable_train := opt\<rparr>) input output inputVal outputVal params stm =
       train ext input output inputVal outputVal params stm"
proof -
  note bad = train_linear_only_wrong_rows[OF assms(2,3)]
  note fit = train_linear_only_fit[OF assms(2,3)]
  have indep: "train (ext\<lparr>Trainable_train := opt\<rparr>) input output inputVal outputVal params stm =
      train ext input output inputVal outputVal params stm"
  proof (cases "nrows input = mDimInLinear stm")
    case True
    then show ?thesis by (simp add: fit direct_GLM_fit_optimizer)
  next
    case False
    then show ?thesis by (simp add: bad)
  qed
  have resp: "response (snd (train ext input output inputVal outputVal params stm)) X =
      Inr (GLM_response glm X)"
    if "nrows input = mDimInLinear stm"
      "direct_GLM_fit ext input output inputVal outputVal params stm = Inr (converged, glm)"
      "length (glm_weights glm) = mDimInLinear stm" "nrows X = mDimInLinear stm"
    for converged glm X
    using response_after_GLM_fit[OF assms that(3,4)] that(1,2) by (simp add: fit)
  show ?thesis
    using bad indep resp by (simp add: fit)
qed


lemma wf_linear_stm: "wf_STM linear_stm"
  by (simp add: wf_STM_def linear_stm_def shaped_def)

theorem train_linear_only_witness:
  "wf_STM linear_stm \<and> mDimInNonlinear linear_stm = 0 \<and> 0 < mDimInLinear linear_stm \<and>
   nrows \<lparr>nrows = 1, ncols = 2, elems = [1, 2]\<rparr> = mDimInLinear linear_stm \<and>
   direct_GLM_fit example_externals \<lparr>nrows = 1, ncols = 2, elems = [1, 2]\<rparr>
       \<lparr>nrows = 1, ncols = 2, elems = [1, 0]\<rparr> None None train_all linear_stm =
     Inr (True, \<lparr>glm_dimIn = 1, glm_weights = [1 / 2], glm_bias = 1,
                glm_nonlinearity = LogisticFunction (1 / 10 ^ 12),
                glm_distribution = Bernoulli (1 / 10 ^ 12)\<rparr>) \<and>
   train example_externals \<lparr>nrows = 1, ncols = 2, elems = [1, 2]\<rparr>
       \<lparr>nrows = 1, ncols = 2, elems = [1, 0]\<rparr> None None train_all linear_stm =
     (Inr True, linear_stm\<lparr>mLinearPredictor := [1 / 2], mBiases := [1 - ln 2, 1 - ln 2]\<rparr>) \<and>
   response (linear_stm\<lparr>mLinearPredictor := [1 / 2], mBiases := [1 - ln 2, 1 - ln 2]\<rparr>)
       \<lparr>nrows = 1, ncols = 2, elems = [1, 2]\<rparr> = Inr [3 / 2, 2] \<and>
   train example_externals \<lparr>nrows = 2, ncols = 1, elems = [1, 2]\<rparr>
       \<lparr>nrows = 1, ncols = 1, elems = [1]\<rparr> None None train_all linear_stm =
     (Inl (Thrown (Exception ''Input has wrong dimensionality.'')), linear_stm)"
proof -
  let ?X = "\<lparr>nrows = 1, ncols = 2, elems = [1, 2]\<rparr>"
  let ?Y = "\<lparr>nrows = 1, ncols = 2, elems = [1, 0]\<rparr>"
  let ?B = "\<lparr>nrows = 2, ncols = 1, elems = [1, 2]\<rparr>"
  let ?glm = "\<lparr>glm_dimIn = 1, glm_weights = [1 / 2], glm_bias = 1,
      glm_nonlinearity = LogisticFunction (1 / 10 ^ 12),
      glm_distribution = Bernoulli (1 / 10 ^ 12)\<rparr>"
  have d: "mDimInNonlinear linear_stm = 0" "0 < mDimInLinear linear_stm"
    "nrows ?X = mDimInLinear linear_stm" "nrows ?B \<noteq> mDimInLinear linear_stm"
    "length (glm_weights ?glm) = mDimInLinear linear_stm"
    by (simp_all add: linear_stm_def)
  have k: "length (mBiases linear_stm) = 2" "mNumComponents linear_stm = 2"
    by (simp_all add: linear_stm_def)
  have fit: "direct_GLM_fit example_externals ?X ?Y None None train_all linear_stm =
      Inr (True, ?glm)"
    by (simp add: direct_GLM_fit_def example_externals_def linear_stm_def)
  note good = train_linear_only[OF wf_linear_stm d(1,2), of ?X example_externals ?Y None None
      train_all, THEN conjunct2, THEN conjunct1, rule_format, OF d(3), THEN conjunct2,
      rule_format, OF fit]
  note bad = train_linear_only[OF wf_linear_stm d(1,2), of ?B example_externals
      "\<lparr>nrows = 1, ncols = 1, elems = [1]\<rparr>" None None train_all, THEN conjunct1, rule_format,
      OF d(4)]
  have t: "train example_externals ?X ?Y None None train_all linear_stm =
      (Inr True, linear_stm\<lparr>mLinearPredictor := [1 / 2], mBiases := [1 - ln 2, 1 - ln 2]\<rparr>)"
    using good[THEN conjunct1] unfolding k by (simp add: numeral_2_eq_2)
  have "GLM_response ?glm ?X = [3 / 2, 2]"
    by (simp add: GLM_response_def coeff_def upt_rec[of 0] numeral_2_eq_2)
  with good[THEN conjunct2, rule_format, OF d(5) d(3)]
  have r: "response (linear_stm\<lparr>mLinearPredictor := [1 / 2], mBiases := [1 - ln 2, 1 - ln 2]\<rparr>)
      ?X = Inr [3 / 2, 2]"
    unfolding t by simp
  show ?thesis
    using wf_linear_stm d(1,2,3) fit t r bad by (simp only: simp_thms)
qed

section \<open>Properties of the objective\<close>

lemma views_ok_parameter_views: "views_ok (fst (parameter_views x params stm)) stm"
  by (simp add: views_ok_def parameter_views_def Let_def MatrixLBFGS_def VectorLBFGS_def)

text \<open>The locals of one batch, entry by entry.\<close>

lemma coeff_featureOutput_block:
  assumes "views_ok v stm" "f < mNumFeatures stm" "n < w"
  shows "coeff (mmul (transpose_m (features v)) (block X 0 b (dimInNonlinear stm) w)) f n =
     col_featureOutput v stm X f (b + n)"
  using assms
  by (simp add: views_ok_def coeff_ops col_featureOutput_def cong: sum.cong_simp)

lemma coeff_jointEnergy_block:
  assumes "views_ok v stm" "c < mNumComponents stm" "n < w"
  shows "coeff (colwise_add
           (madd (mmul (weights v)
                    (square (mmul (transpose_m (features v)) (block X 0 b (dimInNonlinear stm) w))))
                 (mmul (predictors v) (block X 0 b (dimInNonlinear stm) w)))
           (biases v)) c n =
     col_jointEnergy v stm X c (b + n)"
  using assms
  by (simp add: views_ok_def coeff_ops col_jointEnergy_def col_featureOutput_def
      cong: sum.cong_simp)

lemma batch_body_unfold:
  "batch_body stm params v derivative want X Y step b acc =
     (let w = min step (ncols X - b);
          logLik = fst acc + sum_list (distribution_logLikelihood (mDistribution stm)
                     (middleCols Y b w) (batch_means v stm X b w));
          grads = snd acc
      in if \<not> want then (logLik, grads)
         else (logLik,
           grads\<lparr>biasesGrad :=
                   (if trainBiases params
                    then map2 (-) (biasesGrad grads)
                           (rowwise_sum (batch_postTmp v stm derivative X Y b w))
                    else biasesGrad grads),
                 weightsGrad :=
                   (if trainWeights params
                    then msub (weightsGrad grads)
                           (mmul (batch_postTmp v stm derivative X Y b w)
                              (transpose_m (square (batch_featureOutput v stm X b w))))
                    else weightsGrad grads),
                 featuresGrad :=
                   (if trainFeatures params
                    then msub (featuresGrad grads)
                           (mmul (batch_inputNonlinear stm X b w)
                              (transpose_m
                                (cwise_product (batch_featureOutput v stm X b w)
                                   (mmul (scale 2 (transpose_m (weights v)))
                                      (batch_postTmp v stm derivative X Y b w)))))
                    else featuresGrad grads),
                 predictorsGrad :=
                   (if trainPredictors params
                    then msub (predictorsGrad grads)
                           (mmul (batch_postTmp v stm derivative X Y b w)
                              (transpose_m (batch_inputNonlinear stm X b w)))
                    else predictorsGrad grads),
                 linearPredictorGrad :=
                   (if trainLinearPredictor params \<and> dimInLinear stm \<noteq> 0
                    then map2 (-) (linearPredictorGrad grads)
                           (times_vec (batch_inputLinear stm X b w)
                              (batch_tmp v stm derivative X Y b w))
                    else linearPredictorGrad grads)\<rparr>))"
  unfolding batch_body_def Let_def batch_postTmp_def batch_tmp_def batch_means_def
    batch_response_def batch_posterior_def batch_energy_def batch_featureOutput_def
    batch_inputLinear_def batch_inputNonlinear_def
  by (cases "snd acc") simp

lemma dims_batch [simp]:
  "nrows (batch_inputNonlinear stm X b w) = dimInNonlinear stm"
  "ncols (batch_inputNonlinear stm X b w) = w"
  "nrows (batch_inputLinear stm X b w) = dimInLinear stm"
  "ncols (batch_inputLinear stm X b w) = w"
  "nrows (batch_featureOutput v stm X b w) = ncols (features v)"
  "ncols (batch_featureOutput v stm X b w) = w"
  "nrows (batch_energy v stm X b w) = nrows (weights v)"
  "ncols (batch_energy v stm X b w) = w"
  "nrows (batch_posterior v stm X b w) = nrows (weights v)"
  "ncols (batch_posterior v stm X b w) = w"
  "nrows (batch_postTmp v stm derivative X Y b w) = nrows (weights v)"
  "ncols (batch_postTmp v stm derivative X Y b w) = w"
  by (simp_all add: batch_inputNonlinear_def batch_inputLinear_def batch_featureOutput_def
      batch_energy_def batch_posterior_def batch_postTmp_def)

lemma coeff_batch_inputNonlinear:
  "d < dimInNonlinear stm \<Longrightarrow> n < w \<Longrightarrow>
     coeff (batch_inputNonlinear stm X b w) d n = coeff X d (b + n)"
  by (simp add: batch_inputNonlinear_def coeff_ops)

lemma coeff_batch_inputLinear:
  "d < dimInLinear stm \<Longrightarrow> n < w \<Longrightarrow>
     coeff (batch_inputLinear stm X b w) d n = coeff X (dimInNonlinear stm + d) (b + n)"
  by (simp add: batch_inputLinear_def coeff_ops)

lemma coeff_batch_featureOutput:
  assumes "views_ok v stm" "f < mNumFeatures stm" "n < w"
  shows "coeff (batch_featureOutput v stm X b w) f n = col_featureOutput v stm X f (b + n)"
  using assms coeff_featureOutput_block[of v stm f n w X b]
  by (simp add: batch_featureOutput_def batch_inputNonlinear_def)

lemma coeff_batch_energy:
  assumes "views_ok v stm" "c < mNumComponents stm" "n < w"
  shows "coeff (batch_energy v stm X b w) c n = col_jointEnergy v stm X c (b + n)"
  using assms coeff_jointEnergy_block[of v stm c n w X b]
  by (simp add: batch_energy_def batch_featureOutput_def batch_inputNonlinear_def)

lemma logSumExp_batch_energy:
  assumes "views_ok v stm"
  shows "logSumExp (batch_energy v stm X b w) = map (\<lambda>n. col_pooled v stm X (b + n)) [0..<w]"
proof -
  have K: "nrows (weights v) = mNumComponents stm" using assms by (simp add: views_ok_def)
  have "col (batch_energy v stm X b w) n =
      map (\<lambda>c. col_jointEnergy v stm X c (b + n)) [0..<mNumComponents stm]" if "n < w" for n
    using that assms by (simp add: col_def K coeff_batch_energy)
  then show ?thesis by (simp add: logSumExp_def col_pooled_def)
qed

lemma coeff_batch_posterior:
  assumes "views_ok v stm" "c < mNumComponents stm" "n < w"
  shows "coeff (batch_posterior v stm X b w) c n =
     exp (col_jointEnergy v stm X c (b + n) - col_pooled v stm X (b + n))"
proof -
  have K: "nrows (weights v) = mNumComponents stm" using assms by (simp add: views_ok_def)
  show ?thesis
    using assms(2,3)
    by (simp add: batch_posterior_def coeff_ops K coeff_batch_energy[OF assms(1)]
        logSumExp_batch_energy[OF assms(1)])
qed

lemma batch_response_columns:
  assumes "views_ok v stm"
  shows "batch_response v stm X b w = map (\<lambda>n. col_response v stm X (b + n)) [0..<w]"
proof -
  have L: "length (linearPredictor v) \<le> dimInLinear stm" using assms by (simp add: views_ok_def)
  have "vec_transpose_times (linearPredictor v) (batch_inputLinear stm X b w) =
      map (\<lambda>n. \<Sum>k<length (linearPredictor v).
             linearPredictor v ! k * coeff X (dimInNonlinear stm + k) (b + n)) [0..<w]"
    using L by (simp add: vec_transpose_times_def coeff_batch_inputLinear cong: sum.cong_simp)
  then show ?thesis
    by (simp add: batch_response_def logSumExp_batch_energy[OF assms] map2_map_map
        col_response_def)
qed

lemma batch_means_columns:
  assumes "views_ok v stm"
  shows "batch_means v stm X b w =
     map (\<lambda>n. nl_apply (mNonlinearity stm) (col_response v stm X (b + n))) [0..<w]"
  by (simp add: batch_means_def batch_response_columns[OF assms] o_def)

lemma coeff_middleCols:
  "0 < nrows Y \<Longrightarrow> n < w \<Longrightarrow> coeff (middleCols Y b w) 0 n = coeff Y 0 (b + n)"
  by (simp add: middleCols_def coeff_ops)

lemma batch_logLik_columns:
  assumes "views_ok v stm" "0 < nrows Y"
  shows "sum_list (distribution_logLikelihood (mDistribution stm) (middleCols Y b w)
            (batch_means v stm X b w)) =
     (\<Sum>n<w. col_logLik v stm X Y (b + n))"
proof -
  have "distribution_logLikelihood (mDistribution stm) (middleCols Y b w)
          (batch_means v stm X b w) = map (\<lambda>n. col_logLik v stm X Y (b + n)) [0..<w]"
    using assms(2)
    by (simp add: distribution_logLikelihood_def batch_means_columns[OF assms(1)]
        coeff_middleCols col_logLik_def)
  then show ?thesis by (simp add: sum_list_map_upt)
qed

lemma batch_tmp_columns:
  assumes "views_ok v stm" "0 < nrows Y"
  shows "batch_tmp v stm derivative X Y b w =
     map (\<lambda>n. col_tmp v stm derivative X Y (b + n)) [0..<w]"
  using assms(2)
  by (simp add: batch_tmp_def distribution_gradient_def batch_means_columns[OF assms(1)]
      batch_response_columns[OF assms(1)] coeff_middleCols col_tmp_def map2_map_map)

lemma coeff_batch_postTmp:
  assumes "views_ok v stm" "0 < nrows Y" "c < mNumComponents stm" "n < w"
  shows "coeff (batch_postTmp v stm derivative X Y b w) c n =
     col_postTmp v stm derivative X Y c (b + n)"
proof -
  have K: "nrows (weights v) = mNumComponents stm" using assms by (simp add: views_ok_def)
  show ?thesis
    using assms(3,4)
    by (simp add: batch_postTmp_def coeff_ops K coeff_batch_posterior[OF assms(1)]
        batch_tmp_columns[OF assms(1,2)] col_postTmp_def)
qed

lemma delta_biases:
  assumes "views_ok v stm" "0 < nrows Y"
  shows "rowwise_sum (batch_postTmp v stm derivative X Y b w) =
     map (\<lambda>c. \<Sum>n<w. col_postTmp v stm derivative X Y c (b + n)) [0..<mNumComponents stm]"
proof -
  have K: "nrows (weights v) = mNumComponents stm" using assms by (simp add: views_ok_def)
  show ?thesis
    by (simp add: rowwise_sum_def K coeff_batch_postTmp[OF assms] cong: sum.cong_simp)
qed

lemma delta_weights:
  assumes "views_ok v stm" "0 < nrows Y"
  shows "mmul (batch_postTmp v stm derivative X Y b w)
           (transpose_m (square (batch_featureOutput v stm X b w))) =
     matrix_of (mNumComponents stm) (mNumFeatures stm)
       (\<lambda>c f. \<Sum>n<w. col_gWeights v stm derivative X Y c f (b + n))"
proof -
  have K: "nrows (weights v) = mNumComponents stm" "ncols (features v) = mNumFeatures stm"
    using assms by (simp_all add: views_ok_def)
  show ?thesis
    unfolding mmul_def dims_ops dims_batch K
    by (rule matrix_of_cong)
       (simp add: K coeff_ops coeff_batch_postTmp[OF assms]
         coeff_batch_featureOutput[OF assms(1)] col_gWeights_def cong: sum.cong_simp)
qed

lemma delta_predictors:
  assumes "views_ok v stm" "0 < nrows Y"
  shows "mmul (batch_postTmp v stm derivative X Y b w)
           (transpose_m (batch_inputNonlinear stm X b w)) =
     matrix_of (mNumComponents stm) (dimInNonlinear stm)
       (\<lambda>c d. \<Sum>n<w. col_gPredictors v stm derivative X Y c d (b + n))"
proof -
  have K: "nrows (weights v) = mNumComponents stm"
    using assms by (simp_all add: views_ok_def)
  show ?thesis
    unfolding mmul_def dims_ops dims_batch K
    by (rule matrix_of_cong)
       (simp add: K coeff_ops coeff_batch_postTmp[OF assms]
         coeff_batch_inputNonlinear col_gPredictors_def cong: sum.cong_simp)
qed

lemma delta_features:
  assumes "views_ok v stm" "0 < nrows Y"
  shows "mmul (batch_inputNonlinear stm X b w)
           (transpose_m
             (cwise_product (batch_featureOutput v stm X b w)
                (mmul (scale 2 (transpose_m (weights v)))
                   (batch_postTmp v stm derivative X Y b w)))) =
     matrix_of (dimInNonlinear stm) (mNumFeatures stm)
       (\<lambda>d f. \<Sum>n<w. col_gFeatures v stm derivative X Y d f (b + n))"
proof -
  have K: "nrows (weights v) = mNumComponents stm" "ncols (features v) = mNumFeatures stm"
    "ncols (weights v) = mNumFeatures stm"
    using assms by (simp_all add: views_ok_def)
  show ?thesis
    unfolding mmul_def[of "batch_inputNonlinear stm X b w"] dims_ops dims_batch K
    by (rule matrix_of_cong)
       (simp add: K coeff_ops coeff_batch_postTmp[OF assms]
         coeff_batch_featureOutput[OF assms(1)] coeff_batch_inputNonlinear
         col_gFeatures_def cong: sum.cong_simp)
qed

lemma delta_linear:
  assumes "views_ok v stm" "0 < nrows Y"
  shows "times_vec (batch_inputLinear stm X b w) (batch_tmp v stm derivative X Y b w) =
     map (\<lambda>d. \<Sum>n<w. col_gLinear v stm derivative X Y d (b + n)) [0..<dimInLinear stm]"
  by (simp add: times_vec_def batch_tmp_columns[OF assms] coeff_batch_inputLinear
      col_gLinear_def cong: sum.cong_simp)

lemma batch_sum_Nil [simp]: "batch_sum step N [] h = 0"
  by (simp add: batch_sum_def)

lemma batch_sum_snoc:
  "batch_sum step N (bs @ [b]) h = batch_sum step N bs h + (\<Sum>n<min step (N - b). h (b + n))"
  by (simp add: batch_sum_def)

lemma msub_matrix_of:
  "msub (matrix_of r c g) (matrix_of r c h) = matrix_of r c (\<lambda>i j. g i j - h i j)"
  unfolding msub_def nrows_matrix_of ncols_matrix_of by (rule matrix_of_cong) simp

lemma setZero_form:
  "(0, setZero stm) = batches_form stm params v derivative want X Y (batch_sum step N [])"
  by (simp add: batches_form_def setZero_def map_replicate_const cong: if_cong)

lemma batch_body_form:
  assumes ok: "views_ok v stm" "0 < nrows Y"
  shows "batch_body stm params v derivative want X Y step b
       (batches_form stm params v derivative want X Y (batch_sum step (ncols X) bs)) =
     batches_form stm params v derivative want X Y (batch_sum step (ncols X) (bs @ [b]))"
proof (cases want)
  case False
  then show ?thesis
    by (simp add: batch_body_unfold Let_def batches_form_def batch_sum_snoc
        batch_logLik_columns[OF ok])
next
  case True
  let ?w = "min step (ncols X - b)"
  let ?S = "batch_sum step (ncols X)"
  have b: "map2 (-) (map (\<lambda>c. - ?S bs (h c)) [0..<K])
              (map (\<lambda>c. \<Sum>n<?w. h c (b + n)) [0..<K]) =
        map (\<lambda>c. - ?S (bs @ [b]) (h c)) [0..<K]" for K h
    by (simp add: map2_map_map batch_sum_snoc)
  have m: "msub (matrix_of r c (\<lambda>i j. - ?S bs (h i j)))
              (matrix_of r c (\<lambda>i j. \<Sum>n<?w. h i j (b + n))) =
        matrix_of r c (\<lambda>i j. - ?S (bs @ [b]) (h i j))" for r c h
    by (simp add: msub_matrix_of batch_sum_snoc)
  have z: "dimInLinear stm = 0 \<Longrightarrow> map f [0..<dimInLinear stm] = map g [0..<dimInLinear stm]"
    for f g :: "nat \<Rightarrow> real"
    by simp
  show ?thesis
    using True
    by (simp add: batch_body_unfold Let_def batches_form_def batch_sum_snoc[of _ _ _ _ "col_logLik v stm X Y"]
        batch_logLik_columns[OF ok] delta_biases[OF ok] delta_weights[OF ok]
        delta_features[OF ok] delta_predictors[OF ok] delta_linear[OF ok] b m)
qed

lemma fold_batch_body_form:
  assumes ok: "views_ok v stm" "0 < nrows Y"
  shows "fold (batch_body stm params v derivative want X Y step) order
       (batches_form stm params v derivative want X Y (batch_sum step (ncols X) bs)) =
     batches_form stm params v derivative want X Y (batch_sum step (ncols X) (bs @ order))"
proof (induction order arbitrary: bs)
  case Nil
  then show ?case by simp
next
  case (Cons b order)
  show ?case
    using Cons.IH[of "bs @ [b]"] by (simp add: batch_body_form[OF ok])
qed

lemma run_batches_form:
  assumes ok: "views_ok v stm" "0 < nrows Y"
  shows "run_batches stm params v derivative want X Y step order =
     batches_form stm params v derivative want X Y (batch_sum step (ncols X) order)"
  unfolding run_batches_def setZero_form[of stm params v derivative want X Y step "ncols X"]
  using fold_batch_body_form[OF ok, of params derivative want X step order "[]"] by simp

text \<open>The batches cover every column once.\<close>

lemma for_batches_bounds:
  "x \<in> set (for_batches configured N b) \<Longrightarrow> b \<le> x \<and> x < N"
proof (induction configured N b rule: for_batches.induct)
  case (1 configured numData b)
  then show ?case
    by (subst (asm) (2) for_batches.simps) (auto split: if_splits)
qed

lemma batch_size_pos: "0 < N \<Longrightarrow> 0 < batch_size configured N"
  by (simp add: batch_size_def)

lemma distinct_for_batches: "distinct (for_batches configured N b)"
proof (induction configured N b rule: for_batches.induct)
  case (1 configured numData b)
  show ?case
  proof (cases "b < numData")
    case True
    then have "0 < batch_size configured numData" by (intro batch_size_pos) simp
    then have "b \<notin> set (for_batches configured numData (b + batch_size configured numData))"
      using for_batches_bounds[of b configured numData "b + batch_size configured numData"]
      by auto
    with True 1 show ?thesis by (subst for_batches.simps) simp
  next
    case False
    then show ?thesis by (subst for_batches.simps) simp
  qed
qed

lemma sum_shift: "(\<Sum>n<k. h (b + n)) = (\<Sum>n = b..<b + k. (h n :: real))" for h :: "nat \<Rightarrow> real"
  using sum.shift_bounds_nat_ivl[of h 0 b k] by (simp add: lessThan_atLeast0 add.commute)

lemma batch_sum_for_batches:
  "b \<le> N \<Longrightarrow>
     batch_sum (batch_size configured N) N (for_batches configured N b) h = (\<Sum>n = b..<N. h n)"
proof (induction configured N b rule: for_batches.induct)
  case (1 configured numData b)
  let ?s = "batch_size configured numData"
  show ?case
  proof (cases "b < numData")
    case False
    with 1(2) show ?thesis by (subst for_batches.simps) simp
  next
    case True
    have unfold: "batch_sum ?s numData (for_batches configured numData b) h =
        (\<Sum>n<min ?s (numData - b). h (b + n))
        + batch_sum ?s numData (for_batches configured numData (b + ?s)) h"
      using True by (subst for_batches.simps) (simp add: batch_sum_def)
    show ?thesis
    proof (cases "b + ?s \<le> numData")
      case le: True
      then have "min ?s (numData - b) = ?s" by simp
      moreover have "batch_sum ?s numData (for_batches configured numData (b + ?s)) h =
          (\<Sum>n = b + ?s..<numData. h n)"
        using 1(1)[OF True le] .
      ultimately show ?thesis
        unfolding unfold using le
        by (simp add: sum_shift sum.atLeastLessThan_concat)
    next
      case gt: False
      then have "min ?s (numData - b) = numData - b" by simp
      moreover have "for_batches configured numData (b + ?s) = []"
        using gt by (subst for_batches.simps) simp
      ultimately show ?thesis
        unfolding unfold using True by (simp add: sum_shift)
    qed
  qed
qed

lemma batch_sum_rearranged:
  assumes "distinct order" "set order = set (for_batches configured N 0)"
  shows "batch_sum (batch_size configured N) N order h = (\<Sum>n<N. h n)"
proof -
  let ?f = "\<lambda>b. \<Sum>n<min (batch_size configured N) (N - b). h (b + n)"
  have "batch_sum (batch_size configured N) N order h = sum ?f (set order)"
    unfolding batch_sum_def using assms(1) by (rule sum_list_distinct_conv_sum_set)
  also have "\<dots> = sum ?f (set (for_batches configured N 0))" by (simp add: assms(2))
  also have "\<dots> = batch_sum (batch_size configured N) N (for_batches configured N 0) h"
    unfolding batch_sum_def
    by (rule sum_list_distinct_conv_sum_set[symmetric]) (rule distinct_for_batches)
  also have "\<dots> = (\<Sum>n<N. h n)"
    by (simp add: batch_sum_for_batches lessThan_atLeast0)
  finally show ?thesis .
qed

lemma run_batches_total:
  assumes "views_ok v stm" "0 < nrows Y"
    and "distinct order" "set order = set (for_batches configured (ncols X) 0)"
  shows "run_batches stm params v derivative want X Y (batch_size configured (ncols X)) order =
     batches_form stm params v derivative want X Y (\<lambda>h. \<Sum>n<ncols X. h n)"
proof -
  have "batch_sum (batch_size configured (ncols X)) (ncols X) order = (\<lambda>h. \<Sum>n<ncols X. h n)"
    by (rule ext) (rule batch_sum_rearranged[OF assms(3,4)])
  then show ?thesis by (simp add: run_batches_form[OF assms(1,2)])
qed

lemma dbl_not_equal_self: "dbl_not_equal v v \<longleftrightarrow> v = NaN"
  by (cases v) simp_all

lemma objective_unfold:
  "objective inputCompl outputCompl x g params stm derivative =
     (regularizer_value params (fst (parameter_views x params stm))
        (ddiv (- fst (accumulated inputCompl outputCompl x g params stm derivative))
           (normConst inputCompl stm)),
      case g of
        None \<Rightarrow> None
      | Some buffer \<Rightarrow>
          Some (flatten params
            (regularizer_gradient params (fst (parameter_views x params stm))
              (normalize_gradient (snd (accumulated inputCompl outputCompl x g params stm derivative))
                 (normConst inputCompl stm)))))"
  unfolding objective_def accumulated_def Let_def split_def by (rule refl)

lemma normConst_pos: "0 < ncols inputCompl \<Longrightarrow> 0 < normConst inputCompl stm"
  by (simp add: normConst_def dimOut_def)

lemma regularizer_value_Fin:
  "regularizer_value params v (Fin a) =
     Fin (a
       + (if regularized (trainFeatures params) (regularizeFeatures params)
          then penalty (regularizer params) (regularizeFeatures params) (elems (features v)) else 0)
       + (if regularized (trainPredictors params) (regularizePredictors params)
          then penalty (regularizer params) (regularizePredictors params) (elems (predictors v)) else 0)
       + (if regularized (trainWeights params) (regularizeWeights params)
          then penalty (regularizer params) (regularizeWeights params) (elems (weights v)) else 0)
       + (if regularized (trainLinearPredictor params) (regularizeLinearPredictor params)
          then penalty (regularizer params) (regularizeLinearPredictor params) (linearPredictor v) else 0))"
  by (cases "regularizer params")
     (simp_all add: regularizer_value_def regularized_def penalty_def Let_def power2_eq_square)

lemma map2_dbl_plus_Fin:
  "map2 dbl_plus (map (\<lambda>e. Fin (e / c)) es) (map p ts) = map2 (\<lambda>e t. Fin (e / c + p t)) es ts"
proof (induction es arbitrary: ts)
  case Nil
  then show ?case by simp
next
  case (Cons e es)
  then show ?case by (cases ts) simp_all
qed

lemma normalize_gradient_Fin:
  "c \<noteq> 0 \<Longrightarrow> normalize_gradient grads c =
     \<lparr>gBiases = map (\<lambda>e. Fin (e / c)) (biasesGrad grads),
      gWeights = map (\<lambda>e. Fin (e / c)) (elems (weightsGrad grads)),
      gFeatures = map (\<lambda>e. Fin (e / c)) (elems (featuresGrad grads)),
      gPredictors = map (\<lambda>e. Fin (e / c)) (elems (predictorsGrad grads)),
      gLinearPredictor = map (\<lambda>e. Fin (e / c)) (linearPredictorGrad grads)\<rparr>"
  by (simp add: normalize_gradient_def ddiv_def)

lemma regularizer_gradient_blocks:
  "regularizer_gradient params v
     \<lparr>gBiases = map (\<lambda>e. Fin (e / c)) gb, gWeights = map (\<lambda>e. Fin (e / c)) gw,
      gFeatures = map (\<lambda>e. Fin (e / c)) gf, gPredictors = map (\<lambda>e. Fin (e / c)) gp,
      gLinearPredictor = map (\<lambda>e. Fin (e / c)) gl\<rparr> =
   \<lparr>gBiases = map (\<lambda>e. Fin (e / c)) gb,
    gWeights =
      (if regularized (trainWeights params) (regularizeWeights params)
       then map2 (\<lambda>e t. Fin (e / c
              + penalty_gradient (regularizer params) (regularizeWeights params) t))
              gw (elems (weights v))
       else map (\<lambda>e. Fin (e / c)) gw),
    gFeatures =
      (if regularized (trainFeatures params) (regularizeFeatures params)
       then map2 (\<lambda>e t. Fin (e / c
              + penalty_gradient (regularizer params) (regularizeFeatures params) t))
              gf (elems (features v))
       else map (\<lambda>e. Fin (e / c)) gf),
    gPredictors =
      (if regularized (trainPredictors params) (regularizePredictors params)
       then map2 (\<lambda>e t. Fin (e / c
              + penalty_gradient (regularizer params) (regularizePredictors params) t))
              gp (elems (predictors v))
       else map (\<lambda>e. Fin (e / c)) gp),
    gLinearPredictor =
      (if regularized (trainLinearPredictor params) (regularizeLinearPredictor params)
       then map2 (\<lambda>e t. Fin (e / c
              + penalty_gradient (regularizer params) (regularizeLinearPredictor params) t))
              gl (linearPredictor v)
       else map (\<lambda>e. Fin (e / c)) gl)\<rparr>"
  by (cases "regularizer params")
     (simp_all add: regularizer_gradient_def regularized_def penalty_gradient_def Let_def
       map2_dbl_plus_Fin mult.commute mult.left_commute)

lemma accumulated_total:
  assumes "nrows outputCompl = dimOut stm"
  shows "accumulated inputCompl outputCompl x g params stm derivative =
     batches_form stm params (fst (parameter_views x params stm)) derivative (g \<noteq> None)
       inputCompl outputCompl (\<lambda>h. \<Sum>n<ncols inputCompl. h n)"
  unfolding accumulated_def
  using assms
  by (intro run_batches_total views_ok_parameter_views distinct_for_batches)
     (simp_all add: dimOut_def)

lemma batchSize_irrelevant:
  "parameter_views x (params\<lparr>batchSize := c\<rparr>) stm = parameter_views x params stm"
  "regularizer_value (params\<lparr>batchSize := c\<rparr>) v val = regularizer_value params v val"
  "regularizer_gradient (params\<lparr>batchSize := c\<rparr>) v gb = regularizer_gradient params v gb"
  "flatten (params\<lparr>batchSize := c\<rparr>) gb = flatten params gb"
  "batches_form stm (params\<lparr>batchSize := c\<rparr>) v derivative want X Y summed =
     batches_form stm params v derivative want X Y summed"
  by (cases "regularizer params";
      simp add: parameter_views_def regularizer_value_def regularizer_gradient_def
        flatten_def batches_form_def Let_def cong: if_cong)+

lemma objective_batchSize:
  assumes "nrows outputCompl = dimOut stm"
  shows "objective inputCompl outputCompl x g (params\<lparr>batchSize := c\<rparr>) stm derivative =
     (regularizer_value params (fst (parameter_views x params stm))
        (ddiv (- fst (batches_form stm params (fst (parameter_views x params stm)) derivative
                       (g \<noteq> None) inputCompl outputCompl (\<lambda>h. \<Sum>n<ncols inputCompl. h n)))
           (normConst inputCompl stm)),
      case g of
        None \<Rightarrow> None
      | Some buffer \<Rightarrow>
          Some (flatten params
            (regularizer_gradient params (fst (parameter_views x params stm))
              (normalize_gradient
                 (snd (batches_form stm params (fst (parameter_views x params stm)) derivative
                       (g \<noteq> None) inputCompl outputCompl (\<lambda>h. \<Sum>n<ncols inputCompl. h n)))
                 (normConst inputCompl stm)))))"
  unfolding objective_unfold accumulated_total[OF assms] batchSize_irrelevant by (rule refl)

lemma batch_widths_cover:
  "(\<Sum>b\<leftarrow>for_batches configured N 0. min (batch_size configured N) (N - b)) = N"
proof -
  have r: "real (\<Sum>b\<leftarrow>bs. f b) = (\<Sum>b\<leftarrow>bs. real (f b))" for bs :: "nat list" and f
    by (induction bs) simp_all
  have "real (\<Sum>b\<leftarrow>for_batches configured N 0. min (batch_size configured N) (N - b)) =
      batch_sum (batch_size configured N) N (for_batches configured N 0) (\<lambda>n. 1)"
    by (simp add: batch_sum_def r)
  also have "\<dots> = real N" by (simp add: batch_sum_for_batches)
  finally show ?thesis by simp
qed

lemma parameterGradient_finite:
  assumes "0 < ncols inputCompl" and "nl_derivative (mNonlinearity stm) = Some derivative"
  shows "parameterGradient inputCompl outputCompl x g params stm =
     Inr (regularizer_value params (fst (parameter_views x params stm))
            (Fin (- fst (accumulated inputCompl outputCompl x g params stm derivative)
                  / (real (ncols inputCompl) * ln 2 * real (dimOut stm)))),
          map_option (\<lambda>buffer. flatten params
            (regularizer_gradient params (fst (parameter_views x params stm))
              (divided_by (real (ncols inputCompl) * ln 2 * real (dimOut stm))
                (snd (accumulated inputCompl outputCompl x g params stm derivative))))) g)"
proof -
  have c: "normConst inputCompl stm \<noteq> 0" using normConst_pos[OF assms(1), of stm] by simp
  have n: "normConst inputCompl stm = real (ncols inputCompl) * ln 2 * real (dimOut stm)"
    by (simp add: normConst_def)
  have d: "ddiv a (normConst inputCompl stm) = Fin (a / normConst inputCompl stm)" for a
    using c by (simp add: ddiv_def)
  have f: "regularizer_value params v (Fin a) \<noteq> NaN" for v a
    by (simp add: regularizer_value_Fin)
  show ?thesis
    unfolding parameterGradient_def objective_unfold normalize_gradient_Fin[OF c] d divided_by_def
    by (cases g) (simp_all add: assms(2) dbl_not_equal_self f n)
qed

lemma regularizer_value_penalties:
  "regularizer_value params v (Fin a) =
     Fin (a
       + block_penalty (regularizer params) (trainFeatures params) (regularizeFeatures params)
           (elems (features v))
       + block_penalty (regularizer params) (trainPredictors params) (regularizePredictors params)
           (elems (predictors v))
       + block_penalty (regularizer params) (trainWeights params) (regularizeWeights params)
           (elems (weights v))
       + block_penalty (regularizer params) (trainLinearPredictor params)
           (regularizeLinearPredictor params) (linearPredictor v))"
  by (simp add: regularizer_value_Fin block_penalty_def)

lemma regularizer_gradient_divided:
  "regularizer_gradient params v (divided_by c grads) =
     \<lparr>gBiases = map (\<lambda>e. Fin (e / c)) (biasesGrad grads),
      gWeights = regularized_block (regularizer params) (trainWeights params)
                   (regularizeWeights params) c (elems (weightsGrad grads)) (elems (weights v)),
      gFeatures = regularized_block (regularizer params) (trainFeatures params)
                   (regularizeFeatures params) c (elems (featuresGrad grads)) (elems (features v)),
      gPredictors = regularized_block (regularizer params) (trainPredictors params)
                   (regularizePredictors params) c (elems (predictorsGrad grads))
                   (elems (predictors v)),
      gLinearPredictor = regularized_block (regularizer params) (trainLinearPredictor params)
                   (regularizeLinearPredictor params) c (linearPredictorGrad grads)
                   (linearPredictor v)\<rparr>"
  by (simp add: divided_by_def regularizer_gradient_blocks regularized_block_def)

lemma regularizer_off:
  assumes "\<not> regularized (trainFeatures params) (regularizeFeatures params)"
    "\<not> regularized (trainPredictors params) (regularizePredictors params)"
    "\<not> regularized (trainWeights params) (regularizeWeights params)"
    "\<not> regularized (trainLinearPredictor params) (regularizeLinearPredictor params)"
  shows "regularizer_value params v (Fin a) = Fin a"
    and "regularizer_gradient params v (divided_by c grads) = divided_by c grads"
proof -
  show "regularizer_value params v (Fin a) = Fin a"
    using assms by (simp add: regularizer_value_penalties block_penalty_def)
  show "regularizer_gradient params v (divided_by c grads) = divided_by c grads"
    unfolding regularizer_gradient_divided regularized_block_def
    using assms by (simp add: divided_by_def)
qed

lemma example_data:
  "0 < ncols example_input" "nrows example_output = dimOut example_stm"
  "ncols example_input = 12"
  "nl_derivative (mNonlinearity example_stm) =
     Some (the (nl_derivative (mNonlinearity example_stm)))"
  by (simp_all add: example_input_def example_output_def dimOut_def example_stm_def
      LogisticFunction_def)

lemma for_batches_examples:
  "for_batches 10 12 0 = [0, 10]" "for_batches 12 12 0 = [0]" "for_batches 2000 12 0 = [0]"
  "batch_size 10 12 = 10" "batch_size 12 12 = 12" "batch_size 2000 12 = 12"
  by (simp_all add: for_batches.simps batch_size_def)



lemma train_all_unregularized:
  "\<not> regularized (trainFeatures train_all) (regularizeFeatures train_all)"
  "\<not> regularized (trainPredictors train_all) (regularizePredictors train_all)"
  "\<not> regularized (trainWeights train_all) (regularizeWeights train_all)"
  "\<not> regularized (trainLinearPredictor train_all) (regularizeLinearPredictor train_all)"
  by (simp_all add: regularized_def train_all_def)



text \<open>
  Claim C8. For a data set with at least one example: the returned objective is the
  normalised loss plus, for each of the blocks features, predictors, weights and
  linearPredictor that is trained with a positive coefficient \<open>\<lambda>\<close>, the penalty
  \<open>\<lambda> * \<Sum>\<bar>\<theta>\<bar>\<close> (L1) or \<open>\<lambda> * \<Sum>\<theta>\<^sup>2\<close> (L2) over the block; the entries of the gradient of
  such a block are the normalised entries plus \<open>\<lambda> * sgn \<theta>\<close> (L1) or \<open>2 * \<lambda> * \<theta>\<close> (L2),
  and the entries of every other block, the biases among them, are the normalised
  entries alone.
\<close>

theorem regularized_objective:
  assumes "0 < ncols inputCompl" and "nl_derivative (mNonlinearity stm) = Some derivative"
  shows "parameterGradient inputCompl outputCompl x g params stm =
     Inr (Fin (- fst (accumulated inputCompl outputCompl x g params stm derivative)
               / (real (ncols inputCompl) * ln 2 * real (dimOut stm))
            + block_penalty (regularizer params) (trainFeatures params)
                (regularizeFeatures params)
                (elems (features (fst (parameter_views x params stm))))
            + block_penalty (regularizer params) (trainPredictors params)
                (regularizePredictors params)
                (elems (predictors (fst (parameter_views x params stm))))
            + block_penalty (regularizer params) (trainWeights params)
                (regularizeWeights params)
                (elems (weights (fst (parameter_views x params stm))))
            + block_penalty (regularizer params) (trainLinearPredictor params)
                (regularizeLinearPredictor params)
                (linearPredictor (fst (parameter_views x params stm)))),
          map_option (\<lambda>buffer. flatten params
            \<lparr>gBiases = map (\<lambda>e. Fin (e / (real (ncols inputCompl) * ln 2 * real (dimOut stm))))
               (biasesGrad (snd (accumulated inputCompl outputCompl x g params stm derivative))),
             gWeights = regularized_block (regularizer params) (trainWeights params)
               (regularizeWeights params) (real (ncols inputCompl) * ln 2 * real (dimOut stm))
               (elems (weightsGrad (snd (accumulated inputCompl outputCompl x g params stm derivative))))
               (elems (weights (fst (parameter_views x params stm)))),
             gFeatures = regularized_block (regularizer params) (trainFeatures params)
               (regularizeFeatures params) (real (ncols inputCompl) * ln 2 * real (dimOut stm))
               (elems (featuresGrad (snd (accumulated inputCompl outputCompl x g params stm derivative))))
               (elems (features (fst (parameter_views x params stm)))),
             gPredictors = regularized_block (regularizer params) (trainPredictors params)
               (regularizePredictors params) (real (ncols inputCompl) * ln 2 * real (dimOut stm))
               (elems (predictorsGrad (snd (accumulated inputCompl outputCompl x g params stm derivative))))
               (elems (predictors (fst (parameter_views x params stm)))),
             gLinearPredictor = regularized_block (regularizer params) (trainLinearPredictor params)
               (regularizeLinearPredictor params) (real (ncols inputCompl) * ln 2 * real (dimOut stm))
               (linearPredictorGrad (snd (accumulated inputCompl outputCompl x g params stm derivative)))
               (linearPredictor (fst (parameter_views x params stm)))\<rparr>) g)"
  unfolding parameterGradient_finite[OF assms] regularizer_value_penalties
    regularizer_gradient_divided
  by (rule refl)

theorem regularized_objective_witness:
  "0 < ncols example_input \<and>
   nl_derivative (mNonlinearity example_stm) =
     Some (the (nl_derivative (mNonlinearity example_stm))) \<and>
   regularized (trainWeights train_l1) (regularizeWeights train_l1) \<and>
   regularizer train_l1 = L1 \<and>
   elems (weights (fst (parameter_views [1, 2, 3, 4, 5, 6, 7, 8] train_l1 example_stm))) = [3, 4] \<and>
   fst (projr (parameterGradient example_input example_output [1, 2, 3, 4, 5, 6, 7, 8] (Some [])
                 train_l1 example_stm)) =
     Fin (- fst (accumulated example_input example_output [1, 2, 3, 4, 5, 6, 7, 8] (Some [])
                   train_l1 example_stm (the (nl_derivative (mNonlinearity example_stm))))
          / (real (ncols example_input) * ln 2 * real (dimOut example_stm))
          + 1 / 2 * (\<bar>3\<bar> + \<bar>4\<bar>))"
proof -
  note t = regularized_objective[OF example_data(1,4),
      of example_output "[1, 2, 3, 4, 5, 6, 7, 8]" "Some []" train_l1]
  have r: "regularized (trainWeights train_l1) (regularizeWeights train_l1)"
    "regularizer train_l1 = L1"
    "\<not> regularized (trainFeatures train_l1) (regularizeFeatures train_l1)"
    "\<not> regularized (trainPredictors train_l1) (regularizePredictors train_l1)"
    "\<not> regularized (trainLinearPredictor train_l1) (regularizeLinearPredictor train_l1)"
    by (simp_all add: regularized_def train_l1_def train_all_def)
  have w: "elems (weights (fst (parameter_views [1, 2, 3, 4, 5, 6, 7, 8] train_l1 example_stm))) =
      [3, 4]"
    by (simp add: parameter_views_def train_l1_def train_all_def example_stm_def
        MatrixLBFGS_def Let_def)
  have p: "block_penalty (regularizer train_l1) (trainWeights train_l1) (regularizeWeights train_l1)
      (elems (weights (fst (parameter_views [1, 2, 3, 4, 5, 6, 7, 8] train_l1 example_stm)))) =
      1 / 2 * (\<bar>3\<bar> + \<bar>4\<bar>)"
    unfolding w block_penalty_def penalty_def using r(1,2)
    by (simp add: train_l1_def)
  have z: "block_penalty (regularizer train_l1) (trainFeatures train_l1)
        (regularizeFeatures train_l1) th = 0"
    "block_penalty (regularizer train_l1) (trainPredictors train_l1)
        (regularizePredictors train_l1) th = 0"
    "block_penalty (regularizer train_l1) (trainLinearPredictor train_l1)
        (regularizeLinearPredictor train_l1) th = 0" for th
    using r(3-5) by (simp_all add: block_penalty_def)
  have "fst (projr (parameterGradient example_input example_output [1, 2, 3, 4, 5, 6, 7, 8]
                 (Some []) train_l1 example_stm)) =
     Fin (- fst (accumulated example_input example_output [1, 2, 3, 4, 5, 6, 7, 8] (Some [])
                   train_l1 example_stm (the (nl_derivative (mNonlinearity example_stm))))
          / (real (ncols example_input) * ln 2 * real (dimOut example_stm))
          + 1 / 2 * (\<bar>3\<bar> + \<bar>4\<bar>))"
    unfolding t p z by simp
  then show ?thesis
    by (intro conjI example_data(1,4) r(1,2) w)
qed

section \<open>Properties of the objective in double arithmetic\<close>

text \<open>
  NaN absorbs every sum, and the log-likelihood of the loop is the sum over the batches
  in the order in which they run.
\<close>

lemma dbl_add_NaN [simp]: "dbl_add a NaN = NaN" "dbl_add NaN b = NaN"
  by (cases a; simp) simp

lemma foldl_dbl_add_NaN: "foldl dbl_add NaN xs = NaN"
  by (induction xs) simp_all

lemma dbl_sum_NaN: "NaN \<in> set xs \<Longrightarrow> foldl dbl_add a xs = NaN"
proof (induction xs arbitrary: a)
  case Nil
  then show ?case by simp
next
  case (Cons y ys)
  then show ?case by (cases "y = NaN") (simp_all add: foldl_dbl_add_NaN)
qed

lemma fst_batch_body_double:
  "fst (batch_body_double nl distr stm params v derivative want X Y step b acc) =
     dbl_add (fst acc) (batch_logLik_double nl distr stm v X Y step b)"
  by (simp add: batch_body_double_def batch_logLik_double_def Let_def)

lemma fst_fold_batch_body_double:
  "fst (fold (batch_body_double nl distr stm params v derivative want X Y step) order acc) =
     foldl dbl_add (fst acc) (map (batch_logLik_double nl distr stm v X Y step) order)"
  by (induction order arbitrary: acc) (simp_all add: fst_batch_body_double)

lemma fst_run_batches_double:
  "fst (run_batches_double nl distr stm params v derivative want X Y step order) =
     dbl_sum (map (batch_logLik_double nl distr stm v X Y step) order)"
  by (simp add: run_batches_double_def fst_fold_batch_body_double dbl_sum_def)

lemma regularizer_value_double_NaN: "regularizer_value_double params v NaN = NaN"
  by (cases "regularizer params") (simp_all add: regularizer_value_double_def Let_def)

lemma fst_objective_double:
  "fst (objective_double nl distr inputCompl outputCompl x g params stm derivative order) =
     regularizer_value_double params (fst (parameter_views x params stm))
       (dbl_div
          (dbl_neg (dbl_sum (map (batch_logLik_double nl distr stm (fst (parameter_views x params stm))
             inputCompl outputCompl (batch_size (batchSize params) (ncols inputCompl))) order)))
          (Fin (normConst inputCompl stm)))"
  by (simp add: objective_double_def Let_def split_def fst_run_batches_double)

lemma snd_objective_double_None:
  "snd (objective_double nl distr inputCompl outputCompl x None params stm derivative order) = None"
  by (simp add: objective_double_def Let_def split_def)

text \<open>The concrete runs, evaluated step by step.\<close>

lemma upt_small: "[0..<1] = [0]" "[0..<2] = [0, 1]" "[0..<Suc 0] = [0]"
  by (simp_all add: upt_rec)

lemma views_huge:
  "fst (parameter_views huge_features train_all two_feature_stm) =
     \<lparr>biases = [0], weights = \<lparr>nrows = 1, ncols = 2, elems = [1, - 1]\<rparr>,
      features = \<lparr>nrows = 1, ncols = 2, elems = [10 ^ 200, 10 ^ 200]\<rparr>,
      predictors = \<lparr>nrows = 1, ncols = 1, elems = [0]\<rparr>, linearPredictor = []\<rparr>"
  by (simp add: parameter_views_def huge_features_def train_all_def two_feature_stm_def
      VectorLBFGS_def MatrixLBFGS_def dimInNonlinear_def dimInLinear_def Let_def)

lemma views_zero:
  "fst (parameter_views zero_parameters train_all two_feature_stm) =
     \<lparr>biases = [0], weights = \<lparr>nrows = 1, ncols = 2, elems = [0, 0]\<rparr>,
      features = \<lparr>nrows = 1, ncols = 2, elems = [0, 0]\<rparr>,
      predictors = \<lparr>nrows = 1, ncols = 1, elems = [0]\<rparr>, linearPredictor = []\<rparr>"
  by (simp add: parameter_views_def zero_parameters_def train_all_def two_feature_stm_def
      VectorLBFGS_def MatrixLBFGS_def dimInNonlinear_def dimInLinear_def Let_def)

lemma single_batch:
  "for_batches (batchSize train_all) (ncols single_input) 0 = [0]"
  "batch_size (batchSize train_all) (ncols single_input) = 1"
  by (simp_all add: for_batches.simps batch_size_def train_all_def single_input_def)

lemma energy_huge:
  "dcolwise_add
     (dmadd (dmmul (doubles \<lparr>nrows = 1, ncols = 2, elems = [1, - 1]\<rparr>)
               (dsquare (dmmul (dtranspose (doubles \<lparr>nrows = 1, ncols = 2, elems = [10 ^ 200, 10 ^ 200]\<rparr>))
                           (doubles (block single_input 0 0 1 1)))))
            (dmmul (doubles \<lparr>nrows = 1, ncols = 1, elems = [0]\<rparr>) (doubles (block single_input 0 0 1 1))))
     [0] = \<lparr>drows = 1, dcols = 1, delems = [NaN]\<rparr>"
  by (simp add: dcolwise_add_def dmadd_def dmmul_def dsquare_def dcwise_def dtranspose_def
      doubles_def block_def single_input_def dmatrix_of_def matrix_of_def dcoeff_def coeff_def
      upt_small dbl_sum_def dbl_of_real_def DBL_MAX_def signed_infinity_def)

lemma dlogSumExp_NaN: "dlogSumExp \<lparr>drows = 1, dcols = 1, delems = [NaN]\<rparr> = [NaN]"
  by (simp add: dlogSumExp_def dcoeff_def upt_small)

lemma logLik_NaN:
  "dbl_sum (distribution_logLikelihood_double (Bernoulli_double eps) (middleCols single_output 0 1)
      (map (dnl_apply (LogisticFunction_double eps)) [NaN])) = NaN"
  by (simp add: distribution_logLikelihood_double_def middleCols_def block_def matrix_of_def
      single_output_def Bernoulli_double_def LogisticFunction_double_def dbl_sum_def upt_small)

lemma batch_logLik_huge:
  "batch_logLik_double (LogisticFunction_double (1 / 10 ^ 12)) (Bernoulli_double (1 / 10 ^ 12))
     two_feature_stm (fst (parameter_views huge_features train_all two_feature_stm))
     single_input single_output 1 0 = NaN"
proof -
  have dims: "dimInNonlinear two_feature_stm = 1" "dimInLinear two_feature_stm = 0"
    "min 1 (ncols single_input - 0) = 1"
    by (simp_all add: two_feature_stm_def dimInNonlinear_def dimInLinear_def single_input_def)
  show ?thesis
    unfolding views_huge batch_logLik_double_def Let_def dims views.simps energy_huge
      dlogSumExp_NaN
    by (simp only: simp_thms if_False logLik_NaN)
qed

lemma views_weights:
  "fst (parameter_views huge_weights train_l2 two_feature_stm) =
     \<lparr>biases = [0], weights = \<lparr>nrows = 1, ncols = 2, elems = [10 ^ 200, 10 ^ 200]\<rparr>,
      features = \<lparr>nrows = 1, ncols = 2, elems = [0, 0]\<rparr>,
      predictors = \<lparr>nrows = 1, ncols = 1, elems = [0]\<rparr>, linearPredictor = []\<rparr>"
  by (simp add: parameter_views_def huge_weights_def train_l2_def train_all_def two_feature_stm_def
      VectorLBFGS_def MatrixLBFGS_def dimInNonlinear_def dimInLinear_def Let_def)

lemma energy_zero:
  "dcolwise_add
     (dmadd (dmmul (doubles \<lparr>nrows = 1, ncols = 2, elems = [w, w']\<rparr>)
               (dsquare (dmmul (dtranspose (doubles \<lparr>nrows = 1, ncols = 2, elems = [0, 0]\<rparr>))
                           (doubles (block single_input 0 0 1 1)))))
            (dmmul (doubles \<lparr>nrows = 1, ncols = 1, elems = [0]\<rparr>) (doubles (block single_input 0 0 1 1))))
     [0] = \<lparr>drows = 1, dcols = 1, delems = [Fin 0]\<rparr>"
  using DBL_MAX_bounds(1)
  by (simp add: dcolwise_add_def dmadd_def dmmul_def dsquare_def dcwise_def dtranspose_def
      doubles_def block_def single_input_def dmatrix_of_def matrix_of_def dcoeff_def coeff_def
      upt_small dbl_sum_def dbl_of_real_def)

lemma dlogSumExp_zero: "dlogSumExp \<lparr>drows = 1, dcols = 1, delems = [Fin 0]\<rparr> = [Fin 0]"
  using DBL_MAX_bounds(1)
  by (simp add: dlogSumExp_def dcoeff_def upt_small dbl_sub_def dbl_sum_def dbl_of_real_def)

lemma ln2_bounds:
  "0 < ln (2::real)" "\<not> DBL_MAX < - ln 2" "\<not> - ln 2 < - DBL_MAX" "\<not> ln 2 < - DBL_MAX"
  "\<not> DBL_MAX < ln 2" "ln (2::real) \<noteq> 0"
proof -
  have p: "0 < ln (2::real)" by simp
  have q: "ln (2::real) < 2" using ln_less_self[of "2::real"] by simp
  note r = DBL_MAX_bounds(1)
  show "0 < ln (2::real)" by (rule p)
  show "\<not> DBL_MAX < - ln 2" using p q r by linarith
  show "\<not> - ln 2 < - DBL_MAX" using p q r by linarith
  show "\<not> ln 2 < - DBL_MAX" using p q r by linarith
  show "\<not> DBL_MAX < ln 2" using p q r by linarith
  show "ln (2::real) \<noteq> 0" using p by linarith
qed

lemma logLik_zero:
  "dbl_sum (distribution_logLikelihood_double (Bernoulli_double (1 / 10 ^ 12))
      (middleCols single_output 0 1)
      (map (dnl_apply (LogisticFunction_double (1 / 10 ^ 12))) [Fin 0])) = Fin (- ln 2)"
  using DBL_MAX_bounds(1) ln2_bounds
  by (simp add: distribution_logLikelihood_double_def middleCols_def block_def matrix_of_def
      single_output_def Bernoulli_double_def LogisticFunction_double_def dbl_sum_def upt_small
      dbl_of_real_def dbl_sub_def clamp_unit_def coeff_def ln_div)

lemma batch_logLik_features_zero:
  "batch_logLik_double (LogisticFunction_double (1 / 10 ^ 12)) (Bernoulli_double (1 / 10 ^ 12))
     two_feature_stm
     \<lparr>biases = [0], weights = \<lparr>nrows = 1, ncols = 2, elems = [w, w']\<rparr>,
      features = \<lparr>nrows = 1, ncols = 2, elems = [0, 0]\<rparr>,
      predictors = \<lparr>nrows = 1, ncols = 1, elems = [0]\<rparr>, linearPredictor = []\<rparr>
     single_input single_output 1 0 = Fin (- ln 2)"
proof -
  have dims: "dimInNonlinear two_feature_stm = 1" "dimInLinear two_feature_stm = 0"
    "min 1 (ncols single_input - 0) = 1"
    by (simp_all add: two_feature_stm_def dimInNonlinear_def dimInLinear_def single_input_def)
  show ?thesis
    unfolding batch_logLik_double_def Let_def dims views.simps energy_zero dlogSumExp_zero
    by (simp only: simp_thms if_False logLik_zero)
qed

lemma normConst_single: "normConst single_input two_feature_stm = ln 2"
  by (simp add: normConst_def single_input_def dimOut_def)

lemma loss_zero:
  "dbl_div (dbl_neg (dbl_sum [Fin (- ln 2)])) (Fin (ln 2)) = Fin 1"
  using ln2_bounds DBL_MAX_bounds(1) by (simp add: dbl_sum_def dbl_of_real_def)

lemma objective_zero:
  "fst (objective_double (LogisticFunction_double (1 / 10 ^ 12)) (Bernoulli_double (1 / 10 ^ 12))
     single_input single_output zero_parameters None train_all two_feature_stm derivative [0]) =
     Fin 1"
  unfolding fst_objective_double single_batch views_zero list.map batch_logLik_features_zero
    normConst_single loss_zero
  by (simp add: regularizer_value_double_def train_all_def)

lemma single_batch_l2:
  "for_batches (batchSize train_l2) (ncols single_input) 0 = [0]"
  "batch_size (batchSize train_l2) (ncols single_input) = 1"
  by (simp_all add: for_batches.simps batch_size_def train_l2_def train_all_def single_input_def)

lemma objective_weights:
  "fst (objective_double (LogisticFunction_double (1 / 10 ^ 12)) (Bernoulli_double (1 / 10 ^ 12))
     single_input single_output huge_weights None train_l2 two_feature_stm derivative [0]) =
     PInf"
  unfolding fst_objective_double single_batch_l2 views_weights list.map batch_logLik_features_zero
    normConst_single loss_zero
  by (simp add: regularizer_value_double_def train_l2_def train_all_def square_sum_double_def
      dbl_sum_def dbl_of_real_def DBL_MAX_def signed_infinity_def)

text \<open>
  Claim C9, in double arithmetic, for a data set with at least one example and a
  differentiable nonlinearity, whatever the order in which the batches run.
  The objective that \<open>parameterGradient\<close> computes is the negated sum of the
  log-likelihoods of the batches, divided by \<open>N * ln 2 * dimOut\<close>, with the penalty of
  the regularizer added. \<open>parameterGradient\<close> raises no error. It returns the largest
  finite double when this objective is NaN, and the objective itself otherwise, an
  infinite one included; so the value it returns is never NaN. The objective is NaN, and
  the largest finite double is returned, whenever the log-likelihood of some batch is
  NaN: NaN survives the accumulation, the normalisation and the regularizer.

  The concrete runs have a single example. With features of magnitude \<open>1e200\<close> their
  squared outputs overflow to \<open>+\<infinity>\<close>, the weights \<open>1\<close> and \<open>- 1\<close> turn them into
  \<open>+\<infinity>\<close> and \<open>-\<infinity>\<close>, and the joint energy, their sum, is NaN; the largest finite
  double is returned. With all parameters zero the objective is \<open>1\<close> and is returned.
  With weights of magnitude \<open>1e200\<close> under the L2 regularizer the penalty overflows,
  the objective is \<open>+\<infinity>\<close> and is returned as it is.
\<close>

theorem nan_guard:
  assumes "dnl_derivative nl = Some derivative"
    and "0 < ncols inputCompl"
    and "distinct order"
    and "set order = set (for_batches (batchSize params) (ncols inputCompl) 0)"
  shows "fst (objective_double nl distr inputCompl outputCompl x g params stm derivative order) =
       regularizer_value_double params (fst (parameter_views x params stm))
         (dbl_div
            (dbl_neg (dbl_sum (map (batch_logLik_double nl distr stm
               (fst (parameter_views x params stm)) inputCompl outputCompl
               (batch_size (batchSize params) (ncols inputCompl))) order)))
            (Fin (real (ncols inputCompl) * ln 2 * real (dimOut stm)))) \<and>
     parameterGradient_double nl distr inputCompl outputCompl x g params stm order =
       Inr (if fst (objective_double nl distr inputCompl outputCompl x g params stm derivative order)
                 = NaN
            then Fin DBL_MAX
            else fst (objective_double nl distr inputCompl outputCompl x g params stm derivative
                        order),
            snd (objective_double nl distr inputCompl outputCompl x g params stm derivative order)) \<and>
     fst (projr (parameterGradient_double nl distr inputCompl outputCompl x g params stm order))
       \<noteq> NaN \<and>
     ((\<exists>b\<in>set order.
         batch_logLik_double nl distr stm (fst (parameter_views x params stm)) inputCompl
           outputCompl (batch_size (batchSize params) (ncols inputCompl)) b = NaN) \<longrightarrow>
      fst (objective_double nl distr inputCompl outputCompl x g params stm derivative order) = NaN \<and>
      parameterGradient_double nl distr inputCompl outputCompl x g params stm order =
        Inr (Fin DBL_MAX,
             snd (objective_double nl distr inputCompl outputCompl x g params stm derivative
                    order)))"
proof -
  let ?obj = "objective_double nl distr inputCompl outputCompl x g params stm derivative order"
  have guard: "parameterGradient_double nl distr inputCompl outputCompl x g params stm order =
       Inr (if fst ?obj = NaN then Fin DBL_MAX else fst ?obj, snd ?obj)"
    by (simp add: parameterGradient_double_def assms(1) Let_def split_def dbl_not_equal_self)
  have no_NaN: "fst (projr (parameterGradient_double nl distr inputCompl outputCompl x g params
       stm order)) \<noteq> NaN"
    unfolding guard by simp
  have absorbed: "fst ?obj = NaN"
    if "\<exists>b\<in>set order.
         batch_logLik_double nl distr stm (fst (parameter_views x params stm)) inputCompl
           outputCompl (batch_size (batchSize params) (ncols inputCompl)) b = NaN"
  proof -
    from that have "NaN \<in> set (map (batch_logLik_double nl distr stm
        (fst (parameter_views x params stm)) inputCompl outputCompl
        (batch_size (batchSize params) (ncols inputCompl))) order)"
      by (force simp add: image_iff)
    then have "dbl_sum (map (batch_logLik_double nl distr stm
        (fst (parameter_views x params stm)) inputCompl outputCompl
        (batch_size (batchSize params) (ncols inputCompl))) order) = NaN"
      unfolding dbl_sum_def by (rule dbl_sum_NaN)
    then show ?thesis
      by (simp add: fst_objective_double regularizer_value_double_NaN)
  qed
  have computed: "fst ?obj =
       regularizer_value_double params (fst (parameter_views x params stm))
         (dbl_div
            (dbl_neg (dbl_sum (map (batch_logLik_double nl distr stm
               (fst (parameter_views x params stm)) inputCompl outputCompl
               (batch_size (batchSize params) (ncols inputCompl))) order)))
            (Fin (real (ncols inputCompl) * ln 2 * real (dimOut stm))))"
    unfolding fst_objective_double normConst_def by (rule refl)
  have returned: "parameterGradient_double nl distr inputCompl outputCompl x g params stm order =
       Inr (Fin DBL_MAX, snd ?obj)" if "fst ?obj = NaN"
    unfolding guard using that by simp
  show ?thesis
    using absorbed returned by (intro conjI impI computed guard no_NaN) simp_all
qed

theorem nan_guard_witness:
  "dnl_derivative (LogisticFunction_double (1 / 10 ^ 12)) =
     Some (the (dnl_derivative (LogisticFunction_double (1 / 10 ^ 12)))) \<and>
   0 < ncols single_input \<and> distinct [0 :: nat] \<and>
   set [0] = set (for_batches (batchSize train_all) (ncols single_input) 0) \<and>
   set [0] = set (for_batches (batchSize train_l2) (ncols single_input) 0) \<and>
   batch_logLik_double (LogisticFunction_double (1 / 10 ^ 12)) (Bernoulli_double (1 / 10 ^ 12))
       two_feature_stm (fst (parameter_views huge_features train_all two_feature_stm))
       single_input single_output (batch_size (batchSize train_all) (ncols single_input)) 0 = NaN \<and>
   parameterGradient_double (LogisticFunction_double (1 / 10 ^ 12)) (Bernoulli_double (1 / 10 ^ 12))
       single_input single_output huge_features None train_all two_feature_stm [0] =
     Inr (Fin DBL_MAX, None) \<and>
   parameterGradient_double (LogisticFunction_double (1 / 10 ^ 12)) (Bernoulli_double (1 / 10 ^ 12))
       single_input single_output zero_parameters None train_all two_feature_stm [0] =
     Inr (Fin 1, None) \<and>
   parameterGradient_double (LogisticFunction_double (1 / 10 ^ 12)) (Bernoulli_double (1 / 10 ^ 12))
       single_input single_output huge_weights None train_l2 two_feature_stm [0] =
     Inr (PInf, None)"
proof -
  let ?nl = "LogisticFunction_double (1 / 10 ^ 12)"
  let ?distr = "Bernoulli_double (1 / 10 ^ 12)"
  have d: "dnl_derivative ?nl = Some (the (dnl_derivative ?nl))"
    by (simp add: LogisticFunction_double_def)
  have n: "0 < ncols single_input" by (simp add: single_input_def)
  have o: "distinct [0 :: nat]" "set [0] = set (for_batches (batchSize train_all) (ncols single_input) 0)"
    and o2: "set [0] = set (for_batches (batchSize train_l2) (ncols single_input) 0)"
    by (simp_all add: single_batch single_batch_l2)
  have b: "batch_logLik_double ?nl ?distr two_feature_stm
       (fst (parameter_views huge_features train_all two_feature_stm))
       single_input single_output (batch_size (batchSize train_all) (ncols single_input)) 0 = NaN"
    unfolding single_batch by (rule batch_logLik_huge)
  then have e: "\<exists>b\<in>set [0]. batch_logLik_double ?nl ?distr two_feature_stm
       (fst (parameter_views huge_features train_all two_feature_stm))
       single_input single_output (batch_size (batchSize train_all) (ncols single_input)) b = NaN"
    by simp
  note h = nan_guard[OF d n o, of ?distr single_output huge_features None two_feature_stm,
      THEN conjunct2, THEN conjunct2, THEN conjunct2, rule_format, OF e, THEN conjunct2]
  note z = nan_guard[OF d n o, of ?distr single_output zero_parameters None two_feature_stm,
      THEN conjunct2, THEN conjunct1]
  note w = nan_guard[OF d n o(1) o2, of ?distr single_output huge_weights None two_feature_stm,
      THEN conjunct2, THEN conjunct1]
  have h': "parameterGradient_double ?nl ?distr single_input single_output huge_features None
      train_all two_feature_stm [0] = Inr (Fin DBL_MAX, None)"
    using h unfolding snd_objective_double_None .
  have z': "parameterGradient_double ?nl ?distr single_input single_output zero_parameters None
      train_all two_feature_stm [0] = Inr (Fin 1, None)"
    using z unfolding snd_objective_double_None objective_zero by simp
  have w': "parameterGradient_double ?nl ?distr single_input single_output huge_weights None
      train_l2 two_feature_stm [0] = Inr (PInf, None)"
    using w unfolding snd_objective_double_None objective_weights by simp
  show ?thesis
    by (intro conjI d n o o2 b h' z' w')
qed

section \<open>Properties of the packing\<close>

lemma copy_data_all: "copy_data d (length d) = d"
  by (simp add: copy_data_def map_nth)

lemma copy_data_shaped: "shaped M r c \<Longrightarrow> copy_data (elems M) (msize M) = elems M"
  using map_nth[of "elems M"] by (simp add: shaped_def msize_def copy_data_def)

lemma shaped_rebuild: "shaped M r c \<Longrightarrow> \<lparr>nrows = r, ncols = c, elems = elems M\<rparr> = M"
  by (cases M) (simp add: shaped_def)

text \<open>The flat vector is the concatenation of the flagged blocks in the fixed order.\<close>

lemma parameters_blocks:
  assumes "wf_STM stm"
  shows "parameters params stm =
     (if trainBiases params then mBiases stm else []) @
     (if trainWeights params then elems (mWeights stm) else []) @
     (if trainFeatures params then elems (mFeatures stm) else []) @
     (if trainPredictors params then elems (mPredictors stm) else []) @
     (if trainLinearPredictor params then mLinearPredictor stm else [])"
proof -
  from assms
  have w: "copy_data (elems (mWeights stm)) (msize (mWeights stm)) = elems (mWeights stm)"
    and f: "copy_data (elems (mFeatures stm)) (msize (mFeatures stm)) = elems (mFeatures stm)"
    and p: "copy_data (elems (mPredictors stm)) (msize (mPredictors stm)) = elems (mPredictors stm)"
    unfolding wf_STM_def by (blast intro: copy_data_shaped)+
  show ?thesis
    unfolding parameters_def Let_def by (simp add: w f p copy_data_all)
qed

lemma setParameters_parameters:
  assumes "wf_STM stm"
  shows "setParameters (parameters params stm) params stm = stm"
proof -
  from assms have lb: "length (mBiases stm) = mNumComponents stm"
    and sw: "shaped (mWeights stm) (mNumComponents stm) (mNumFeatures stm)"
    and sf: "shaped (mFeatures stm) (mDimInNonlinear stm) (mNumFeatures stm)"
    and sp: "shaped (mPredictors stm) (mNumComponents stm) (mDimInNonlinear stm)"
    and ll: "length (mLinearPredictor stm) = mDimInLinear stm"
    unfolding wf_STM_def by blast+
  have lw: "length (elems (mWeights stm)) = mNumComponents stm * mNumFeatures stm"
    and lf: "length (elems (mFeatures stm)) = mDimInNonlinear stm * mNumFeatures stm"
    and lp: "length (elems (mPredictors stm)) = mNumComponents stm * mDimInNonlinear stm"
    using sw sf sp by (simp_all add: shaped_def)
  note rb = shaped_rebuild[OF sw] shaped_rebuild[OF sf] shaped_rebuild[OF sp]
  show ?thesis
    unfolding setParameters_def Let_def parameters_blocks[OF assms]
    by (cases "trainBiases params"; cases "trainWeights params"; cases "trainFeatures params";
        cases "trainPredictors params"; cases "trainLinearPredictor params")
       (simp_all add: VectorLBFGS_def MatrixLBFGS_def lb lw lf lp ll rb)
qed

lemma setParameters_unflagged:
  "(\<not> trainBiases params \<longrightarrow> mBiases (setParameters x params stm) = mBiases stm) \<and>
   (\<not> trainWeights params \<longrightarrow> mWeights (setParameters x params stm) = mWeights stm) \<and>
   (\<not> trainFeatures params \<longrightarrow> mFeatures (setParameters x params stm) = mFeatures stm) \<and>
   (\<not> trainPredictors params \<longrightarrow>
      mPredictors (setParameters x params stm) = mPredictors stm) \<and>
   (\<not> trainLinearPredictor params \<longrightarrow>
      mLinearPredictor (setParameters x params stm) = mLinearPredictor stm)"
  unfolding setParameters_def Let_def by (simp add: split_def)

text \<open>
  Claim C2. For a model that satisfies the shape invariant and any training
  configuration, \<open>parameters\<close> lays the flagged blocks out in the order biases, weights,
  features, predictors, linearPredictor, writing that vector back with \<open>setParameters\<close>
  under the same configuration gives back the same model (every block has identical
  contents), and \<open>setParameters\<close> on any vector leaves each block that is not flagged as
  it was.
\<close>

theorem parameters_round_trip:
  assumes "wf_STM stm"
  shows "setParameters (parameters params stm) params stm = stm \<and>
     parameters params stm =
       (if trainBiases params then mBiases stm else []) @
       (if trainWeights params then elems (mWeights stm) else []) @
       (if trainFeatures params then elems (mFeatures stm) else []) @
       (if trainPredictors params then elems (mPredictors stm) else []) @
       (if trainLinearPredictor params then mLinearPredictor stm else []) \<and>
     (\<not> trainBiases params \<longrightarrow> mBiases (setParameters x params stm) = mBiases stm) \<and>
     (\<not> trainWeights params \<longrightarrow> mWeights (setParameters x params stm) = mWeights stm) \<and>
     (\<not> trainFeatures params \<longrightarrow> mFeatures (setParameters x params stm) = mFeatures stm) \<and>
     (\<not> trainPredictors params \<longrightarrow>
        mPredictors (setParameters x params stm) = mPredictors stm) \<and>
     (\<not> trainLinearPredictor params \<longrightarrow>
        mLinearPredictor (setParameters x params stm) = mLinearPredictor stm)"
  using setParameters_parameters[OF assms] parameters_blocks[OF assms]
    setParameters_unflagged[of params x stm]
  by (simp only: simp_thms)

theorem parameters_round_trip_witness:
  "wf_STM example_stm \<and>
   parameters train_all example_stm = [1, 2, 3, 4, 5, 6, 7, 8] \<and>
   setParameters [1, 2, 3, 4, 5, 6, 7, 8] train_all example_stm = example_stm \<and>
   \<not> trainBiases train_none \<and> \<not> trainWeights train_none \<and> \<not> trainFeatures train_none \<and>
   \<not> trainPredictors train_none \<and> \<not> trainLinearPredictor train_none \<and>
   mBiases (setParameters [0, 0, 0] train_none example_stm) = [1, 2] \<and>
   mWeights (setParameters [0, 0, 0] train_none example_stm) = mWeights example_stm \<and>
   mFeatures (setParameters [0, 0, 0] train_none example_stm) = mFeatures example_stm \<and>
   mPredictors (setParameters [0, 0, 0] train_none example_stm) = mPredictors example_stm \<and>
   mLinearPredictor (setParameters [0, 0, 0] train_none example_stm) = [8]"
proof -
  have flagged: "trainBiases train_all" "trainWeights train_all" "trainFeatures train_all"
    "trainPredictors train_all" "trainLinearPredictor train_all"
    by (simp_all add: train_all_def)
  have unflagged: "\<not> trainBiases train_none" "\<not> trainWeights train_none"
    "\<not> trainFeatures train_none" "\<not> trainPredictors train_none"
    "\<not> trainLinearPredictor train_none"
    by (simp_all add: train_none_def train_all_def)
  have blocks: "mBiases example_stm = [1, 2]" "elems (mWeights example_stm) = [3, 4]"
    "elems (mFeatures example_stm) = [5]" "elems (mPredictors example_stm) = [6, 7]"
    "mLinearPredictor example_stm = [8]"
    by (simp_all add: example_stm_def)
  note all = parameters_round_trip[OF wf_example_stm, of train_all "[]"]
  have a: "parameters train_all example_stm = [1, 2, 3, 4, 5, 6, 7, 8]"
    using all[THEN conjunct2, THEN conjunct1] by (simp add: flagged blocks)
  have b': "setParameters [1, 2, 3, 4, 5, 6, 7, 8] train_all example_stm = example_stm"
    using all[THEN conjunct1] unfolding a .
  from parameters_round_trip[OF wf_example_stm, of train_none "[0, 0, 0]"]
  have c: "mBiases (setParameters [0, 0, 0] train_none example_stm) = [1, 2]"
    "mWeights (setParameters [0, 0, 0] train_none example_stm) = mWeights example_stm"
    "mFeatures (setParameters [0, 0, 0] train_none example_stm) = mFeatures example_stm"
    "mPredictors (setParameters [0, 0, 0] train_none example_stm) = mPredictors example_stm"
    "mLinearPredictor (setParameters [0, 0, 0] train_none example_stm) = [8]"
    by (simp_all add: unflagged blocks)
  show ?thesis
    using wf_example_stm a b' unflagged c by (simp only: simp_thms)
qed

end
